theory Spec2Isabelle
  imports Complex_Main "HOL-Library.Word"
begin

section \<open>Literals, truth values, clauses and watchers\<close>

text \<open>
  The two source files come from two generations of the solver. Both use the types of
  SolverTypes.h, which is not among the sources: a variable is an unsigned index, a
  literal packs a variable and a sign as \<open>var * 2 + sign\<close>, and a truth value is one
  of true, false and undefined.
\<close>

datatype lbool = l_True | l_False | l_Undef

datatype Lit = Lit (var: nat) (sign: bool)

text \<open>\<open>Lit::toInt\<close>: the packed value, which also orders literals (\<open>operator<\<close>).\<close>

definition toInt :: "Lit \<Rightarrow> nat" where
  "toInt l = 2 * var l + (if sign l then 1 else 0)"

text \<open>\<open>Lit::toLit\<close>: the inverse of the packing.\<close>

definition toLit :: "nat \<Rightarrow> Lit" where
  "toLit n = Lit (n div 2) (n mod 2 = 1)"

text \<open>\<open>operator~\<close> on literals: negation flips the sign bit.\<close>

definition neg :: "Lit \<Rightarrow> Lit" where
  "neg l = Lit (var l) (\<not> sign l)"

text \<open>\<open>operator^\<close> on a literal and a bool: flips the sign when the bool is set.\<close>

definition lit_xor :: "Lit \<Rightarrow> bool \<Rightarrow> Lit" where
  "lit_xor l b = Lit (var l) (sign l \<noteq> b)"

text \<open>
  \<open>lit_Undef\<close> is the literal of the variable \<open>var_Undef\<close>, the largest 31-bit
  value, which no declared variable has.
\<close>

definition var_Undef :: nat where
  "var_Undef = 2147483647"

definition lit_Undef :: Lit where
  "lit_Undef = Lit var_Undef False"

text \<open>\<open>lbool::operator^\<close> and \<open>lbool::getBool\<close>.\<close>

fun lbool_xor :: "lbool \<Rightarrow> bool \<Rightarrow> lbool" where
  "lbool_xor l_True b = (if b then l_False else l_True)"
| "lbool_xor l_False b = (if b then l_True else l_False)"
| "lbool_xor l_Undef b = l_Undef"

definition getBool :: "lbool \<Rightarrow> bool" where
  "getBool v = (v = l_True)"

definition boolToLBool :: "bool \<Rightarrow> lbool" where
  "boolToLBool b = (if b then l_True else l_False)"

text \<open>The value of a literal under an assignment vector: \<open>assigns[p.var()] ^ p.sign()\<close>.\<close>

definition litValue :: "lbool list \<Rightarrow> Lit \<Rightarrow> lbool" where
  "litValue as p = lbool_xor (as ! var p) (sign p)"

section \<open>The solver of cmsat/Solver.cpp\<close>

text \<open>
  A watcher is a tagged union: a binary clause's other literal with the learnt flag, a
  ternary clause's two other literals with the learnt flag, or the offset of a long
  clause in the arena with a blocker literal.
\<close>

datatype Watched =
    WBin Lit bool
  | WTri Lit Lit bool
  | WClause nat Lit

fun isBinary :: "Watched \<Rightarrow> bool" where
  "isBinary (WBin _ _) = True"
| "isBinary _ = False"

fun isTri :: "Watched \<Rightarrow> bool" where
  "isTri (WTri _ _ _) = True"
| "isTri _ = False"

fun wlearnt :: "Watched \<Rightarrow> bool" where
  "wlearnt (WBin _ r) = r"
| "wlearnt (WTri _ _ r) = r"
| "wlearnt (WClause _ _) = False"

fun lit1 :: "Watched \<Rightarrow> Lit" where
  "lit1 (WBin p _) = p"
| "lit1 (WTri p _ _) = p"
| "lit1 (WClause _ b) = b"

record ClauseStats =
  glue :: nat
  conflictNumIntroduced :: nat

record Clause =
  lits :: "Lit list"
  learnt :: bool
  stats :: ClauseStats
  freed :: bool

datatype Elimed =
    ELIMED_NONE
  | ELIMED_VARELIM
  | ELIMED_VARREPLACER
  | ELIMED_QUEUED_VARREPLACER

record BlockedClause =
  blockedOn :: Lit
  blits :: "Lit list"

text \<open>The options of \<open>SolverConf\<close> that \<open>solve\<close> and \<open>simplifyProblem\<close> read.\<close>

record SolverConf =
  startClean :: nat
  doFindAndReplaceEqLits :: bool
  doProbe :: bool
  doClausVivif :: bool
  doSatELite :: bool
  doStamp :: bool
  doCalcReach :: bool
  doSortWatched :: bool
  doRenumberVars :: bool
  doClearStatEveryClauseCleaning :: bool

text \<open>
  The fields of \<open>Solver\<close> and of the classes it extends (PropEngine, Searcher) that the
  functions below read or write. The clause allocator is a list of clauses, a clause's
  offset being its index. The six counters are unsigned 64-bit.
\<close>

record Solver =
  ok :: bool
  assigns :: "lbool list"
  trail :: "Lit list"
  trail_lim :: "nat list"
  qhead :: nat
  elimed :: "Elimed list"
  watches :: "Watched list list"
  clAllocator :: "Clause list"
  longIrredCls :: "nat list"
  longRedCls :: "nat list"
  irredLits :: "64 word"
  redLits :: "64 word"
  irredBins :: "64 word"
  redBins :: "64 word"
  irredTris :: "64 word"
  redTris :: "64 word"
  numNewBinsSinceSCC :: nat
  propsUnit :: nat
  numConflicts :: nat
  zeroLevAssignsByCNF :: nat
  replaceTable :: "Lit list"
  varElimed :: "bool list"
  blockedClauses :: "BlockedClause list"
  mtrand :: "nat \<Rightarrow> nat"
  nextCleanLimit :: nat
  nextCleanLimitInc :: nat
  assumptions :: "Lit list"
  numSimplify :: nat
  needToInterrupt :: bool
  zeroLevAssignsByThreads :: nat
  conf :: SolverConf

definition decisionLevel :: "Solver \<Rightarrow> nat" where
  "decisionLevel s = length (trail_lim s)"

definition nVars :: "Solver \<Rightarrow> nat" where
  "nVars s = length (assigns s)"

definition "value" :: "Solver \<Rightarrow> Lit \<Rightarrow> lbool" where
  "value s p = litValue (assigns s) p"


subsection \<open>The propagation engine\<close>

text \<open>
  Modelled from the spec: \<open>PropEngine::enqueue\<close> is not among the sources. A literal
  assigned true is appended to the trail, the ordered sequence of assigned literals.
\<close>

definition enqueue :: "Lit \<Rightarrow> Solver \<Rightarrow> Solver" where
  "enqueue p s =
     s\<lparr>assigns := (assigns s)[var p := boolToLBool (\<not> sign p)], trail := trail s @ [p]\<rparr>"

definition pushWatch :: "Lit \<Rightarrow> Watched \<Rightarrow> Watched list list \<Rightarrow> Watched list list" where
  "pushWatch l w ws = ws[toInt l := ws ! toInt l @ [w]]"

definition removeWatch :: "Lit \<Rightarrow> Watched \<Rightarrow> Watched list list \<Rightarrow> Watched list list" where
  "removeWatch l w ws = ws[toInt l := remove1 w (ws ! toInt l)]"

text \<open>
  Modelled from the spec: \<open>PropEngine::attachBinClause\<close>, \<open>attachTriClause\<close>,
  \<open>attachClause\<close> and their \<open>detach\<close> counterparts are not among the sources. A binary
  or ternary clause is one watcher per participating literal, symmetrically stored; the
  two other literals of a ternary watcher are kept in increasing order, which
  \<open>checkImplicitStats\<close> asserts. A long clause has exactly two watchers, one for each of
  its first two literals; the blocker is taken to be the clause's third literal.
  Detaching removes the matched copies.
\<close>

definition PropEngine_attachBinClause :: "Lit \<Rightarrow> Lit \<Rightarrow> bool \<Rightarrow> Solver \<Rightarrow> Solver" where
  "PropEngine_attachBinClause a b red s =
     s\<lparr>watches := pushWatch b (WBin a red) (pushWatch a (WBin b red) (watches s))\<rparr>"

definition PropEngine_attachTriClause :: "Lit \<Rightarrow> Lit \<Rightarrow> Lit \<Rightarrow> bool \<Rightarrow> Solver \<Rightarrow> Solver" where
  "PropEngine_attachTriClause a b c red s =
     (let ls = sort_key toInt [a, b, c]; l0 = ls ! 0; l1 = ls ! 1; l2 = ls ! 2
      in s\<lparr>watches := pushWatch l2 (WTri l0 l1 red)
                        (pushWatch l1 (WTri l0 l2 red)
                          (pushWatch l0 (WTri l1 l2 red) (watches s)))\<rparr>)"

definition PropEngine_attachClause :: "nat \<Rightarrow> Solver \<Rightarrow> Solver" where
  "PropEngine_attachClause off s =
     (let c = lits (clAllocator s ! off)
      in s\<lparr>watches := pushWatch (c ! 1) (WClause off (c ! 2))
                        (pushWatch (c ! 0) (WClause off (c ! 2)) (watches s))\<rparr>)"

definition PropEngine_detachBinClause :: "Lit \<Rightarrow> Lit \<Rightarrow> bool \<Rightarrow> Solver \<Rightarrow> Solver" where
  "PropEngine_detachBinClause a b red s =
     s\<lparr>watches := removeWatch b (WBin a red) (removeWatch a (WBin b red) (watches s))\<rparr>"

definition PropEngine_detachTriClause :: "Lit \<Rightarrow> Lit \<Rightarrow> Lit \<Rightarrow> bool \<Rightarrow> Solver \<Rightarrow> Solver" where
  "PropEngine_detachTriClause a b c red s =
     (let ls = sort_key toInt [a, b, c]; l0 = ls ! 0; l1 = ls ! 1; l2 = ls ! 2
      in s\<lparr>watches := removeWatch l2 (WTri l0 l1 red)
                        (removeWatch l1 (WTri l0 l2 red)
                          (removeWatch l0 (WTri l1 l2 red) (watches s)))\<rparr>)"

fun isClauseAt :: "nat \<Rightarrow> Watched \<Rightarrow> bool" where
  "isClauseAt off (WClause o' _) = (o' = off)"
| "isClauseAt off _ = False"

definition removeWCl :: "Lit \<Rightarrow> nat \<Rightarrow> Watched list list \<Rightarrow> Watched list list" where
  "removeWCl l off ws = ws[toInt l := filter (\<lambda>w. \<not> isClauseAt off w) (ws ! toInt l)]"

definition PropEngine_detachModifiedClause :: "Lit \<Rightarrow> Lit \<Rightarrow> nat \<Rightarrow> nat \<Rightarrow> Solver \<Rightarrow> Solver" where
  "PropEngine_detachModifiedClause a b origSize off s =
     s\<lparr>watches := removeWCl b off (removeWCl a off (watches s))\<rparr>"

text \<open>
  Modelled from the spec: \<open>PropEngine::propagate\<close> is not among the sources. Its
  contract is to propagate all forced assignments until fixpoint or conflict and to
  report whether a clause became false. The model reads the attached clauses off the
  watch index and repeatedly assigns the remaining literal of a clause whose other
  literals are all false. The engine also updates the blockers of the watchers and
  moves watchers of long clauses to other watch lists while it propagates; the model
  leaves the watch index as it is, so it says what is assigned and whether there is a
  conflict, and not what the watch index looks like afterwards. Every step assigns a
  variable, so as many steps as there are variables reach the fixpoint.
\<close>

fun watchedClause :: "Clause list \<Rightarrow> Lit \<Rightarrow> Watched \<Rightarrow> Lit list" where
  "watchedClause ar l (WBin p _) = [l, p]"
| "watchedClause ar l (WTri p q _) = [l, p, q]"
| "watchedClause ar l (WClause off _) = lits (ar ! off)"

definition attachedClauses :: "Clause list \<Rightarrow> Watched list list \<Rightarrow> Lit list list" where
  "attachedClauses ar ws =
     concat (map (\<lambda>i. map (watchedClause ar (toLit i)) (ws ! i)) [0..<length ws])"

datatype forced = Conflict | Unit Lit | NoneForced

definition clauseStatus :: "lbool list \<Rightarrow> Lit list \<Rightarrow> forced" where
  "clauseStatus as c =
     (if \<exists>l\<in>set c. litValue as l = l_True then NoneForced
      else case filter (\<lambda>l. litValue as l = l_Undef) c of
             [] \<Rightarrow> Conflict
           | [l] \<Rightarrow> Unit l
           | _ \<Rightarrow> NoneForced)"

fun firstForced :: "lbool list \<Rightarrow> Lit list list \<Rightarrow> forced" where
  "firstForced as [] = NoneForced"
| "firstForced as (c # cs) =
     (case clauseStatus as c of NoneForced \<Rightarrow> firstForced as cs | f \<Rightarrow> f)"

fun propagateSteps :: "nat \<Rightarrow> Lit list list \<Rightarrow> Solver \<Rightarrow> bool \<times> Solver" where
  "propagateSteps 0 cs s =
     (case firstForced (assigns s) cs of Conflict \<Rightarrow> (True, s) | _ \<Rightarrow> (False, s))"
| "propagateSteps (Suc n) cs s =
     (case firstForced (assigns s) cs of
        Conflict \<Rightarrow> (True, s)
      | NoneForced \<Rightarrow> (False, s)
      | Unit l \<Rightarrow> propagateSteps n cs (enqueue l s))"

text \<open>The first component tells whether a conflict was found (\<open>!propagate().isNULL()\<close>).\<close>

definition propagate :: "Solver \<Rightarrow> bool \<times> Solver" where
  "propagate s =
     (let (confl, s') = propagateSteps (nVars s) (attachedClauses (clAllocator s) (watches s)) s
      in (confl, s'\<lparr>qhead := length (trail s')\<rparr>))"

subsection \<open>Attaching and detaching with the counters\<close>

definition attachClause :: "nat \<Rightarrow> Solver \<Rightarrow> Solver" where
  "attachClause off s =
     (let cl = clAllocator s ! off;
          s1 = (if learnt cl then s\<lparr>redLits := redLits s + of_nat (length (lits cl))\<rparr>
                else s\<lparr>irredLits := irredLits s + of_nat (length (lits cl))\<rparr>)
      in PropEngine_attachClause off s1)"

definition attachTriClause :: "Lit \<Rightarrow> Lit \<Rightarrow> Lit \<Rightarrow> bool \<Rightarrow> Solver \<Rightarrow> Solver" where
  "attachTriClause a b c red s =
     (let s1 = (if red then s\<lparr>redLits := redLits s + 3, redTris := redTris s + 1\<rparr>
                else s\<lparr>irredLits := irredLits s + 3, irredTris := irredTris s + 1\<rparr>)
      in PropEngine_attachTriClause a b c red s1)"

definition attachBinClause :: "Lit \<Rightarrow> Lit \<Rightarrow> bool \<Rightarrow> Solver \<Rightarrow> Solver" where
  "attachBinClause a b red s =
     (let s1 = (if red then s\<lparr>redLits := redLits s + 2, redBins := redBins s + 1\<rparr>
                else s\<lparr>irredLits := irredLits s + 2, irredBins := irredBins s + 1\<rparr>);
          s2 = s1\<lparr>numNewBinsSinceSCC := numNewBinsSinceSCC s1 + 1\<rparr>
      in PropEngine_attachBinClause a b red s2)"

definition detachTriClause :: "Lit \<Rightarrow> Lit \<Rightarrow> Lit \<Rightarrow> bool \<Rightarrow> Solver \<Rightarrow> Solver" where
  "detachTriClause a b c red s =
     (let s1 = (if red then s\<lparr>redLits := redLits s - 3, redTris := redTris s - 1\<rparr>
                else s\<lparr>irredLits := irredLits s - 3, irredTris := irredTris s - 1\<rparr>)
      in PropEngine_detachTriClause a b c red s1)"

definition detachBinClause :: "Lit \<Rightarrow> Lit \<Rightarrow> bool \<Rightarrow> Solver \<Rightarrow> Solver" where
  "detachBinClause a b red s =
     (let s1 = (if red then s\<lparr>redLits := redLits s - 2, redBins := redBins s - 1\<rparr>
                else s\<lparr>irredLits := irredLits s - 2, irredBins := irredBins s - 1\<rparr>)
      in PropEngine_detachBinClause a b red s1)"

definition detachModifiedClause :: "Lit \<Rightarrow> Lit \<Rightarrow> nat \<Rightarrow> nat \<Rightarrow> Solver \<Rightarrow> Solver" where
  "detachModifiedClause a b origSize off s =
     (let s1 = (if learnt (clAllocator s ! off) then s\<lparr>redLits := redLits s - of_nat origSize\<rparr>
                else s\<lparr>irredLits := irredLits s - of_nat origSize\<rparr>)
      in PropEngine_detachModifiedClause a b origSize off s1)"

datatype error = AssertionFailed | TooLongClause | OutOfRange

definition detachClause :: "nat \<Rightarrow> Solver \<Rightarrow> error + Solver" where
  "detachClause off s =
     (let c = lits (clAllocator s ! off)
      in if \<not> 3 < length c then Inl AssertionFailed
         else Inr (detachModifiedClause (c ! 0) (c ! 1) (length c) off s))"

subsection \<open>Adding clauses\<close>

text \<open>
  The literal-cleaning loop of \<open>addClauseInt\<close> over the sorted copy \<open>ps\<close>: \<open>p\<close> is the
  literal kept last, \<open>acc\<close> the literals written so far to \<open>ps[0..j)\<close>. The result is
  \<open>None\<close> where the loop returns NULL, and an error where the assertion on eliminated
  variables fails.
\<close>

definition elimedOk :: "Solver \<Rightarrow> Lit \<Rightarrow> bool" where
  "elimedOk s p =
     (elimed s ! var p = ELIMED_NONE \<or> elimed s ! var p = ELIMED_QUEUED_VARREPLACER)"

fun cleanLits :: "Solver \<Rightarrow> Lit \<Rightarrow> Lit list \<Rightarrow> Lit list \<Rightarrow> error + Lit list option" where
  "cleanLits s p acc [] = Inr (Some acc)"
| "cleanLits s p acc (l # ls) =
     (if getBool (value s l) \<or> l = neg p then Inr None
      else if value s l \<noteq> l_False \<and> l \<noteq> p then
        (if elimedOk s l then cleanLits s l (acc @ [l]) ls else Inl AssertionFailed)
      else cleanLits s p acc ls)"

text \<open>
  The switch of \<open>addClauseInt\<close> on the number of literals left. The result is the
  offset of the new clause, \<open>None\<close> for NULL.
\<close>

definition Clause_new :: "Lit list \<Rightarrow> nat \<Rightarrow> Clause" where
  "Clause_new ps confl =
     \<lparr>lits = ps, learnt = False, stats = \<lparr>glue = 0, conflictNumIntroduced = confl\<rparr>,
      freed = False\<rparr>"

definition storeClause :: "Lit list \<Rightarrow> bool \<Rightarrow> ClauseStats \<Rightarrow> bool \<Rightarrow> Solver \<Rightarrow> nat option \<times> Solver" where
  "storeClause ps red st attach s =
     (case ps of
        [] \<Rightarrow> (None, s\<lparr>ok := False\<rparr>)
      | [a] \<Rightarrow>
          (let s1 = enqueue a s; s2 = s1\<lparr>propsUnit := propsUnit s1 + 1\<rparr>
           in if attach then (let (confl, s3) = propagate s2 in (None, s3\<lparr>ok := \<not> confl\<rparr>))
              else (None, s2))
      | [a, b] \<Rightarrow> (None, attachBinClause a b red s)
      | [a, b, c] \<Rightarrow> (None, attachTriClause a b c red s)
      | _ \<Rightarrow>
          (let c0 = Clause_new ps (numConflicts s);
               c1 = (if red then c0\<lparr>learnt := True, stats := (stats c0)\<lparr>glue := glue st\<rparr>\<rparr> else c0);
               c2 = c1\<lparr>stats := st\<rparr>;
               off = length (clAllocator s);
               s1 = s\<lparr>clAllocator := clAllocator s @ [c2]\<rparr>
           in if attach then (Some off, attachClause off s1)
              else if red then (Some off, s1\<lparr>redLits := redLits s1 + of_nat (length ps)\<rparr>)
              else (Some off, s1\<lparr>irredLits := irredLits s1 + of_nat (length ps)\<rparr>)))"

text \<open>
  \<open>addClauseInt\<close>: the three assertions, the sorted copy, the cleaning loop and the
  switch. The second component of the result is what the caller receives in
  \<open>finalLits\<close> when it asks for it.
\<close>

definition addClauseInt ::
  "Lit list \<Rightarrow> bool \<Rightarrow> ClauseStats \<Rightarrow> bool \<Rightarrow> Solver \<Rightarrow> error + (nat option \<times> Lit list option \<times> Solver)" where
  "addClauseInt ls red st attach s =
     (if \<not> ok s \<or> decisionLevel s \<noteq> 0 \<or> (attach \<and> qhead s \<noteq> length (trail s))
      then Inl AssertionFailed
      else case cleanLits s lit_Undef [] (sort_key toInt ls) of
             Inl e \<Rightarrow> Inl e
           | Inr None \<Rightarrow> Inr (None, None, s)
           | Inr (Some ps) \<Rightarrow>
               (let (r, s') = storeClause ps red st attach s in Inr (r, Some ps, s')))"

text \<open>
  The random swaps of \<open>addClauseHelper\<close>. The generator is the sequence of its future
  draws: \<open>randInt()\<close> returns the first and leaves the rest.
\<close>

fun randomise :: "nat \<Rightarrow> nat \<Rightarrow> Lit list \<Rightarrow> (nat \<Rightarrow> nat) \<Rightarrow> Lit list \<times> (nat \<Rightarrow> nat)" where
  "randomise 0 i ps r = (ps, r)"
| "randomise (Suc n) i ps r =
     (let k = (r 0 mod (length ps - i)) + i
      in randomise n (Suc i) (ps[i := ps ! k, k := ps ! i]) (\<lambda>m. r (Suc m)))"

text \<open>
  \<open>addClauseHelper\<close>: the result \<open>None\<close> is the return value false, \<open>Some ps\<close> is
  true with the rewritten literals.
\<close>

definition addClauseHelper :: "Lit list \<Rightarrow> Solver \<Rightarrow> error + (Lit list option \<times> Solver)" where
  "addClauseHelper ps s =
     (if \<not> ok s then Inr (None, s)
      else if decisionLevel s \<noteq> 0 \<or> qhead s \<noteq> length (trail s) then Inl AssertionFailed
      else if length ps > 2 ^ 18 then Inl TooLongClause
      else if \<exists>l\<in>set ps. \<not> var l < nVars s then Inl AssertionFailed
      else
        (let ps1 = map (\<lambda>l. lit_xor (replaceTable s ! var l) (sign l)) ps
         in if \<exists>l\<in>set ps1. varElimed s ! var l then Inl AssertionFailed
            else (let (ps2, r) = randomise (length ps1) 0 ps1 (mtrand s)
                  in Inr (Some ps2, s\<lparr>mtrand := r\<rparr>))))"

text \<open>
  \<open>addClause\<close> and \<open>addLearntClause\<close>. The default-constructed \<open>ClauseStats\<close> that
  \<open>addClause\<close> passes on is the parameter \<open>st0\<close>: its constructor is in Clause.h.
\<close>

definition addClause :: "ClauseStats \<Rightarrow> Lit list \<Rightarrow> Solver \<Rightarrow> error + (bool \<times> Solver)" where
  "addClause st0 ls s =
     (let origTrailSize = length (trail s)
      in case addClauseHelper ls s of
           Inl e \<Rightarrow> Inl e
         | Inr (None, s1) \<Rightarrow> Inr (False, s1)
         | Inr (Some ps, s1) \<Rightarrow>
             (case addClauseInt ps False st0 True s1 of
                Inl e \<Rightarrow> Inl e
              | Inr (cl, _, s2) \<Rightarrow>
                  (let s3 = (case cl of None \<Rightarrow> s2
                             | Some off \<Rightarrow> s2\<lparr>longIrredCls := longIrredCls s2 @ [off]\<rparr>);
                       s4 = s3\<lparr>zeroLevAssignsByCNF :=
                                 zeroLevAssignsByCNF s3 + (length (trail s3) - origTrailSize)\<rparr>
                   in Inr (ok s4, s4))))"

definition addLearntClause :: "Lit list \<Rightarrow> ClauseStats \<Rightarrow> Solver \<Rightarrow> error + (bool \<times> Solver)" where
  "addLearntClause ls st s =
     (case addClauseHelper ls s of
        Inl e \<Rightarrow> Inl e
      | Inr (None, s1) \<Rightarrow> Inr (False, s1)
      | Inr (Some ps, s1) \<Rightarrow>
          (case addClauseInt ps True st True s1 of
             Inl e \<Rightarrow> Inl e
           | Inr (cl, _, s2) \<Rightarrow>
               (let s3 = (case cl of None \<Rightarrow> s2
                          | Some off \<Rightarrow> s2\<lparr>longRedCls := longRedCls s2 @ [off]\<rparr>)
                in Inr (ok s3, s3))))"


subsection \<open>The verifier of the counters\<close>

text \<open>
  \<open>checkImplicitStats\<close> walks the watch index, counts the binary and ternary watchers
  by learnt flag, and asserts that the counts are multiples of two and three and match
  the counters, and that a ternary watcher's literals are ordered and on different
  variables.
\<close>

definition countWatched :: "(Watched \<Rightarrow> bool) \<Rightarrow> Watched list list \<Rightarrow> nat" where
  "countWatched P ws = length (filter P (concat ws))"

fun triOrdered :: "Watched \<Rightarrow> bool" where
  "triOrdered (WTri p q _) = (toInt p < toInt q \<and> var p \<noteq> var q)"
| "triOrdered _ = True"

definition checkImplicitStats :: "Solver \<Rightarrow> bool" where
  "checkImplicitStats s =
     (let ws = watches s;
          thisNumLearntBins = countWatched (\<lambda>w. isBinary w \<and> wlearnt w) ws;
          thisNumNonLearntBins = countWatched (\<lambda>w. isBinary w \<and> \<not> wlearnt w) ws;
          thisNumLearntTris = countWatched (\<lambda>w. isTri w \<and> wlearnt w) ws;
          thisNumNonLearntTris = countWatched (\<lambda>w. isTri w \<and> \<not> wlearnt w) ws
      in (\<forall>w\<in>set (concat ws). triOrdered w) \<and>
         thisNumNonLearntBins mod 2 = 0 \<and> of_nat (thisNumNonLearntBins div 2) = irredBins s \<and>
         thisNumLearntBins mod 2 = 0 \<and> of_nat (thisNumLearntBins div 2) = redBins s \<and>
         thisNumNonLearntTris mod 3 = 0 \<and> of_nat (thisNumNonLearntTris div 3) = irredTris s \<and>
         thisNumLearntTris mod 3 = 0 \<and> of_nat (thisNumLearntTris div 3) = redTris s)"

text \<open>The two counting loops of \<open>checkStats\<close>: freed clauses are skipped.\<close>

fun sumSizes :: "Clause list \<Rightarrow> nat list \<Rightarrow> 64 word \<Rightarrow> 64 word" where
  "sumSizes ar [] n = n"
| "sumSizes ar (off # offs) n =
     sumSizes ar offs (if freed (ar ! off) then n else n + of_nat (length (lits (ar ! off))))"

definition numLitsNonLearnt :: "Solver \<Rightarrow> 64 word" where
  "numLitsNonLearnt s =
     sumSizes (clAllocator s) (longIrredCls s) (irredBins s * 2 + irredTris s * 3)"

definition numLitsLearnt :: "Solver \<Rightarrow> 64 word" where
  "numLitsLearnt s =
     sumSizes (clAllocator s) (longRedCls s) (redBins s * 2 + redTris s * 3)"

definition checkStats :: "bool \<Rightarrow> Solver \<Rightarrow> error + unit" where
  "checkStats allowFreed s =
     (if \<not> checkImplicitStats s then Inl AssertionFailed
      else if (\<exists>off\<in>set (longIrredCls s). freed (clAllocator s ! off)) \<and> \<not> allowFreed
        then Inl AssertionFailed
      else if (\<exists>off\<in>set (longRedCls s). freed (clAllocator s ! off)) \<and> \<not> allowFreed
        then Inl AssertionFailed
      else if numLitsNonLearnt s \<noteq> irredLits s then Inl AssertionFailed
      else if numLitsLearnt s \<noteq> redLits s then Inl AssertionFailed
      else Inr ())"

subsection \<open>Solving\<close>

text \<open>
  The components that \<open>simplifyProblem\<close> and \<open>solve\<close> orchestrate (the implicit-clause
  pass, the prober, the equivalence finder and replacer, the vivifier, the simplifier,
  the searcher, the cleaner, the solution extender) are outside the two source files.
  They enter as parameters: each pass maps the solver to its boolean result and the new
  solver.
\<close>

record Passes =
  reArrangeClauses :: "Solver \<Rightarrow> Solver"
  find2LongXors :: "Solver \<Rightarrow> bool \<times> Solver"
  replaceDue :: "Solver \<Rightarrow> bool"
  performReplace :: "Solver \<Rightarrow> bool \<times> Solver"
  subsumeAndStrengthenImplicit :: "Solver \<Rightarrow> bool \<times> Solver"
  probe :: "Solver \<Rightarrow> bool \<times> Solver"
  vivify :: "bool \<Rightarrow> Solver \<Rightarrow> bool \<times> Solver"
  simplify :: "Solver \<Rightarrow> bool \<times> Solver"
  calcReachability :: "Solver \<Rightarrow> Solver"
  sortWatched :: "Solver \<Rightarrow> Solver"
  renumberVariables :: "Solver \<Rightarrow> Solver"
  clearClauseStats :: "Solver \<Rightarrow> Solver"
  checkImplicitPropagated :: "Solver \<Rightarrow> bool"
  removeAndCleanAll :: "Solver \<Rightarrow> Solver"
  numConflsOf :: "Solver \<Rightarrow> nat"
  Searcher_solve :: "Lit list \<Rightarrow> nat \<Rightarrow> Solver \<Rightarrow> lbool \<times> Solver"
  fullReduce :: "Solver \<Rightarrow> Solver"
  extendSolution :: "Solver \<Rightarrow> Solver"

text \<open>
  A chain of passes with \<open>goto end\<close>: \<open>Inl\<close> carries the solver to the label
  \<open>end\<close> (or out of the function, for the interrupt), \<open>Inr\<close> goes on.
\<close>

datatype exit_kind = GotoEnd | ReturnUndef

definition step :: "bool \<Rightarrow> (Solver \<Rightarrow> bool \<times> Solver) \<Rightarrow> Solver \<Rightarrow> (exit_kind \<times> Solver) + Solver" where
  "step enabled pass s =
     (if enabled then (let (r, s') = pass s in if r then Inr s' else Inl (GotoEnd, s'))
      else Inr s)"

definition andThen ::
  "((exit_kind \<times> Solver) + Solver) \<Rightarrow> (Solver \<Rightarrow> (exit_kind \<times> Solver) + Solver) \<Rightarrow>
   (exit_kind \<times> Solver) + Solver" where
  "andThen r f = (case r of Inl e \<Rightarrow> Inl e | Inr s \<Rightarrow> f s)"

definition laterRound :: "Solver \<Rightarrow> bool" where
  "laterRound s = (0 < numSimplify s \<and> doFindAndReplaceEqLits (conf s))"

definition sccAndReplace :: "Passes \<Rightarrow> bool \<Rightarrow> bool \<Rightarrow> Solver \<Rightarrow> (exit_kind \<times> Solver) + Solver" where
  "sccAndReplace ps enabled always s =
     andThen (step enabled (find2LongXors ps) s)
       (\<lambda>s1. step (enabled \<and> (always \<or> replaceDue ps s1)) (performReplace ps) s1)"

definition simplifyBody :: "Passes \<Rightarrow> Solver \<Rightarrow> (exit_kind \<times> Solver) + Solver" where
  "simplifyBody ps s0 =
     (let s = reArrangeClauses ps s0
      in andThen (sccAndReplace ps (laterRound s) False s) (\<lambda>s.
         andThen (step True (subsumeAndStrengthenImplicit ps) s) (\<lambda>s.
         andThen (step (doProbe (conf s)) (probe ps) s) (\<lambda>s.
         andThen (sccAndReplace ps (laterRound s) True s) (\<lambda>s.
         andThen (if needToInterrupt s then Inl (ReturnUndef, s) else Inr s) (\<lambda>s.
         andThen (step True (subsumeAndStrengthenImplicit ps) s) (\<lambda>s.
         andThen (step (doClausVivif (conf s)) (vivify ps False) s) (\<lambda>s.
         andThen (step (doSatELite (conf s)) (simplify ps) s) (\<lambda>s.
         andThen (step (doClausVivif (conf s)) (vivify ps (1 < numSimplify s)) s) (\<lambda>s.
         andThen (sccAndReplace ps (doFindAndReplaceEqLits (conf s)) False s) (\<lambda>s.
           (let s1 = (if doStamp (conf s) \<and> doCalcReach (conf s) then calcReachability ps s
                      else s);
                s2 = (if doSortWatched (conf s1) then sortWatched ps s1 else s1);
                s3 = (if doRenumberVars (conf s2) then renumberVariables ps s2 else s2)
            in Inr (reArrangeClauses ps s3)))))))))))))"

definition simplifyProblem :: "Passes \<Rightarrow> Solver \<Rightarrow> error + (lbool \<times> Solver)" where
  "simplifyProblem ps s =
     (if \<not> ok s then Inl AssertionFailed
      else case checkStats False s of
        Inl e \<Rightarrow> Inl e
      | Inr _ \<Rightarrow>
         (case simplifyBody ps s of
            Inl (ReturnUndef, s1) \<Rightarrow> Inr (l_Undef, s1)
          | r \<Rightarrow>
             (let s1 = (case r of Inl (_, t) \<Rightarrow> t | Inr t \<Rightarrow> t);
                  s2 = (if doClearStatEveryClauseCleaning (conf s1) then clearClauseStats ps s1
                        else s1);
                  s3 = s2\<lparr>numSimplify := numSimplify s2 + 1\<rparr>
              in if \<not> ok s3 then Inr (l_False, s3)
                 else (case checkStats False s3 of
                         Inl e \<Rightarrow> Inl e
                       | Inr _ \<Rightarrow>
                           if checkImplicitPropagated ps s3 then Inr (l_Undef, s3)
                           else Inl AssertionFailed))))"

text \<open>
  The loop of \<open>solve\<close>. It runs until the status is decided, which may be never, so
  its result is optional: \<open>None\<close> stands for a loop that does not return.
\<close>

partial_function (option) solveLoop ::
  "Passes \<Rightarrow> lbool \<Rightarrow> Solver \<Rightarrow> (error + lbool \<times> Solver) option" where
  "solveLoop ps status s =
     (if status = l_Undef then
        (let s1 = removeAndCleanAll ps s;
             origTrailSize = length (trail s1);
             (status1, s2) = Searcher_solve ps (assumptions s1) (numConflsOf ps s1) s1;
             s3 = (if status1 \<noteq> l_False then fullReduce ps s2 else s2);
             s4 = s3\<lparr>zeroLevAssignsByThreads :=
                       zeroLevAssignsByThreads s3 + (length (trail s3) - origTrailSize)\<rparr>
         in if status1 \<noteq> l_Undef then Some (Inr (status1, s4))
            else (case simplifyProblem ps s4 of
                    Inl e \<Rightarrow> Some (Inl e)
                  | Inr (status2, s5) \<Rightarrow> solveLoop ps status2 s5))
      else Some (Inr (status, s)))"

definition solve :: "Passes \<Rightarrow> Lit list option \<Rightarrow> Solver \<Rightarrow> (error + lbool \<times> Solver) option" where
  "solve ps assumps s0 =
     (let s1 = s0\<lparr>nextCleanLimitInc := startClean (conf s0)\<rparr>;
          s2 = s1\<lparr>nextCleanLimit := nextCleanLimit s1 + nextCleanLimitInc s1\<rparr>;
          s3 = (case assumps of None \<Rightarrow> s2 | Some a \<Rightarrow> s2\<lparr>assumptions := a\<rparr>);
          status = (if ok s3 then l_Undef else l_False);
          first = (if status = l_Undef \<and> 0 < nVars s3 then simplifyProblem ps s3
                   else Inr (status, s3))
      in case first of
           Inl e \<Rightarrow> Some (Inl e)
         | Inr (status1, s4) \<Rightarrow>
            (case solveLoop ps status1 s4 of
               None \<Rightarrow> None
             | Some (Inl e) \<Rightarrow> Some (Inl e)
             | Some (Inr (status2, s5)) \<Rightarrow>
                 if status2 = l_False then Some (Inr (l_False, s5))
                 else if status2 = l_True then Some (Inr (l_True, extendSolution ps s5))
                 else Some (Inr (status2, s5))))"

subsection \<open>Dumping clauses in DIMACS\<close>

text \<open>
  Modelled from the spec: the output operators of literals and clauses are in
  SolverTypes.h and Clause.h. DIMACS writes a variable as its index plus one, in decimal,
  a negated literal with a leading minus, and the literals of a clause separated by
  single spaces. The stream is the list of the lines written so far; \<open>endl\<close> ends a
  line.
\<close>

fun showNat :: "nat \<Rightarrow> string" where
  "showNat n = (if n < 10 then [''0123456789'' ! n]
                else showNat (n div 10) @ [''0123456789'' ! (n mod 10)])"

definition showLit :: "Lit \<Rightarrow> string" where
  "showLit l = (if sign l then ''-'' else []) @ showNat (var l + 1)"

fun showLits :: "Lit list \<Rightarrow> string" where
  "showLits [] = []"
| "showLits [l] = showLit l"
| "showLits (l # ls) = showLit l @ '' '' @ showLits ls"

text \<open>
  \<open>dumpBinClauses\<close>: each binary clause is written once, from the watch list of its
  smaller literal.
\<close>

definition dumpBinOf :: "bool \<Rightarrow> bool \<Rightarrow> Lit \<Rightarrow> Watched \<Rightarrow> string list" where
  "dumpBinOf alsoLearnt alsoNonLearnt l w =
     (if isBinary w \<and> toInt l < toInt (lit1 w) \<and>
         ((wlearnt w \<and> alsoLearnt) \<or> (\<not> wlearnt w \<and> alsoNonLearnt))
      then [showLit (lit1 w) @ '' '' @ showLit l @ '' 0''] else [])"

definition dumpBinClauses :: "bool \<Rightarrow> bool \<Rightarrow> Solver \<Rightarrow> string list" where
  "dumpBinClauses alsoLearnt alsoNonLearnt s =
     concat (map (\<lambda>wsLit. concat (map (dumpBinOf alsoLearnt alsoNonLearnt (toLit wsLit))
                                     (watches s ! wsLit)))
                 [0..<length (watches s)])"

text \<open>
  Modelled from the spec: \<open>countNumBinClauses\<close> is not among the sources; it counts the
  binary clauses of the chosen kinds, each of which has two watchers.
\<close>

definition countNumBinClauses :: "bool \<Rightarrow> bool \<Rightarrow> Solver \<Rightarrow> nat" where
  "countNumBinClauses alsoLearnt alsoNonLearnt s =
     countWatched (\<lambda>w. isBinary w \<and> ((wlearnt w \<and> alsoLearnt) \<or> (\<not> wlearnt w \<and> alsoNonLearnt)))
       (watches s) div 2"

text \<open>The level-0 prefix of the trail.\<close>

definition unitaries :: "Solver \<Rightarrow> Lit list" where
  "unitaries s =
     take (if 0 < length (trail_lim s) then trail_lim s ! 0 else length (trail s)) (trail s)"

text \<open>The variables that the replacement table maps to a literal of another variable.\<close>

definition replaced :: "Solver \<Rightarrow> nat list" where
  "replaced s = filter (\<lambda>v. var (replaceTable s ! v) \<noteq> v) [0..<length (replaceTable s)]"

definition banner :: "string \<Rightarrow> string \<Rightarrow> string list" where
  "banner rule title = [''c '', ''c '' @ rule, ''c '' @ title, ''c '' @ rule]"

text \<open>The two lines that \<open>dumpIrredClauses\<close> writes for a replaced variable.\<close>

definition xorLines :: "Solver \<Rightarrow> nat \<Rightarrow> string list" where
  "xorLines s v =
     (let l = replaceTable s ! v; litP1 = neg l; litP2 = Lit v False
      in [showLit litP1 @ '' '' @ showLit litP2,
          showLit (neg litP1) @ '' '' @ showLit (neg litP2)])"

definition dumpIrredClauses :: "Solver \<Rightarrow> error + string list" where
  "dumpIrredClauses s =
     (let numClauses = length (unitaries s) + 2 * length (replaced s)
                       + countNumBinClauses False True s + length (longIrredCls s)
                       + length (blockedClauses s)
      in if \<exists>off\<in>set (longIrredCls s). learnt (clAllocator s ! off) then Inl AssertionFailed
         else Inr (
           [''p cnf '' @ showNat (nVars s) @ '' '' @ showNat numClauses]
           @ banner ''---------'' ''unitaries''
           @ map (\<lambda>l. showLit l @ '' 0'') (unitaries s)
           @ banner ''---------------------------------------''
                    ''clauses representing 2-long XOR clauses''
           @ concat (map (xorLines s) (replaced s))
           @ banner ''---------------'' ''binary clauses''
           @ dumpBinClauses False True s
           @ banner ''---------------'' ''normal clauses''
           @ map (\<lambda>off. showLits (lits (clAllocator s ! off)) @ '' 0'') (longIrredCls s)
           @ banner ''-------------------------------'' ''previously eliminated variables''
           @ concat (map (\<lambda>b. [''c next clause is eliminated/blocked on lit ''
                                  @ showLit (blockedOn b),
                               showLits (blits b) @ '' 0''])
                         (blockedClauses s))))"

text \<open>
  \<open>dumpLearnts\<close>, the sibling of \<open>dumpIrredClauses\<close>. The output operator of
  \<open>ClauseStats\<close> is in Clause.h and enters as the parameter \<open>showStats\<close>.
\<close>

definition xorLinesLearnts :: "Solver \<Rightarrow> nat \<Rightarrow> string list" where
  "xorLinesLearnts s v =
     (let l = replaceTable s ! v
      in [showLit (neg l) @ '' '' @ showLit (Lit v False) @ '' 0'',
          showLit l @ '' '' @ showLit (Lit v True) @ '' 0''])"

definition dumpLearnts :: "(ClauseStats \<Rightarrow> string) \<Rightarrow> nat \<Rightarrow> Solver \<Rightarrow> string list" where
  "dumpLearnts showStats maxSize s =
     banner ''---------'' ''unitaries''
     @ map (\<lambda>l. showLit l @ '' 0'') (unitaries s)
     @ banner ''---------------------------------''
              ''learnt binary clauses (extracted from watchlists)''
     @ (if 2 \<le> maxSize then dumpBinClauses True False s else [])
     @ banner ''---------------------------------------''
              ''clauses representing 2-long XOR clauses''
     @ (if 2 \<le> maxSize then concat (map (xorLinesLearnts s) (replaced s)) else [])
     @ banner ''--------------------'' ''clauses from learnts''
     @ concat (map (\<lambda>off. (let cl = clAllocator s ! off
                            in if length (lits cl) \<le> maxSize then
                                 [showLits (lits cl) @ '' 0'',
                                  ''c clause learnt '' @ (if learnt cl then ''yes'' else ''no'')
                                    @ '' stats '' @ showStats (stats cl)]
                               else []))
                   (longIrredCls s))"

text \<open>
  A line of the dump is a clause line when it is neither a comment nor the header; it
  is terminated when it ends with the end-of-clause marker.
\<close>

definition isClauseLine :: "string \<Rightarrow> bool" where
  "isClauseLine l = (l \<noteq> [] \<and> hd l \<noteq> CHR ''c'' \<and> hd l \<noteq> CHR ''p'')"

definition terminated :: "string \<Rightarrow> bool" where
  "terminated l = (2 \<le> length l \<and> drop (length l - 2) l = '' 0'')"

section \<open>The failed-variable searcher of Solver/FailedVarSearcher.cpp\<close>

subsection \<open>The solver as the searcher sees it\<close>

text \<open>
  FailedVarSearcher.cpp belongs to the older generation of the solver, whose
  \<open>Solver\<close> class is not among the sources. The record \<open>Solver2\<close> holds the members
  that the searcher reads and writes as \<open>solver.ok\<close>, \<open>solver.trail\<close> and so on; each
  field carries the prefix \<open>solver_\<close>. Clauses are referred to by pointer: a pointer is
  an index into \<open>solver_mem\<close>. The replacement table of the variable replacer and its
  counter of newly replaced variables are the fields \<open>vr_table\<close> and \<open>vr_replacedVars\<close>.
\<close>

record WatchedBin =
  impliedLit :: Lit
  wclause :: nat

record Clause2 =
  cl_lits :: "Lit list"
  cl_learnt :: bool
  cl_group :: nat
  cl_strenghtened :: bool

record XorClause =
  x_lits :: "Lit list"
  xor_clause_inverted :: bool
  x_group :: nat
  x_strenghtened :: bool

record Solver2 =
  solver_ok :: bool
  solver_assigns :: "lbool list"
  solver_trail :: "Lit list"
  solver_trail_lim :: "nat list"
  solver_qhead :: nat
  solver_polarity :: "bool list"
  solver_activity :: "nat list"
  solver_var_inc :: nat
  solver_order_heap :: "nat list"
  solver_decision_var :: "bool list"
  solver_propagations :: nat
  solver_binwatches :: "WatchedBin list list"
  solver_watches :: "nat list list"
  solver_xorwatches :: "nat list list"
  solver_mem :: "Clause2 list"
  solver_binaryClauses :: "nat list"
  solver_clauses :: "nat list"
  solver_learnts :: "nat list"
  solver_removedLearnts :: "nat list"
  solver_xorclauses :: "XorClause list"
  solver_addExtraBins :: bool
  solver_readdOldLearnts :: bool
  solver_nbBin :: nat
  solver_becameBinary :: nat
  solver_clauses_literals :: nat
  solver_learnts_literals :: nat
  solver_mtrand :: "nat \<Rightarrow> nat"
  vr_table :: "Lit list"
  vr_replacedVars :: nat

definition solver_nVars :: "Solver2 \<Rightarrow> nat" where
  "solver_nVars s = length (solver_assigns s)"

definition solver_decisionLevel :: "Solver2 \<Rightarrow> nat" where
  "solver_decisionLevel s = length (solver_trail_lim s)"

definition solver_value :: "Solver2 \<Rightarrow> Lit \<Rightarrow> lbool" where
  "solver_value s p = litValue (solver_assigns s) p"

definition solver_nClauses :: "Solver2 \<Rightarrow> nat" where
  "solver_nClauses s = length (solver_clauses s) + length (solver_binaryClauses s)"

definition getNewToReplaceVars :: "Solver2 \<Rightarrow> nat" where
  "getNewToReplaceVars s = vr_replacedVars s"

text \<open>
  Modelled from the spec: \<open>newDecisionLevel\<close>, \<open>uncheckedEnqueue\<close> and \<open>cancelUntil\<close>
  are not among the sources. The trail is the ordered sequence of assigned literals with
  a parallel vector of the indices where the decision levels start, and it supports
  backtracking to an earlier level; the polarity of a variable caches its last phase.
\<close>

definition newDecisionLevel :: "Solver2 \<Rightarrow> Solver2" where
  "newDecisionLevel s = s\<lparr>solver_trail_lim := solver_trail_lim s @ [length (solver_trail s)]\<rparr>"

definition uncheckedEnqueue :: "Lit \<Rightarrow> Solver2 \<Rightarrow> Solver2" where
  "uncheckedEnqueue p s =
     s\<lparr>solver_assigns := (solver_assigns s)[var p := boolToLBool (\<not> sign p)],
       solver_polarity := (solver_polarity s)[var p := sign p],
       solver_trail := solver_trail s @ [p]\<rparr>"

definition unassign :: "Lit list \<Rightarrow> lbool list \<Rightarrow> lbool list" where
  "unassign ls as = foldl (\<lambda>a l. a[var l := l_Undef]) as ls"

definition cancelUntil :: "nat \<Rightarrow> Solver2 \<Rightarrow> Solver2" where
  "cancelUntil level s =
     (if level < solver_decisionLevel s then
        (let lim = solver_trail_lim s ! level
         in s\<lparr>solver_assigns := unassign (drop lim (solver_trail s)) (solver_assigns s),
              solver_qhead := lim,
              solver_trail := take lim (solver_trail s),
              solver_trail_lim := take level (solver_trail_lim s)\<rparr>)
      else s)"

text \<open>
  Modelled from the spec: \<open>order_heap.filter(Solver::VarFilter(solver))\<close> keeps in the
  decision heap the variables that are still unassigned and eligible for decisions.
\<close>

definition filterHeap :: "Solver2 \<Rightarrow> Solver2" where
  "filterHeap s =
     s\<lparr>solver_order_heap :=
         filter (\<lambda>v. solver_assigns s ! v = l_Undef \<and> solver_decision_var s ! v)
                (solver_order_heap s)\<rparr>"

text \<open>
  The engine and the other components that the searcher calls and that are not among
  the sources enter as the record \<open>Env\<close> of functions on the solver. The propagation
  functions return whether they found a conflict (a non-NULL clause); \<open>vr_replace\<close>,
  \<open>addClauseInt2\<close> return their C++ result with the new solver.
\<close>

record Env =
  propagate2 :: "bool \<Rightarrow> Solver2 \<Rightarrow> bool \<times> Solver2"
  propagateBin :: "Solver2 \<Rightarrow> bool \<times> Solver2"
  propagateBinOneLevel :: "Solver2 \<Rightarrow> bool \<times> Solver2"
  vr_replace :: "Lit list \<Rightarrow> bool \<Rightarrow> nat \<Rightarrow> Solver2 \<Rightarrow> bool \<times> Solver2"
  reattachInternalClauses :: "Solver2 \<Rightarrow> Solver2"
  addLearntClause2 :: "Lit list \<Rightarrow> nat \<Rightarrow> nat \<Rightarrow> Solver2 \<Rightarrow> Solver2"
  addClauseInt2 :: "nat \<Rightarrow> nat \<Rightarrow> Solver2 \<Rightarrow> nat option \<times> Solver2"
  attachClause2 :: "nat \<Rightarrow> Solver2 \<Rightarrow> Solver2"
  attachXorClause :: "nat \<Rightarrow> Solver2 \<Rightarrow> Solver2"
  detachClause2 :: "nat \<Rightarrow> Solver2 \<Rightarrow> Solver2"
  removeClause :: "nat \<Rightarrow> Solver2 \<Rightarrow> Solver2"
  cleanXorClauses :: "Solver2 \<Rightarrow> Solver2"
  cleanerRemoveAndCleanAll :: "Solver2 \<Rightarrow> Solver2"

subsection \<open>The searcher\<close>

text \<open>
  A pair of variables of a two-long xor with its parity, kept in a \<open>std::set\<close>.
\<close>

record TwoLongXor =
  tlx_var0 :: nat
  tlx_var1 :: nat
  tlx_inverted :: bool

text \<open>
  The members of \<open>FailedVarSearcher\<close>. Bit arrays are lists of booleans, the
  multiplier and the bound on hyper-binary propagations are doubles and are modelled by
  reals, and the sizes of the xor clauses are unsigned 32-bit.
\<close>

record FailedVarSearcher =
  solver :: Solver2
  finishedLastTimeVar :: bool
  lastTimeWentUntilVar :: nat
  finishedLastTimeBin :: bool
  lastTimeWentUntilBin :: nat
  numPropsMultiplier :: real
  lastTimeFoundTruths :: nat
  numCalls :: nat
  xorClauseSizes :: "32 word list"
  occur :: "nat list list"
  xorClauseTouched :: "bool list"
  investigateXor :: "nat list"
  twoLongXors :: "TwoLongXor set"
  binXorFind :: bool
  lastTrailSize :: nat
  propagated :: "bool list"
  propValue :: "bool list"
  bothSame :: "(nat \<times> bool) list"
  numFailed :: nat
  goodBothSame :: nat
  origProps :: nat
  origTrailSize :: nat
  toReplaceBefore :: nat
  bothInvert :: nat
  newBinXor :: nat
  binClauseAdded :: nat
  propagatedBin :: "bool list"
  propagatedVars :: "nat list"
  myimplies :: "bool list"
  hyperbinProps :: nat
  maxHyperBinProps :: real
  litDegrees :: "nat list"
  failed :: bool
  removedUselessBin :: nat
  setOneHop :: "bool list"

text \<open>The operations of \<open>BitArray\<close> and of \<open>vec\<close> that the searcher uses.\<close>

definition setZero :: "bool list \<Rightarrow> bool list" where
  "setZero bs = map (\<lambda>_. False) bs"

definition isZero :: "bool list \<Rightarrow> bool" where
  "isZero bs = (\<forall>b\<in>set bs. \<not> b)"

definition removeThese :: "bool list \<Rightarrow> bool list \<Rightarrow> bool list" where
  "removeThese bs other = map (\<lambda>(b, o'). b \<and> \<not> o') (zip bs other)"

definition resizeTo :: "nat \<Rightarrow> 'a \<Rightarrow> 'a list \<Rightarrow> 'a list" where
  "resizeTo n x xs = take n xs @ replicate (n - length xs) x"

text \<open>
  The entries of the trail of the first decision level, last first, each with its
  index: the range of the loops
  \<open>for (int c = trail.size()-1; c >= (int)trail_lim[0]; c--)\<close>.
\<close>

definition levelEntries :: "Solver2 \<Rightarrow> (nat \<times> Lit) list" where
  "levelEntries s =
     rev (map (\<lambda>c. (c, solver_trail s ! c)) [solver_trail_lim s ! 0 ..< length (solver_trail s)])"

subsection \<open>Two-long xors\<close>

text \<open>\<open>addFromSolver\<close>: the sizes of the xor clauses and, for every variable, the xor clauses it occurs in.\<close>

definition addFromSolver :: "XorClause list \<Rightarrow> FailedVarSearcher \<Rightarrow> FailedVarSearcher" where
  "addFromSolver cs f =
     f\<lparr>xorClauseSizes := map (\<lambda>c. of_nat (length (x_lits c))) cs,
       occur := map (\<lambda>v. concat (map (\<lambda>i. map (\<lambda>_. i) (filter (\<lambda>l. var l = v) (x_lits (cs ! i))))
                                      [0..<length cs]))
                    [0..<solver_nVars (solver f)]\<rparr>"

fun removeVarFromXorsLoop :: "nat list \<Rightarrow> FailedVarSearcher \<Rightarrow> FailedVarSearcher" where
  "removeVarFromXorsLoop [] f = f"
| "removeVarFromXorsLoop (i # js) f =
     (let f1 = f\<lparr>xorClauseSizes := (xorClauseSizes f)[i := xorClauseSizes f ! i - 1]\<rparr>;
          f2 = (if \<not> xorClauseTouched f1 ! i
                then f1\<lparr>xorClauseTouched := (xorClauseTouched f1)[i := True],
                        investigateXor := investigateXor f1 @ [i]\<rparr>
                else f1)
      in removeVarFromXorsLoop js f2)"

definition removeVarFromXors :: "nat \<Rightarrow> FailedVarSearcher \<Rightarrow> FailedVarSearcher" where
  "removeVarFromXors v f = removeVarFromXorsLoop (occur f ! v) f"

definition addVarFromXors :: "nat \<Rightarrow> FailedVarSearcher \<Rightarrow> FailedVarSearcher" where
  "addVarFromXors v f =
     foldl (\<lambda>g i. g\<lparr>xorClauseSizes := (xorClauseSizes g)[i := xorClauseSizes g ! i + 1]\<rparr>)
           f (occur f ! v)"

text \<open>
  \<open>getTwoLongXor\<close>: the loop collects the unassigned variables (at most two, or the
  first assertion fails) and folds the assigned ones into the parity; then exactly two
  must have been found.
\<close>

fun getTwoLongXorLoop ::
  "lbool list \<Rightarrow> Lit list \<Rightarrow> nat list \<Rightarrow> bool \<Rightarrow> error + (nat list \<times> bool)" where
  "getTwoLongXorLoop as [] vs par = Inr (vs, par)"
| "getTwoLongXorLoop as (l # ls) vs par =
     (if as ! var l = l_Undef then
        (if length vs < 2 then getTwoLongXorLoop as ls (vs @ [var l]) par
         else Inl AssertionFailed)
      else getTwoLongXorLoop as ls vs (par \<noteq> (as ! var l = l_True)))"

definition getTwoLongXor :: "Solver2 \<Rightarrow> XorClause \<Rightarrow> error + TwoLongXor" where
  "getTwoLongXor s c =
     (case getTwoLongXorLoop (solver_assigns s) (x_lits c) [] (xor_clause_inverted c) of
        Inl e \<Rightarrow> Inl e
      | Inr (vs, par) \<Rightarrow>
          if length vs = 2 then
            Inr \<lparr>tlx_var0 = min (vs ! 0) (vs ! 1), tlx_var1 = max (vs ! 0) (vs ! 1),
                 tlx_inverted = par\<rparr>
          else Inl AssertionFailed)"

subsection \<open>Probing both polarities\<close>

text \<open>
  The head of \<open>tryBoth\<close>: the variables assigned since the last call leave the xor
  clauses, and the per-call marks are cleared.
\<close>

definition tryBothHead :: "FailedVarSearcher \<Rightarrow> FailedVarSearcher" where
  "tryBothHead f =
     (let f1 = (if binXorFind f then
                  (let g = (if lastTrailSize f < length (solver_trail (solver f))
                            then foldl (\<lambda>h i. removeVarFromXors (var (solver_trail (solver f) ! i)) h) f
                                       [lastTrailSize f ..< length (solver_trail (solver f))]
                            else f)
                   in g\<lparr>lastTrailSize := length (solver_trail (solver g)),
                        xorClauseTouched := setZero (xorClauseTouched g),
                        investigateXor := []\<rparr>)
                else f)
      in f1\<lparr>propagated := setZero (propagated f1), twoLongXors := {}\<rparr>)"

text \<open>
  The probe itself: a new decision level, the literal enqueued, propagation. The
  member \<open>failed\<close> records whether propagation found a conflict.
\<close>

definition probeLit :: "Env \<Rightarrow> Lit \<Rightarrow> FailedVarSearcher \<Rightarrow> FailedVarSearcher" where
  "probeLit env l f =
     (let (confl, s) = propagate2 env False (uncheckedEnqueue l (newDecisionLevel (solver f)))
      in f\<lparr>failed := confl, solver := s\<rparr>)"

text \<open>
  The branch \<open>if (failed)\<close>: backtrack, count the failure, enqueue the negation,
  propagate at level 0. The result is the value of \<open>solver.ok\<close>.
\<close>

definition failedLit :: "Env \<Rightarrow> Lit \<Rightarrow> FailedVarSearcher \<Rightarrow> bool \<times> FailedVarSearcher" where
  "failedLit env l f =
     (let s1 = cancelUntil 0 (solver f);
          f1 = f\<lparr>numFailed := numFailed f + 1\<rparr>;
          (confl, s2) = propagate2 env False (uncheckedEnqueue (neg l) s1);
          s3 = s2\<lparr>solver_ok := \<not> confl\<rparr>
      in (solver_ok s3, f1\<lparr>solver := s3\<rparr>))"

text \<open>The loop over the trail after the first probe.\<close>

definition recordFirst :: "FailedVarSearcher \<Rightarrow> (nat \<times> Lit) \<Rightarrow> FailedVarSearcher" where
  "recordFirst f e =
     (let x = var (snd e);
          f1 = f\<lparr>propagated := (propagated f)[x := True]\<rparr>;
          f2 = (if solver_addExtraBins (solver f1)
                then f1\<lparr>propagatedBin := (propagatedBin f1)[x := True],
                        propagatedVars := propagatedVars f1 @ [x]\<rparr>
                else f1);
          f3 = f2\<lparr>propValue := (propValue f2)[x := getBool (solver_assigns (solver f2) ! x)]\<rparr>
      in if binXorFind f3 then removeVarFromXors x f3 else f3)"

text \<open>
  The two-long xors after the first probe: every touched xor clause left with two
  variables enters the set; then the variables of the level return to the xor clauses.
\<close>

fun collectTwoLongXors :: "nat list \<Rightarrow> FailedVarSearcher \<Rightarrow> error + FailedVarSearcher" where
  "collectTwoLongXors [] f = Inr f"
| "collectTwoLongXors (i # js) f =
     (if xorClauseSizes f ! i = 2 then
        (case getTwoLongXor (solver f) (solver_xorclauses (solver f) ! i) of
           Inl e \<Rightarrow> Inl e
         | Inr t \<Rightarrow> collectTwoLongXors js (f\<lparr>twoLongXors := insert t (twoLongXors f)\<rparr>))
      else collectTwoLongXors js f)"

definition restoreXors :: "FailedVarSearcher \<Rightarrow> FailedVarSearcher" where
  "restoreXors f = foldl (\<lambda>g e. addVarFromXors (var (snd e)) g) f (levelEntries (solver f))"

definition xorsAfterFirst :: "FailedVarSearcher \<Rightarrow> error + FailedVarSearcher" where
  "xorsAfterFirst f =
     (if binXorFind f then
        (case collectTwoLongXors (investigateXor f) f of
           Inl e \<Rightarrow> Inl e
         | Inr f1 \<Rightarrow>
            (let f2 = restoreXors f1
             in Inr (f2\<lparr>xorClauseTouched := setZero (xorClauseTouched f2),
                         investigateXor := []\<rparr>)))
      else Inr f)"

text \<open>
  The loop over the trail after the second probe. A variable seen in the first probe
  with the same value goes to \<open>bothSame\<close>; one with the opposite value, unless it js
  the decision itself, is registered with the variable replacer as equivalent to the
  probed variable. The result \<open>(False, _)\<close> means that \<open>tryBoth\<close> returns false at
  once.
\<close>

definition recordSecond ::
  "Env \<Rightarrow> Lit \<Rightarrow> Lit \<Rightarrow> FailedVarSearcher \<Rightarrow> (nat \<times> Lit) \<Rightarrow> error + (bool \<times> FailedVarSearcher)" where
  "recordSecond env l1 l2 f e =
     (let c = fst e; x = var (snd e);
          finish = (\<lambda>g. (let g1 = g\<lparr>propValue :=
                                      (propValue g)[x := getBool (solver_assigns (solver g) ! x)]\<rparr>
                         in Inr (True, if binXorFind g1 then removeVarFromXors x g1 else g1)))
      in if propagated f ! x then
           (let f1 = (if solver_addExtraBins (solver f)
                      then f\<lparr>propagatedBin := (propagatedBin f)[x := True],
                             propagatedVars := propagatedVars f @ [x]\<rparr>
                      else f)
            in if propValue f1 ! x = getBool (solver_assigns (solver f1) ! x) then
                 finish (f1\<lparr>bothSame := bothSame f1 @ [(x, \<not> propValue f1 ! x)]\<rparr>)
               else if c \<noteq> solver_trail_lim (solver f1) ! 0 then
                 (if var l1 = var l2 \<and> \<not> (sign l1 = False \<and> sign l2 = True)
                  then Inl AssertionFailed
                  else
                    (let tmpPs = (if var l1 = var l2 then [Lit (var l1) False, Lit x False]
                                  else [Lit (var l1) False, Lit (var l2) False]);
                         invert = (if var l1 = var l2 then propValue f1 ! x
                                   else sign l1 \<noteq> sign l2);
                         (r, s) = vr_replace env tmpPs invert 0 (solver f1);
                         f2 = f1\<lparr>solver := s\<rparr>
                     in if \<not> r then Inr (False, f2)
                        else finish (f2\<lparr>bothInvert := bothInvert f2
                                           + (getNewToReplaceVars s - toReplaceBefore f2),
                                         toReplaceBefore := getNewToReplaceVars s\<rparr>)))
               else finish f1)
         else finish f)"

fun recordSecondLoop ::
  "Env \<Rightarrow> Lit \<Rightarrow> Lit \<Rightarrow> (nat \<times> Lit) list \<Rightarrow> FailedVarSearcher \<Rightarrow> error + (bool \<times> FailedVarSearcher)" where
  "recordSecondLoop env l1 l2 [] f = Inr (True, f)"
| "recordSecondLoop env l1 l2 (e # es) f =
     (case recordSecond env l1 l2 f e of
        Inl err \<Rightarrow> Inl err
      | Inr (False, f1) \<Rightarrow> Inr (False, f1)
      | Inr (True, f1) \<Rightarrow> recordSecondLoop env l1 l2 es f1)"

text \<open>
  The two-long xors after the second probe: a touched xor clause left with two
  variables that is in the set of the first probe is registered with the variable
  replacer.
\<close>

fun matchTwoLongXors :: "Env \<Rightarrow> nat list \<Rightarrow> FailedVarSearcher \<Rightarrow> error + (bool \<times> FailedVarSearcher)" where
  "matchTwoLongXors env [] f = Inr (True, f)"
| "matchTwoLongXors env (i # js) f =
     (if xorClauseSizes f ! i = 2 then
        (case getTwoLongXor (solver f) (solver_xorclauses (solver f) ! i) of
           Inl e \<Rightarrow> Inl e
         | Inr tmp \<Rightarrow>
            if tmp \<in> twoLongXors f then
              (let (r, s) = vr_replace env [Lit (tlx_var0 tmp) False, Lit (tlx_var1 tmp) False]
                              (tlx_inverted tmp) (x_group (solver_xorclauses (solver f) ! i))
                              (solver f);
                   f1 = f\<lparr>solver := s\<rparr>
               in if \<not> r then Inr (False, f1)
                  else matchTwoLongXors env js
                         (f1\<lparr>newBinXor := newBinXor f1 + (getNewToReplaceVars s - toReplaceBefore f1),
                             toReplaceBefore := getNewToReplaceVars s\<rparr>))
            else matchTwoLongXors env js f)
      else matchTwoLongXors env js f)"

definition xorsAfterSecond :: "Env \<Rightarrow> FailedVarSearcher \<Rightarrow> error + (bool \<times> FailedVarSearcher)" where
  "xorsAfterSecond env f =
     (if binXorFind f then
        (case (if twoLongXors f \<noteq> {} then matchTwoLongXors env (investigateXor f) f
               else Inr (True, f)) of
           Inl e \<Rightarrow> Inl e
         | Inr (False, f1) \<Rightarrow> Inr (False, f1)
         | Inr (True, f1) \<Rightarrow> Inr (True, restoreXors f1))
      else Inr (True, f))"

subsection \<open>Hyper-binary resolution\<close>

text \<open>\<open>fillImplies\<close>: the variables that full propagation of a literal assigns.\<close>

definition fillImplies :: "Env \<Rightarrow> Lit \<Rightarrow> FailedVarSearcher \<Rightarrow> error + FailedVarSearcher" where
  "fillImplies env l f =
     (let (confl, s) = propagate2 env True (uncheckedEnqueue l (newDecisionLevel (solver f)));
          f1 = f\<lparr>failed := confl, solver := s\<rparr>
      in if confl \<or> solver_decisionLevel s = 0 then Inl AssertionFailed
         else Inr (f1\<lparr>myimplies := foldl (\<lambda>m e. m[var (snd e) := True]) (myimplies f1)
                                          (levelEntries s),
                      solver := cancelUntil 0 s\<rparr>))"

definition addBin :: "Env \<Rightarrow> Lit \<Rightarrow> Lit \<Rightarrow> FailedVarSearcher \<Rightarrow> error + FailedVarSearcher" where
  "addBin env a b f =
     (let s1 = addLearntClause2 env [neg a, b] 0 0 (solver f);
          s2 = s1\<lparr>solver_nbBin := solver_nbBin s1 + 1\<rparr>
      in if \<not> solver_ok s2 then Inl AssertionFailed
         else Inr (f\<lparr>solver := s2, binClauseAdded := binClauseAdded f + 1\<rparr>))"

text \<open>
  The inner loop of \<open>addBinClauses\<close> over \<open>propagatedVars\<close>: at the first variable
  still to be covered that the visited literal implies, a binary clause is added and
  everything the literal implies is taken off \<open>propagatedBin\<close>.
\<close>

fun addBinFor :: "Env \<Rightarrow> Lit \<Rightarrow> nat list \<Rightarrow> FailedVarSearcher \<Rightarrow> error + FailedVarSearcher" where
  "addBinFor env l [] f = Inr f"
| "addBinFor env l (v # vs) f =
     (if propagatedBin f ! v \<and> myimplies f ! v then
        (case addBin env l (Lit v (\<not> propValue f ! v)) f of
           Inl e \<Rightarrow> Inl e
         | Inr f1 \<Rightarrow> Inr (f1\<lparr>propagatedBin := removeThese (propagatedBin f1) (myimplies f1)\<rparr>))
      else addBinFor env l vs f)"

fun addBinVisit :: "Env \<Rightarrow> Lit list \<Rightarrow> FailedVarSearcher \<Rightarrow> error + FailedVarSearcher" where
  "addBinVisit env [] f = Inr f"
| "addBinVisit env (l # ls) f =
     (case fillImplies env l (f\<lparr>myimplies := setZero (myimplies f)\<rparr>) of
        Inl e \<Rightarrow> Inl e
      | Inr f1 \<Rightarrow>
         (case addBinFor env l (propagatedVars f1) f1 of
            Inl e \<Rightarrow> Inl e
          | Inr f2 \<Rightarrow> if isZero (propagatedBin f2) then Inr f2 else addBinVisit env ls f2))"

text \<open>
  \<open>addBinClauses\<close>. The literals to visit are sorted by decreasing degree;
  \<open>std::sort\<close> leaves the order of literals of equal degree open, the model keeps it.
\<close>

definition addBinClauses :: "Env \<Rightarrow> Lit \<Rightarrow> FailedVarSearcher \<Rightarrow> error + FailedVarSearcher" where
  "addBinClauses env l f =
     (let oldProps = solver_propagations (solver f);
          (confl, s) = propagateBin env (uncheckedEnqueue l (newDecisionLevel (solver f)));
          f1 = f\<lparr>failed := confl, solver := s\<rparr>
      in if confl \<or> solver_decisionLevel s = 0 then Inl AssertionFailed
         else
           (let es = levelEntries s;
                f2 = f1\<lparr>propagatedBin := foldl (\<lambda>m e. m[var (snd e) := False]) (propagatedBin f1) es,
                        solver := cancelUntil 0 s\<rparr>;
                toVisit = rev (sort_key (\<lambda>x. litDegrees f2 ! toInt x) (rev (map snd es)));
                r = (if isZero (propagatedBin f2) then Inr f2
                     else (case addBinVisit env toVisit f2 of
                             Inl e \<Rightarrow> Inl e
                           | Inr f3 \<Rightarrow> if isZero (propagatedBin f3) then Inr f3
                                       else Inl AssertionFailed))
            in case r of
                 Inl e \<Rightarrow> Inl e
               | Inr f4 \<Rightarrow>
                   Inr (f4\<lparr>propagatedBin := setZero (propagatedBin f4), propagatedVars := [],
                           hyperbinProps := hyperbinProps f4
                             + (solver_propagations (solver f4) - oldProps)\<rparr>)))"

definition hyperBin :: "Env \<Rightarrow> Lit \<Rightarrow> FailedVarSearcher \<Rightarrow> error + FailedVarSearcher" where
  "hyperBin env l f =
     (if solver_addExtraBins (solver f) \<and> real (hyperbinProps f) < maxHyperBinProps f
      then addBinClauses env l f else Inr f)"

subsection \<open>tryBoth\<close>

text \<open>
  The tail of \<open>tryBoth\<close>: every pair of \<open>bothSame\<close> is enqueued, the list is counted
  and cleared, and propagation decides \<open>solver.ok\<close>, which is the result.
\<close>

definition bothSameLits :: "FailedVarSearcher \<Rightarrow> Lit list" where
  "bothSameLits f = map (\<lambda>(x, sg). Lit x sg) (bothSame f)"

definition enqueueAll :: "Lit list \<Rightarrow> Solver2 \<Rightarrow> Solver2" where
  "enqueueAll ls s = foldl (\<lambda>t l. uncheckedEnqueue l t) s ls"

definition tryBothTail :: "Env \<Rightarrow> FailedVarSearcher \<Rightarrow> bool \<times> FailedVarSearcher" where
  "tryBothTail env f =
     (let s1 = enqueueAll (bothSameLits f) (solver f);
          f1 = f\<lparr>goodBothSame := goodBothSame f + length (bothSame f), bothSame := []\<rparr>;
          (confl, s2) = propagate2 env False s1;
          s3 = s2\<lparr>solver_ok := \<not> confl\<rparr>
      in (solver_ok s3, f1\<lparr>solver := s3\<rparr>))"

text \<open>The part of \<open>tryBoth\<close> from the second probe on.\<close>

definition secondHalf :: "Env \<Rightarrow> Lit \<Rightarrow> Lit \<Rightarrow> FailedVarSearcher \<Rightarrow> error + (bool \<times> FailedVarSearcher)" where
  "secondHalf env l1 l2 f =
     (let f1 = probeLit env l2 f
      in if failed f1 then Inr (failedLit env l2 f1)
         else if solver_decisionLevel (solver f1) = 0 then Inl AssertionFailed
         else
           (case recordSecondLoop env l1 l2 (levelEntries (solver f1)) f1 of
              Inl e \<Rightarrow> Inl e
            | Inr (False, f2) \<Rightarrow> Inr (False, f2)
            | Inr (True, f2) \<Rightarrow>
               (case xorsAfterSecond env f2 of
                  Inl e \<Rightarrow> Inl e
                | Inr (False, f3) \<Rightarrow> Inr (False, f3)
                | Inr (True, f3) \<Rightarrow>
                   (case hyperBin env l2 (f3\<lparr>solver := cancelUntil 0 (solver f3)\<rparr>) of
                      Inl e \<Rightarrow> Inl e
                    | Inr f4 \<Rightarrow> Inr (tryBothTail env f4)))))"

text \<open>The part of \<open>tryBoth\<close> after a first probe without conflict, up to the second probe.\<close>

definition afterFirst :: "Env \<Rightarrow> Lit \<Rightarrow> FailedVarSearcher \<Rightarrow> error + FailedVarSearcher" where
  "afterFirst env l1 f =
     (case xorsAfterFirst (foldl recordFirst f (levelEntries (solver f))) of
        Inl e \<Rightarrow> Inl e
      | Inr f1 \<Rightarrow> hyperBin env l1 (f1\<lparr>solver := cancelUntil 0 (solver f1)\<rparr>))"

definition tryBoth :: "Env \<Rightarrow> Lit \<Rightarrow> Lit \<Rightarrow> FailedVarSearcher \<Rightarrow> error + (bool \<times> FailedVarSearcher)" where
  "tryBoth env l1 l2 f =
     (let f1 = probeLit env l1 (tryBothHead f)
      in if failed f1 then Inr (failedLit env l1 f1)
         else if solver_decisionLevel (solver f1) = 0 then Inl AssertionFailed
         else (case afterFirst env l1 f1 of
                 Inl e \<Rightarrow> Inl e
               | Inr f2 \<Rightarrow> secondHalf env l1 l2 f2))"

subsection \<open>Useless binary clauses\<close>

text \<open>
  The entries of the trail of the first decision level above the decision itself, last
  first: the range of the loops \<open>for (int c = trail.size()-1; c > (int)trail_lim[0]; c--)\<close>.
\<close>

definition impliedEntries :: "Solver2 \<Rightarrow> Lit list" where
  "impliedEntries s =
     rev (map (\<lambda>c. solver_trail s ! c) [Suc (solver_trail_lim s ! 0) ..< length (solver_trail s)])"

text \<open>
  \<open>fillBinImpliesMinusLast\<close>: binary propagation of \<open>lit\<close>; unless it assigns the
  variable of \<open>origLit\<close>, every literal it implies that is marked in \<open>setOneHop\<close>
  is pushed on \<open>wrong\<close> and unmarked. The result is the C++ result, the new \<open>wrong\<close>
  and the searcher.
\<close>

definition markWrong :: "Lit list \<times> FailedVarSearcher \<Rightarrow> Lit \<Rightarrow> Lit list \<times> FailedVarSearcher" where
  "markWrong acc x =
     (let (wrong, f) = acc
      in if setOneHop f ! toInt x
         then (wrong @ [x], f\<lparr>setOneHop := (setOneHop f)[toInt x := False]\<rparr>)
         else (wrong, f))"

definition fillBinImpliesMinusLast ::
  "Env \<Rightarrow> Lit \<Rightarrow> Lit \<Rightarrow> Lit list \<Rightarrow> FailedVarSearcher \<Rightarrow>
   error + (bool \<times> Lit list \<times> FailedVarSearcher)" where
  "fillBinImpliesMinusLast env origLit l wrong f =
     (let (confl, s) = propagateBin env (uncheckedEnqueue l (newDecisionLevel (solver f)));
          f1 = f\<lparr>failed := confl, solver := s\<rparr>
      in if confl then Inr (False, wrong, f1)
         else if solver_assigns s ! var origLit = l_Undef then
           (if solver_decisionLevel s = 0 then Inl AssertionFailed
            else (let (wrong1, f2) = foldl markWrong (wrong, f1) (impliedEntries s)
                  in Inr (True, wrong1, f2\<lparr>solver := cancelUntil 0 (solver f2)\<rparr>)))
         else Inr (True, wrong, f1\<lparr>solver := cancelUntil 0 s\<rparr>))"

text \<open>
  \<open>removeBin\<close>: the clause is the last one in the binary watch list of the negation of
  \<open>lit1\<close> that implies \<open>lit2\<close>. \<open>find\<close> and \<open>remove\<close> act on the first occurrence
  of a pointer in a vector.
\<close>

definition findWatchedClause :: "WatchedBin list \<Rightarrow> Lit \<Rightarrow> nat option" where
  "findWatchedClause bwin l2 =
     foldl (\<lambda>cl w. if impliedLit w = l2 then Some (wclause w) else cl) None bwin"

definition removeBin :: "Env \<Rightarrow> Lit \<Rightarrow> Lit \<Rightarrow> FailedVarSearcher \<Rightarrow> error + FailedVarSearcher" where
  "removeBin env l1 l2 f =
     (let s = solver f
      in case findWatchedClause (solver_binwatches s ! toInt (neg l1)) l2 of
           None \<Rightarrow> Inl AssertionFailed
         | Some cl \<Rightarrow>
            if cl \<in> set (solver_binaryClauses s) then
              Inr (f\<lparr>solver := removeClause env cl
                                 (s\<lparr>solver_binaryClauses := remove1 cl (solver_binaryClauses s)\<rparr>),
                     removedUselessBin := removedUselessBin f + 1\<rparr>)
            else if cl \<in> set (solver_clauses s) then
              Inr (f\<lparr>solver := removeClause env cl
                                 (s\<lparr>solver_clauses := remove1 cl (solver_clauses s)\<rparr>),
                     removedUselessBin := removedUselessBin f + 1\<rparr>)
            else Inr f)"

text \<open>The loop \<open>for (i = 0; i < oneHopAway.size(); i++)\<close> over \<open>fillBinImpliesMinusLast\<close>.\<close>

fun fillAll ::
  "Env \<Rightarrow> Lit \<Rightarrow> Lit list \<Rightarrow> Lit list \<Rightarrow> FailedVarSearcher \<Rightarrow>
   error + (Lit option \<times> Lit list \<times> FailedVarSearcher)" where
  "fillAll env l [] wrong f = Inr (None, wrong, f)"
| "fillAll env l (h # hs) wrong f =
     (case fillBinImpliesMinusLast env l h wrong f of
        Inl e \<Rightarrow> Inl e
      | Inr (False, wrong1, f1) \<Rightarrow> Inr (Some h, wrong1, f1)
      | Inr (True, wrong1, f1) \<Rightarrow> fillAll env l hs wrong1 f1)"

text \<open>
  The loop \<open>for (i = 0; i < wrong.size(); i++) removeBin(~lit, oneHopAway[i])\<close>: it
  counts up to the size of \<open>wrong\<close> and indexes \<open>oneHopAway\<close>.
\<close>

fun removeWrong :: "Env \<Rightarrow> Lit \<Rightarrow> Lit list \<Rightarrow> nat list \<Rightarrow> FailedVarSearcher \<Rightarrow> error + FailedVarSearcher" where
  "removeWrong env l oneHopAway [] f = Inr f"
| "removeWrong env l oneHopAway (i # js) f =
     (case removeBin env (neg l) (oneHopAway ! i) f of
        Inl e \<Rightarrow> Inl e
      | Inr f1 \<Rightarrow> removeWrong env l oneHopAway js f1)"

definition clearOneHop :: "Lit list \<Rightarrow> FailedVarSearcher \<Rightarrow> FailedVarSearcher" where
  "clearOneHop ls f = f\<lparr>setOneHop := foldl (\<lambda>m x. m[toInt x := False]) (setOneHop f) ls\<rparr>"

definition removeUselessBinaries :: "Env \<Rightarrow> Lit \<Rightarrow> FailedVarSearcher \<Rightarrow> error + (bool \<times> FailedVarSearcher)" where
  "removeUselessBinaries env l f =
     (if solver_learnts (solver f) \<noteq> [] then Inl AssertionFailed
      else
        (let (confl, s) = propagateBinOneLevel env
                            (uncheckedEnqueue l (newDecisionLevel (solver f)));
             f1 = f\<lparr>failed := confl, solver := s\<rparr>
         in if confl then Inr (False, f1)
            else if solver_decisionLevel s = 0 then Inl AssertionFailed
            else
              (let oneHopAway = impliedEntries s;
                   f2 = f1\<lparr>setOneHop := foldl (\<lambda>m x. m[toInt x := True]) (setOneHop f1) oneHopAway,
                           solver := cancelUntil 0 s\<rparr>
               in case fillAll env l oneHopAway [] f2 of
                    Inl e \<Rightarrow> Inl e
                  | Inr (Some h, wrong, f3) \<Rightarrow>
                      Inr (False, clearOneHop (map (\<lambda>_. h) oneHopAway) f3)
                  | Inr (None, wrong, f3) \<Rightarrow>
                      (case removeWrong env l oneHopAway [0..<length wrong] f3 of
                         Inl e \<Rightarrow> Inl e
                       | Inr f4 \<Rightarrow> Inr (True, clearOneHop oneHopAway f4)))))"

text \<open>
  What \<open>removeUslessBinFull\<close> does when \<open>removeUselessBinaries\<close> fails on a literal:
  the negation is a fact. \<open>None\<close> is the return of false.
\<close>

definition fixLit :: "Env \<Rightarrow> Lit \<Rightarrow> FailedVarSearcher \<Rightarrow> bool \<times> FailedVarSearcher" where
  "fixLit env l f =
     (let (confl, s) = propagate2 env True (uncheckedEnqueue (neg l) (cancelUntil 0 (solver f)));
          s1 = s\<lparr>solver_ok := \<not> confl\<rparr>
      in (solver_ok s1, f\<lparr>solver := s1\<rparr>))"

fun uselessBinLoop ::
  "Env \<Rightarrow> nat \<Rightarrow> nat list \<Rightarrow> bool \<Rightarrow> FailedVarSearcher \<Rightarrow> error + (bool \<times> bool \<times> FailedVarSearcher)" where
  "uselessBinLoop env props0 [] fixed f = Inr (True, fixed, f)"
| "uselessBinLoop env props0 (v # vs) fixed f =
     (if solver_propagations (solver f) - props0 > 3000000 then Inr (True, fixed, f)
      else if solver_assigns (solver f) ! v \<noteq> l_Undef \<or> \<not> solver_decision_var (solver f) ! v
        then uselessBinLoop env props0 vs fixed f
      else
        (case removeUselessBinaries env (Lit v False) f of
           Inl e \<Rightarrow> Inl e
         | Inr (False, f1) \<Rightarrow>
             (let (okay, f2) = fixLit env (Lit v False) f1
              in if okay then uselessBinLoop env props0 vs True f2 else Inr (False, True, f2))
         | Inr (True, f1) \<Rightarrow>
             (case removeUselessBinaries env (Lit v True) f1 of
                Inl e \<Rightarrow> Inl e
              | Inr (False, f2) \<Rightarrow>
                  (let (okay, f3) = fixLit env (Lit v True) f2
                   in if okay then uselessBinLoop env props0 vs True f3
                      else Inr (False, True, f3))
              | Inr (True, f2) \<Rightarrow> uselessBinLoop env props0 vs fixed f2)))"

definition removeUslessBinFull :: "Env \<Rightarrow> FailedVarSearcher \<Rightarrow> error + (bool \<times> FailedVarSearcher)" where
  "removeUslessBinFull env f =
     (let n = solver_nVars (solver f);
          f1 = f\<lparr>removedUselessBin := 0, setOneHop := replicate (n * 2) False\<rparr>
      in case uselessBinLoop env (solver_propagations (solver f1)) [0..<n] False f1 of
           Inl e \<Rightarrow> Inl e
         | Inr (False, _, f2) \<Rightarrow> Inr (False, f2)
         | Inr (True, fixed, f2) \<Rightarrow>
             Inr (True, if fixed then f2\<lparr>solver := filterHeap (solver f2)\<rparr> else f2))"

subsection \<open>The degrees of the literals\<close>

text \<open>
  The random generator is the sequence of its future draws; \<open>randInt(n)\<close> takes the
  first draw modulo \<open>n + 1\<close>.
\<close>

definition randInt :: "nat \<Rightarrow> Solver2 \<Rightarrow> nat \<times> Solver2" where
  "randInt n s = (solver_mtrand s 0 mod (n + 1), s\<lparr>solver_mtrand := (\<lambda>k. solver_mtrand s (Suc k))\<rparr>)"

text \<open>
  The loop of \<open>orderLits\<close> with \<open>n\<close> rounds left. The result \<open>False\<close> is the return of
  false, when a literal failed and the propagation of its negation at level 0 found a
  conflict.
\<close>

fun orderLitsLoop :: "Env \<Rightarrow> nat \<Rightarrow> nat \<Rightarrow> FailedVarSearcher \<Rightarrow> error + (bool \<times> FailedVarSearcher)" where
  "orderLitsLoop env oldProps 0 f = Inr (True, f)"
| "orderLitsLoop env oldProps (Suc n) f =
     (if solver_propagations (solver f) - oldProps > 500000 then Inr (True, f)
      else
        (let (i, s1) = randInt (length (solver_order_heap (solver f)) - 1) (solver f);
             v = solver_order_heap s1 ! i
         in if solver_assigns s1 ! v \<noteq> l_Undef \<or> \<not> solver_decision_var s1 ! v
            then orderLitsLoop env oldProps n (f\<lparr>solver := s1\<rparr>)
            else
              (let (sg, s2) = randInt 1 s1;
                   randLit = Lit v (sg \<noteq> 0);
                   (confl, s3) = propagateBin env (uncheckedEnqueue randLit (newDecisionLevel s2));
                   f1 = f\<lparr>failed := confl, solver := s3\<rparr>
               in if confl then
                    (let (confl0, s4) = propagate2 env True
                                          (uncheckedEnqueue (neg randLit) (cancelUntil 0 s3));
                         s5 = s4\<lparr>solver_ok := \<not> confl0\<rparr>
                     in if \<not> solver_ok s5 then Inr (False, f1\<lparr>solver := s5\<rparr>)
                        else orderLitsLoop env oldProps n (f1\<lparr>solver := s5\<rparr>))
                  else if solver_decisionLevel s3 = 0 then Inl AssertionFailed
                  else orderLitsLoop env oldProps n
                         (f1\<lparr>litDegrees := foldl (\<lambda>d x. d[toInt x := d ! toInt x + 1])
                                                  (litDegrees f1) (impliedEntries s3),
                             solver := cancelUntil 0 s3\<rparr>))))"

definition orderLits :: "Env \<Rightarrow> FailedVarSearcher \<Rightarrow> error + (bool \<times> FailedVarSearcher)" where
  "orderLits env f =
     (let oldProps = solver_propagations (solver f);
          f1 = f\<lparr>litDegrees := replicate (solver_nVars (solver f) * 2) 0\<rparr>
      in case orderLitsLoop env oldProps 1000000 f1 of
           Inl e \<Rightarrow> Inl e
         | Inr (False, f2) \<Rightarrow> Inr (False, f2)
         | Inr (True, f2) \<Rightarrow>
             Inr (True, f2\<lparr>solver := (solver f2)\<lparr>solver_propagations := oldProps\<rparr>\<rparr>))"

subsection \<open>Old learnt clauses and reattaching\<close>

text \<open>\<open>removeOldLearnts\<close>: every removed learnt clause is detached.\<close>

definition removeOldLearnts :: "Env \<Rightarrow> FailedVarSearcher \<Rightarrow> FailedVarSearcher" where
  "removeOldLearnts env f =
     f\<lparr>solver := foldl (\<lambda>s c. detachClause2 env c s) (solver f)
                       (solver_removedLearnts (solver f))\<rparr>"

text \<open>
  The loop of \<open>readdRemovedLearnts\<close> with the clauses kept so far. When a clause makes
  the solver inconsistent, the loop frees the rest and then steps its iterator past the
  end of the vector: this is the error \<open>OutOfRange\<close>.
\<close>

fun readdLoop :: "Env \<Rightarrow> nat \<Rightarrow> nat list \<Rightarrow> nat list \<Rightarrow> Solver2 \<Rightarrow> error + (nat list \<times> Solver2)" where
  "readdLoop env toRemove [] kept s = Inr (kept, s)"
| "readdLoop env toRemove (c # cs) kept s =
     (if 0 < toRemove then readdLoop env (toRemove - 1) cs kept s
      else
        (let (r, s1) = addClauseInt2 env c (cl_group (solver_mem s ! c)) s;
             kept1 = (case r of None \<Rightarrow> kept | Some c' \<Rightarrow> kept @ [c'])
         in if \<not> solver_ok s1 then Inl OutOfRange
            else readdLoop env toRemove cs kept1 s1))"

text \<open>\<open>readdRemovedLearnts\<close>; \<open>MAX_OLD_LEARNTS\<close> is a macro of a header and enters as a parameter.\<close>

definition readdRemovedLearnts :: "Env \<Rightarrow> nat \<Rightarrow> FailedVarSearcher \<Rightarrow> error + (bool \<times> FailedVarSearcher)" where
  "readdRemovedLearnts env maxOld f =
     (let s = solver f; rl = solver_removedLearnts s;
          toRemove = (if length rl > maxOld then length rl - maxOld div 4 else 0);
          rl1 = (if 0 < toRemove
                 then rev (sort_key (\<lambda>c. length (cl_lits (solver_mem s ! c))) (rev rl)) else rl)
      in case readdLoop env toRemove rl1 [] s of
           Inl e \<Rightarrow> Inl e
         | Inr (kept, s1) \<Rightarrow>
             Inr (solver_ok s1, f\<lparr>solver := s1\<lparr>solver_removedLearnts := kept\<rparr>\<rparr>))"

text \<open>
  \<open>cleanClause\<close> on a clause: false if a literal is true, otherwise the false
  literals leave the clause, which must keep at least two.
\<close>

definition cleanClause :: "nat \<Rightarrow> Solver2 \<Rightarrow> error + (bool \<times> Solver2)" where
  "cleanClause c s =
     (let cl = solver_mem s ! c; ps = cl_lits cl
      in if \<exists>l\<in>set ps. solver_value s l = l_True then Inr (False, s)
         else
           (let ps1 = filter (\<lambda>l. solver_value s l = l_Undef) ps
            in if \<not> 1 < length ps1 then Inl AssertionFailed
               else
                 (let cl1 = cl\<lparr>cl_lits := ps1,
                               cl_strenghtened := (cl_strenghtened cl \<or> length ps1 \<noteq> length ps)\<rparr>;
                      s1 = s\<lparr>solver_mem := (solver_mem s)[c := cl1]\<rparr>
                  in Inr (True, if length ps \<noteq> 2 \<and> length ps1 = 2
                                then s1\<lparr>solver_becameBinary := solver_becameBinary s1 + 1\<rparr>
                                else s1))))"

text \<open>
  \<open>cleanClause\<close> on an xor clause: assigned variables leave the clause and the true
  ones flip its parity; a clause left with two variables goes to the variable replacer.
\<close>

definition cleanXorClause :: "Env \<Rightarrow> XorClause \<Rightarrow> Solver2 \<Rightarrow> error + (XorClause option \<times> Solver2)" where
  "cleanXorClause env xc s =
     (let ps = x_lits xc;
          flips = length (filter (\<lambda>l. solver_assigns s ! var l = l_True) ps);
          ps1 = filter (\<lambda>l. solver_assigns s ! var l = l_Undef) ps;
          xc1 = xc\<lparr>x_lits := ps1,
                   xor_clause_inverted := (xor_clause_inverted xc \<noteq> odd flips)\<rparr>
      in if ps1 = [] then Inr (None, s)
         else if \<not> 1 < length ps1 then Inl AssertionFailed
         else
           (let xc2 = xc1\<lparr>x_strenghtened := (x_strenghtened xc1 \<or> length ps1 \<noteq> length ps)\<rparr>
            in if length ps1 = 2 then
                 Inr (None, snd (vr_replace env (map (\<lambda>l. Lit (var l) False) ps1)
                                   (xor_clause_inverted xc2) (x_group xc2) s))
               else Inr (Some xc2, s)))"

fun cleanAndAttachClauses :: "Env \<Rightarrow> nat list \<Rightarrow> nat list \<Rightarrow> Solver2 \<Rightarrow> error + (nat list \<times> Solver2)" where
  "cleanAndAttachClauses env [] kept s = Inr (kept, s)"
| "cleanAndAttachClauses env (c # cs) kept s =
     (case cleanClause c s of
        Inl e \<Rightarrow> Inl e
      | Inr (True, s1) \<Rightarrow> cleanAndAttachClauses env cs (kept @ [c]) (attachClause2 env c s1)
      | Inr (False, s1) \<Rightarrow> cleanAndAttachClauses env cs kept s1)"

fun cleanAndAttachXorClauses ::
  "Env \<Rightarrow> XorClause list \<Rightarrow> XorClause list \<Rightarrow> Solver2 \<Rightarrow> error + (XorClause list \<times> Solver2)" where
  "cleanAndAttachXorClauses env [] kept s = Inr (kept, s)"
| "cleanAndAttachXorClauses env (c # cs) kept s =
     (case cleanXorClause env c s of
        Inl e \<Rightarrow> Inl e
      | Inr (Some c1, s1) \<Rightarrow>
          cleanAndAttachXorClauses env cs (kept @ [c1]) (attachXorClause env (length kept) s1)
      | Inr (None, s1) \<Rightarrow> cleanAndAttachXorClauses env cs kept s1)"

definition completelyDetachAndReattach :: "Env \<Rightarrow> FailedVarSearcher \<Rightarrow> error + FailedVarSearcher" where
  "completelyDetachAndReattach env f =
     (let s = solver f;
          s1 = s\<lparr>solver_clauses_literals := 0, solver_learnts_literals := 0,
                 solver_binwatches := map (\<lambda>_. []) (solver_binwatches s),
                 solver_watches := map (\<lambda>_. []) (solver_watches s),
                 solver_xorwatches := map (\<lambda>_. []) (solver_xorwatches s)\<rparr>;
          s2 = reattachInternalClauses env s1
      in case cleanAndAttachClauses env (solver_binaryClauses s2) [] s2 of
           Inl e \<Rightarrow> Inl e
         | Inr (bins, s3) \<Rightarrow>
          (case cleanAndAttachClauses env (solver_clauses s3) []
                  (s3\<lparr>solver_binaryClauses := bins\<rparr>) of
             Inl e \<Rightarrow> Inl e
           | Inr (cls, s4) \<Rightarrow>
            (case cleanAndAttachClauses env (solver_learnts s4) []
                    (s4\<lparr>solver_clauses := cls\<rparr>) of
               Inl e \<Rightarrow> Inl e
             | Inr (lrn, s5) \<Rightarrow>
              (case cleanAndAttachXorClauses env (solver_xorclauses s5) []
                      (s5\<lparr>solver_learnts := lrn\<rparr>) of
                 Inl e \<Rightarrow> Inl e
               | Inr (xs, s6) \<Rightarrow> Inr (f\<lparr>solver := s6\<lparr>solver_xorclauses := xs\<rparr>\<rparr>)))))"

subsection \<open>search\<close>

text \<open>The solver state that \<open>search\<close> saves at entry.\<close>

record Backup =
  backup_order_heap :: "nat list"
  backup_polarities :: "bool list"
  backup_activity :: "nat list"
  backup_var_inc :: nat

definition saveState :: "Solver2 \<Rightarrow> Backup" where
  "saveState s =
     \<lparr>backup_order_heap = solver_order_heap s, backup_polarities = solver_polarity s,
      backup_activity = solver_activity s, backup_var_inc = solver_var_inc s\<rparr>"

text \<open>
  The lines under \<open>//Restore Solver state\<close>. \<open>std::copy\<close> overwrites the first
  activities with the saved ones.
\<close>

definition restoreState :: "Backup \<Rightarrow> Solver2 \<Rightarrow> Solver2" where
  "restoreState b s =
     filterHeap
       (s\<lparr>solver_var_inc := backup_var_inc b,
          solver_activity := backup_activity b @ drop (length (backup_activity b)) (solver_activity s),
          solver_order_heap := backup_order_heap b,
          solver_polarity := backup_polarities b\<rparr>)"

text \<open>
  The code from the label \<open>end\<close> on. The printing of the results has no effect on the
  state and is left out. The result is the value of \<open>solver.ok\<close>.
\<close>

definition searchEnd ::
  "Env \<Rightarrow> Backup \<Rightarrow> nat \<Rightarrow> FailedVarSearcher \<Rightarrow> error + (bool \<times> FailedVarSearcher)" where
  "searchEnd env b origHeapSize f0 =
     (let f1 = f0\<lparr>solver := filterHeap (solver f0)\<rparr>;
          s1 = solver f1;
          big = (int origHeapSize - int (length (solver_order_heap s1)) > int origHeapSize div 15
                 \<and> solver_nClauses s1 + length (solver_learnts s1) > 500000);
          r1 = (if solver_ok s1 \<and> (numFailed f1 \<noteq> 0 \<or> goodBothSame f1 \<noteq> 0) then
                  (if big then
                     (case completelyDetachAndReattach env f1 of
                        Inl e \<Rightarrow> Inl e | Inr g \<Rightarrow> Inr (True, g))
                   else Inr (False, f1\<lparr>solver := cleanerRemoveAndCleanAll env s1\<rparr>))
                else Inr (False, f1))
      in case r1 of
           Inl e \<Rightarrow> Inl e
         | Inr (removedOldLearnts, f2) \<Rightarrow>
            (let r2 = (if solver_ok (solver f2) \<and> solver_readdOldLearnts (solver f2)
                          \<and> \<not> removedOldLearnts then
                         (if length (solver_removedLearnts (solver f2)) < 100000
                          then Inr (removeOldLearnts env f2)
                          else completelyDetachAndReattach env f2)
                       else Inr f2)
             in case r2 of
                  Inl e \<Rightarrow> Inl e
                | Inr f3 \<Rightarrow>
                   (let f4 = f3\<lparr>lastTimeFoundTruths :=
                                  nat ((int (length (solver_trail (solver f3)))
                                        - int (origTrailSize f3)) mod 2 ^ 32)\<rparr>;
                        f5 = f4\<lparr>solver := restoreState b (solver f4)\<rparr>
                    in Inr (solver_ok (solver f5), f5))))"

text \<open>
  The update of \<open>numPropsMultiplier\<close>: in the first branch the source evaluates
  \<open>std::max(numPropsMultiplier*1.7, 5.0)\<close> and drops the value.
\<close>

definition goingGood :: "FailedVarSearcher \<Rightarrow> bool" where
  "goingGood f =
     (500 < lastTimeFoundTruths f \<or>
      real (length (solver_order_heap (solver f))) * 0.03 < real (lastTimeFoundTruths f))"

definition updateMultiplier :: "FailedVarSearcher \<Rightarrow> FailedVarSearcher" where
  "updateMultiplier f = (if goingGood f then f else f\<lparr>numPropsMultiplier := 1\<rparr>)"

definition scaledProps :: "nat \<Rightarrow> FailedVarSearcher \<Rightarrow> nat" where
  "scaledProps numProps f = nat \<lfloor>real numProps * numPropsMultiplier f\<rfloor>"

text \<open>The loop of \<open>search\<close> over the variables. \<open>False\<close> is the jump to \<open>end\<close> after a failed \<open>tryBoth\<close>.\<close>

fun searchLoop :: "Env \<Rightarrow> nat \<Rightarrow> nat list \<Rightarrow> FailedVarSearcher \<Rightarrow> error + FailedVarSearcher" where
  "searchLoop env numProps [] f = Inr f"
| "searchLoop env numProps (v # vs) f =
     (if solver_assigns (solver f) ! v = l_Undef \<and> solver_decision_var (solver f) ! v then
        (if numProps \<le> solver_propagations (solver f) - origProps f
         then Inr (f\<lparr>finishedLastTimeVar := False, lastTimeWentUntilVar := v\<rparr>)
         else (case tryBoth env (Lit v False) (Lit v True) f of
                 Inl e \<Rightarrow> Inl e
               | Inr (False, f1) \<Rightarrow> Inr f1
               | Inr (True, f1) \<Rightarrow> searchLoop env numProps vs f1))
      else searchLoop env numProps vs f)"

text \<open>The initialisations of \<open>search\<close> between the statistics and the ordering of the literals.\<close>

definition searchInit :: "Env \<Rightarrow> FailedVarSearcher \<Rightarrow> FailedVarSearcher" where
  "searchInit env f0 =
     (let n = solver_nVars (solver f0);
          f1 = f0\<lparr>propagated := resizeTo n False (propagated f0),
                  propValue := resizeTo n False (propValue f0),
                  bothSame := [],
                  origTrailSize := length (solver_trail (solver f0)),
                  toReplaceBefore := getNewToReplaceVars (solver f0),
                  lastTrailSize := length (solver_trail (solver f0)),
                  twoLongXors := {}\<rparr>;
          s = solver f1;
          find = \<not> (length (solver_xorclauses s) < 5 \<or> 30000 < length (solver_xorclauses s) \<or>
                     30000 < length (solver_order_heap s) \<or> 100000 < solver_nClauses s);
          f2 = f1\<lparr>binXorFind := find\<rparr>;
          f3 = (if find then
                  (let g = f2\<lparr>solver := cleanXorClauses env (solver f2)\<rparr>
                   in addFromSolver (solver_xorclauses (solver g)) g)
                else f2)
      in f3\<lparr>xorClauseTouched := resizeTo (length (solver_xorclauses (solver f3))) False
                                         (xorClauseTouched f3),
            newBinXor := 0, bothInvert := 0, binClauseAdded := 0,
            propagatedBin := resizeTo n False (propagatedBin f3),
            propagatedVars := [],
            myimplies := resizeTo n False (myimplies f3),
            hyperbinProps := 0\<rparr>)"

text \<open>
  \<open>search\<close>. The saved state is restored by the code at the label \<open>end\<close>, which the
  jumps after \<open>readdRemovedLearnts\<close> and after a failed \<open>tryBoth\<close> reach, as does the
  end of the loop. The line \<open>if (solver.addExtraBins && !orderLits()) return false;\<close>
  leaves the function directly.
\<close>

definition search :: "Env \<Rightarrow> nat \<Rightarrow> nat \<Rightarrow> FailedVarSearcher \<Rightarrow> error + (bool \<times> FailedVarSearcher)" where
  "search env maxOld numProps0 f0 =
     (if solver_decisionLevel (solver f0) \<noteq> 0 then Inl AssertionFailed
      else
        (let b = saveState (solver f0);
             origHeapSize = length (solver_order_heap (solver f0))
         in case (if solver_readdOldLearnts (solver f0) then readdRemovedLearnts env maxOld f0
                  else Inr (True, f0)) of
              Inl e \<Rightarrow> Inl e
            | Inr (False, f1) \<Rightarrow> searchEnd env b origHeapSize f1
            | Inr (True, f1) \<Rightarrow>
               (let f2 = f1\<lparr>numFailed := 0, goodBothSame := 0,
                            origProps := solver_propagations (solver f1),
                            numCalls := numCalls f1 + 1\<rparr>;
                    f3 = updateMultiplier f2;
                    numProps = scaledProps numProps0 f3;
                    f4 = searchInit env f3
                in case (if solver_addExtraBins (solver f4) then orderLits env f4
                         else Inr (True, f4)) of
                     Inl e \<Rightarrow> Inl e
                   | Inr (False, f5) \<Rightarrow> Inr (False, f5)
                   | Inr (True, f5) \<Rightarrow>
                      (let f6 = f5\<lparr>maxHyperBinProps := real numProps * 0.2\<rparr>;
                           n = solver_nVars (solver f6);
                           fromVar = (if finishedLastTimeVar f6 \<or> n \<le> lastTimeWentUntilVar f6
                                      then 0 else lastTimeWentUntilVar f6);
                           f7 = f6\<lparr>finishedLastTimeVar := True, lastTimeWentUntilVar := n\<rparr>
                       in case searchLoop env numProps [fromVar..<n] f7 of
                            Inl e \<Rightarrow> Inl e
                          | Inr f8 \<Rightarrow> searchEnd env b origHeapSize f8))))"


subsection \<open>An engine for the examples\<close>

text \<open>
  Modelled from the spec: the propagation functions of the older solver are not among
  the sources. \<open>propagate_binary_only\<close> and \<open>propagate_binary_one_level\<close> only follow
  binary watchers: for a watcher with partner \<open>P\<close>, a true \<open>P\<close> is skipped, an
  undefined \<open>P\<close> is enqueued, a false \<open>P\<close> is a conflict. The one-level variant
  walks the watchers of the literal at the head of the queue only; the other dequeues
  literal after literal. The watch list of a literal holds the literals that it implies.
\<close>

fun walkBin :: "WatchedBin list \<Rightarrow> Solver2 \<Rightarrow> bool \<times> Solver2" where
  "walkBin [] s = (False, s)"
| "walkBin (w # ws) s =
     (case solver_value s (impliedLit w) of
        l_True \<Rightarrow> walkBin ws s
      | l_Undef \<Rightarrow> walkBin ws (uncheckedEnqueue (impliedLit w) s)
      | l_False \<Rightarrow> (True, s))"

definition stdPropagateBinOneLevel :: "Solver2 \<Rightarrow> bool \<times> Solver2" where
  "stdPropagateBinOneLevel s =
     walkBin (solver_binwatches s ! toInt (solver_trail s ! solver_qhead s)) s"

fun binLoop :: "nat \<Rightarrow> Solver2 \<Rightarrow> bool \<times> Solver2" where
  "binLoop 0 s = (False, s)"
| "binLoop (Suc n) s =
     (if solver_qhead s < length (solver_trail s) then
        (let p = solver_trail s ! solver_qhead s;
             s1 = s\<lparr>solver_qhead := solver_qhead s + 1,
                    solver_propagations := solver_propagations s + 1\<rparr>;
             (confl, s2) = walkBin (solver_binwatches s1 ! toInt p) s1
         in if confl then (True, s2) else binLoop n s2)
      else (False, s))"

definition stdPropagateBin :: "Solver2 \<Rightarrow> bool \<times> Solver2" where
  "stdPropagateBin s = binLoop (Suc (solver_nVars s)) s"

text \<open>
  Modelled from the spec: full propagation propagates all forced assignments until
  fixpoint or conflict. The model reads the attached clauses off the binary watch lists
  and the watch lists of the long clauses and repeatedly assigns the remaining literal
  of a clause whose other literals are all false.
\<close>

definition attachedClauses2 :: "Solver2 \<Rightarrow> Lit list list" where
  "attachedClauses2 s =
     concat (map (\<lambda>i. map (\<lambda>w. [neg (toLit i), impliedLit w]) (solver_binwatches s ! i))
                 [0..<length (solver_binwatches s)])
     @ map (\<lambda>c. cl_lits (solver_mem s ! c)) (concat (solver_watches s))"

fun propagateSteps2 :: "nat \<Rightarrow> Lit list list \<Rightarrow> Solver2 \<Rightarrow> bool \<times> Solver2" where
  "propagateSteps2 0 cs s =
     (case firstForced (solver_assigns s) cs of Conflict \<Rightarrow> (True, s) | _ \<Rightarrow> (False, s))"
| "propagateSteps2 (Suc n) cs s =
     (case firstForced (solver_assigns s) cs of
        Conflict \<Rightarrow> (True, s)
      | NoneForced \<Rightarrow> (False, s)
      | Unit l \<Rightarrow> propagateSteps2 n cs (uncheckedEnqueue l s))"

definition stdPropagate :: "bool \<Rightarrow> Solver2 \<Rightarrow> bool \<times> Solver2" where
  "stdPropagate update s =
     (let (confl, s') = propagateSteps2 (solver_nVars s) (attachedClauses2 s) s
      in (confl, s'\<lparr>solver_qhead := length (solver_trail s'),
                    solver_propagations := solver_propagations s'
                      + (length (solver_trail s') - solver_qhead s)\<rparr>))"

text \<open>
  Modelled from the spec: \<open>VarReplacer::replace\<close> is not among the sources. The
  replacement table maps a variable to the literal of another variable that it is
  equivalent to, its root. Registering \<open>a xor b = \<not> inverted\<close> for two variables with
  the same root succeeds when the table agrees and otherwise sets \<open>ok\<close> to false and
  returns false; for two different roots it redirects what pointed to the second root
  and counts one more variable to replace.
\<close>

definition stdReplace :: "Lit list \<Rightarrow> bool \<Rightarrow> nat \<Rightarrow> Solver2 \<Rightarrow> bool \<times> Solver2" where
  "stdReplace ps inverted grp s =
     (let ra = vr_table s ! var (ps ! 0); rb = vr_table s ! var (ps ! 1)
      in if var ra = var rb then
           (if (sign ra \<noteq> sign rb) = (\<not> inverted) then (True, s)
            else (False, s\<lparr>solver_ok := False\<rparr>))
         else
           (True, s\<lparr>vr_table :=
                      map (\<lambda>t. if var t = var rb
                                then lit_xor ra (((\<not> inverted) \<noteq> sign rb) \<noteq> sign t) else t)
                          (vr_table s),
                    vr_replacedVars := vr_replacedVars s + 1\<rparr>))"

text \<open>
  Modelled from the spec: removing a binary clause removes all its matched watchers.
\<close>

definition stdRemoveClause :: "nat \<Rightarrow> Solver2 \<Rightarrow> Solver2" where
  "stdRemoveClause c s =
     s\<lparr>solver_binwatches := map (filter (\<lambda>w. wclause w \<noteq> c)) (solver_binwatches s)\<rparr>"

text \<open>
  The engine of the examples. The components that the examples do not reach leave the
  solver as it is.
\<close>

definition exEnv :: Env where
  "exEnv = \<lparr>propagate2 = stdPropagate, propagateBin = stdPropagateBin,
            propagateBinOneLevel = stdPropagateBinOneLevel, vr_replace = stdReplace,
            reattachInternalClauses = (\<lambda>s. s), addLearntClause2 = (\<lambda>ps g a s. s),
            addClauseInt2 = (\<lambda>c g s. (Some c, s)), attachClause2 = (\<lambda>c s. s),
            attachXorClause = (\<lambda>c s. s), detachClause2 = (\<lambda>c s. s),
            removeClause = stdRemoveClause, cleanXorClauses = (\<lambda>s. s),
            cleanerRemoveAndCleanAll = (\<lambda>s. s)\<rparr>"

text \<open>
  A solver over three variables \<open>L\<close>, \<open>B\<close>, \<open>A\<close> (0, 1, 2) with the irredundant binary
  clauses \<open>\<not>L \<or> B\<close>, \<open>\<not>L \<or> A\<close> and \<open>\<not>A \<or> B\<close>, attached in this order, and a
  searcher on it.
\<close>

definition exBinsSolver :: Solver2 where
  "exBinsSolver =
     \<lparr>solver_ok = True, solver_assigns = [l_Undef, l_Undef, l_Undef], solver_trail = [],
      solver_trail_lim = [], solver_qhead = 0, solver_polarity = [False, False, False],
      solver_activity = [0, 0, 0], solver_var_inc = 1, solver_order_heap = [0, 1, 2],
      solver_decision_var = [True, True, True], solver_propagations = 0,
      solver_binwatches =
        [[\<lparr>impliedLit = Lit 1 False, wclause = 0\<rparr>, \<lparr>impliedLit = Lit 2 False, wclause = 1\<rparr>],
         [],
         [],
         [\<lparr>impliedLit = Lit 0 True, wclause = 0\<rparr>, \<lparr>impliedLit = Lit 2 True, wclause = 2\<rparr>],
         [\<lparr>impliedLit = Lit 1 False, wclause = 2\<rparr>],
         [\<lparr>impliedLit = Lit 0 True, wclause = 1\<rparr>]],
      solver_watches = [[], [], [], [], [], []], solver_xorwatches = [[], [], []],
      solver_mem =
        [\<lparr>cl_lits = [Lit 0 True, Lit 1 False], cl_learnt = False, cl_group = 0,
          cl_strenghtened = False\<rparr>,
         \<lparr>cl_lits = [Lit 0 True, Lit 2 False], cl_learnt = False, cl_group = 0,
          cl_strenghtened = False\<rparr>,
         \<lparr>cl_lits = [Lit 2 True, Lit 1 False], cl_learnt = False, cl_group = 0,
          cl_strenghtened = False\<rparr>],
      solver_binaryClauses = [0, 1, 2], solver_clauses = [], solver_learnts = [],
      solver_removedLearnts = [], solver_xorclauses = [], solver_addExtraBins = False,
      solver_readdOldLearnts = False, solver_nbBin = 0, solver_becameBinary = 0,
      solver_clauses_literals = 6, solver_learnts_literals = 0, solver_mtrand = (\<lambda>n. 0),
      vr_table = [Lit 0 False, Lit 1 False, Lit 2 False], vr_replacedVars = 0\<rparr>"

definition newSearcher :: "Solver2 \<Rightarrow> FailedVarSearcher" where
  "newSearcher s =
     \<lparr>solver = s, finishedLastTimeVar = True, lastTimeWentUntilVar = 0,
      finishedLastTimeBin = True, lastTimeWentUntilBin = 0, numPropsMultiplier = 1,
      lastTimeFoundTruths = 0, numCalls = 0, xorClauseSizes = [], occur = [],
      xorClauseTouched = [], investigateXor = [], twoLongXors = {}, binXorFind = False,
      lastTrailSize = 0, propagated = [], propValue = [], bothSame = [], numFailed = 0,
      goodBothSame = 0, origProps = 0, origTrailSize = 0, toReplaceBefore = 0,
      bothInvert = 0, newBinXor = 0, binClauseAdded = 0, propagatedBin = [],
      propagatedVars = [], myimplies = [], hyperbinProps = 0, maxHyperBinProps = 0,
      litDegrees = [], failed = False, removedUselessBin = 0, setOneHop = []\<rparr>"

text \<open>The searcher as \<open>removeUslessBinFull\<close> prepares it: the marks of the literals cleared.\<close>

definition exBins :: FailedVarSearcher where
  "exBins = (newSearcher exBinsSolver)\<lparr>setOneHop := [False, False, False, False, False, False]\<rparr>"

text \<open>
  The sets of the useless-binary removal: \<open>oneHop\<close> holds the literals that one-level
  binary propagation of a literal sets, \<open>binImplied\<close> the literals that full binary
  propagation of a literal sets beyond the literal itself.
\<close>

definition oneHop :: "Env \<Rightarrow> Solver2 \<Rightarrow> Lit \<Rightarrow> Lit set" where
  "oneHop env s l =
     set (impliedEntries (snd (propagateBinOneLevel env (uncheckedEnqueue l (newDecisionLevel s)))))"

definition binImplied :: "Env \<Rightarrow> Solver2 \<Rightarrow> Lit \<Rightarrow> Lit set" where
  "binImplied env s m =
     set (impliedEntries (snd (propagateBin env (uncheckedEnqueue m (newDecisionLevel s)))))"

text \<open>
  An unsatisfiable solver over three variables 0, 1, 2 with the binary clauses
  \<open>\<not>x0 \<or> x1\<close>, \<open>\<not>x0 \<or> \<not>x1\<close>, \<open>x0 \<or> x2\<close> and \<open>x0 \<or> \<not>x2\<close>, nothing assigned yet,
  with hyper-binary resolution switched on, and a new searcher on it.
\<close>

definition exUnsatSolver :: Solver2 where
  "exUnsatSolver =
     \<lparr>solver_ok = True, solver_assigns = [l_Undef, l_Undef, l_Undef], solver_trail = [],
      solver_trail_lim = [], solver_qhead = 0, solver_polarity = [False, True, True],
      solver_activity = [0, 0, 0], solver_var_inc = 1, solver_order_heap = [0, 1, 2],
      solver_decision_var = [True, True, True], solver_propagations = 0,
      solver_binwatches =
        [[\<lparr>impliedLit = Lit 1 False, wclause = 0\<rparr>, \<lparr>impliedLit = Lit 1 True, wclause = 1\<rparr>],
         [\<lparr>impliedLit = Lit 2 False, wclause = 2\<rparr>, \<lparr>impliedLit = Lit 2 True, wclause = 3\<rparr>],
         [\<lparr>impliedLit = Lit 0 True, wclause = 1\<rparr>],
         [\<lparr>impliedLit = Lit 0 True, wclause = 0\<rparr>],
         [\<lparr>impliedLit = Lit 0 False, wclause = 3\<rparr>],
         [\<lparr>impliedLit = Lit 0 False, wclause = 2\<rparr>]],
      solver_watches = [[], [], [], [], [], []], solver_xorwatches = [[], [], []],
      solver_mem =
        [\<lparr>cl_lits = [Lit 0 True, Lit 1 False], cl_learnt = False, cl_group = 0,
          cl_strenghtened = False\<rparr>,
         \<lparr>cl_lits = [Lit 0 True, Lit 1 True], cl_learnt = False, cl_group = 0,
          cl_strenghtened = False\<rparr>,
         \<lparr>cl_lits = [Lit 0 False, Lit 2 False], cl_learnt = False, cl_group = 0,
          cl_strenghtened = False\<rparr>,
         \<lparr>cl_lits = [Lit 0 False, Lit 2 True], cl_learnt = False, cl_group = 0,
          cl_strenghtened = False\<rparr>],
      solver_binaryClauses = [0, 1, 2, 3], solver_clauses = [], solver_learnts = [],
      solver_removedLearnts = [], solver_xorclauses = [], solver_addExtraBins = True,
      solver_readdOldLearnts = False, solver_nbBin = 0, solver_becameBinary = 0,
      solver_clauses_literals = 8, solver_learnts_literals = 0, solver_mtrand = (\<lambda>n. 0),
      vr_table = [Lit 0 False, Lit 1 False, Lit 2 False], vr_replacedVars = 0\<rparr>"

definition exUnsat2 :: FailedVarSearcher where
  "exUnsat2 = newSearcher exUnsatSolver"

text \<open>The same searcher with hyper-binary resolution switched off.\<close>

definition exUnsat2Plain :: FailedVarSearcher where
  "exUnsat2Plain = newSearcher (exUnsatSolver\<lparr>solver_addExtraBins := False\<rparr>)"

text \<open>
  A satisfiable solver over the same three variables with the binary clauses
  \<open>\<not>x0 \<or> x1\<close> and \<open>\<not>x0 \<or> \<not>x1\<close> only, so that \<open>x0\<close> fails and \<open>\<not>x0\<close> does not,
  hyper-binary resolution switched off, and a new searcher on it.
\<close>

definition exFailSolver :: Solver2 where
  "exFailSolver =
     exUnsatSolver\<lparr>
       solver_binwatches :=
         [[\<lparr>impliedLit = Lit 1 False, wclause = 0\<rparr>, \<lparr>impliedLit = Lit 1 True, wclause = 1\<rparr>],
          [],
          [\<lparr>impliedLit = Lit 0 True, wclause = 1\<rparr>],
          [\<lparr>impliedLit = Lit 0 True, wclause = 0\<rparr>],
          [],
          []],
       solver_mem := take 2 (solver_mem exUnsatSolver),
       solver_binaryClauses := [0, 1], solver_addExtraBins := False,
       solver_clauses_literals := 4\<rparr>"

definition exFail :: FailedVarSearcher where
  "exFail = (newSearcher exFailSolver)\<lparr>propagated := [False, False, False],
                                        propValue := [False, False, False]\<rparr>"

text \<open>
  A solver over the same three variables with the binary clauses \<open>\<not>x0 \<or> x2\<close> and
  \<open>x0 \<or> x2\<close>, so that \<open>x2\<close> is true whichever value \<open>x0\<close> takes, and a searcher on it.
\<close>

definition exSameSolver :: Solver2 where
  "exSameSolver =
     exUnsatSolver\<lparr>
       solver_binwatches :=
         [[\<lparr>impliedLit = Lit 2 False, wclause = 0\<rparr>],
          [\<lparr>impliedLit = Lit 2 False, wclause = 1\<rparr>],
          [],
          [],
          [],
          [\<lparr>impliedLit = Lit 0 True, wclause = 0\<rparr>, \<lparr>impliedLit = Lit 0 False, wclause = 1\<rparr>]],
       solver_mem :=
         [\<lparr>cl_lits = [Lit 0 True, Lit 2 False], cl_learnt = False, cl_group = 0,
           cl_strenghtened = False\<rparr>,
          \<lparr>cl_lits = [Lit 0 False, Lit 2 False], cl_learnt = False, cl_group = 0,
           cl_strenghtened = False\<rparr>],
       solver_binaryClauses := [0, 1], solver_addExtraBins := False,
       solver_clauses_literals := 4\<rparr>"

definition exSame :: FailedVarSearcher where
  "exSame = (newSearcher exSameSolver)\<lparr>propagated := [False, False, False],
                                        propValue := [False, False, False]\<rparr>"

text \<open>
  The same solver with the clauses \<open>\<not>x0 \<or> \<not>x1\<close> and \<open>x0 \<or> x1\<close> added, which make
  \<open>x1\<close> the opposite of \<open>x0\<close>, and with a replacement table that already holds \<open>x1\<close> as
  equivalent to \<open>x0\<close>.
\<close>

definition exContraSolver :: Solver2 where
  "exContraSolver =
     exUnsatSolver\<lparr>
       solver_binwatches :=
         [[\<lparr>impliedLit = Lit 2 False, wclause = 0\<rparr>, \<lparr>impliedLit = Lit 1 True, wclause = 2\<rparr>],
          [\<lparr>impliedLit = Lit 2 False, wclause = 1\<rparr>, \<lparr>impliedLit = Lit 1 False, wclause = 3\<rparr>],
          [\<lparr>impliedLit = Lit 0 True, wclause = 2\<rparr>],
          [\<lparr>impliedLit = Lit 0 False, wclause = 3\<rparr>],
          [],
          [\<lparr>impliedLit = Lit 0 True, wclause = 0\<rparr>, \<lparr>impliedLit = Lit 0 False, wclause = 1\<rparr>]],
       solver_mem :=
         [\<lparr>cl_lits = [Lit 0 True, Lit 2 False], cl_learnt = False, cl_group = 0,
           cl_strenghtened = False\<rparr>,
          \<lparr>cl_lits = [Lit 0 False, Lit 2 False], cl_learnt = False, cl_group = 0,
           cl_strenghtened = False\<rparr>,
          \<lparr>cl_lits = [Lit 0 True, Lit 1 True], cl_learnt = False, cl_group = 0,
           cl_strenghtened = False\<rparr>,
          \<lparr>cl_lits = [Lit 0 False, Lit 1 False], cl_learnt = False, cl_group = 0,
           cl_strenghtened = False\<rparr>],
       solver_addExtraBins := False,
       vr_table := [Lit 0 False, Lit 0 False, Lit 2 False]\<rparr>"

definition exContra :: FailedVarSearcher where
  "exContra = (newSearcher exContraSolver)\<lparr>propagated := [False, False, False],
                                            propValue := [False, False, False]\<rparr>"

section \<open>Example states\<close>

text \<open>
  A solver over five variables at decision level 0, with variable 0 assigned true and
  nothing attached.
\<close>

definition exConf :: SolverConf where
  "exConf = \<lparr>startClean = 10000, doFindAndReplaceEqLits = True, doProbe = True,
             doClausVivif = True, doSatELite = True, doStamp = True, doCalcReach = True,
             doSortWatched = True, doRenumberVars = True,
             doClearStatEveryClauseCleaning = True\<rparr>"

definition exSolver :: Solver where
  "exSolver = \<lparr>ok = True, assigns = [l_True, l_Undef, l_Undef, l_Undef, l_Undef],
               trail = [Lit 0 False], trail_lim = [], qhead = 1,
               elimed = [ELIMED_NONE, ELIMED_NONE, ELIMED_NONE, ELIMED_NONE, ELIMED_NONE],
               watches = [[], [], [], [], [], [], [], [], [], []],
               clAllocator = [], longIrredCls = [], longRedCls = [],
               irredLits = 0, redLits = 0, irredBins = 0, redBins = 0, irredTris = 0,
               redTris = 0, numNewBinsSinceSCC = 0, propsUnit = 0, numConflicts = 0,
               zeroLevAssignsByCNF = 0,
               replaceTable = [Lit 0 False, Lit 1 False, Lit 2 False, Lit 3 False, Lit 4 False],
               varElimed = [False, False, False, False, False], blockedClauses = [],
               mtrand = (\<lambda>n. n), nextCleanLimit = 0, nextCleanLimitInc = 0,
               assumptions = [], numSimplify = 0, needToInterrupt = False,
               zeroLevAssignsByThreads = 0, conf = exConf\<rparr>"

definition exStats :: ClauseStats where
  "exStats = \<lparr>glue = 2, conflictNumIntroduced = 0\<rparr>"

text \<open>The same solver after a conflict at level 0 was found.\<close>

definition exUnsat :: Solver where
  "exUnsat = exSolver\<lparr>ok := False\<rparr>"

text \<open>Passes that do nothing and a search that gives up at once.\<close>

definition exPasses :: Passes where
  "exPasses = \<lparr>reArrangeClauses = (\<lambda>s. s), find2LongXors = (\<lambda>s. (True, s)),
               replaceDue = (\<lambda>s. False), performReplace = (\<lambda>s. (True, s)),
               subsumeAndStrengthenImplicit = (\<lambda>s. (True, s)), probe = (\<lambda>s. (True, s)),
               vivify = (\<lambda>b s. (True, s)), simplify = (\<lambda>s. (True, s)),
               calcReachability = (\<lambda>s. s), sortWatched = (\<lambda>s. s),
               renumberVariables = (\<lambda>s. s), clearClauseStats = (\<lambda>s. s),
               checkImplicitPropagated = (\<lambda>s. True), removeAndCleanAll = (\<lambda>s. s),
               numConflsOf = (\<lambda>s. 100), Searcher_solve = (\<lambda>a n s. (l_Undef, s)),
               fullReduce = (\<lambda>s. s), extendSolution = (\<lambda>s. s)\<rparr>"

text \<open>
  The same solver with variable 2 known to be equivalent to variable 1 in the
  replacement table.
\<close>

definition exEquiv :: Solver where
  "exEquiv = exSolver\<lparr>replaceTable :=
                [Lit 0 False, Lit 1 False, Lit 1 False, Lit 3 False, Lit 4 False]\<rparr>"


section \<open>Auxiliary predicates of the proofs\<close>

text \<open>
  The invariant of the cleaning loop of \<open>addClauseInt\<close>: the literals kept so far are
  strictly increasing, the literal kept last is the largest of them, and nothing still
  to be read is smaller.
\<close>

definition cl_inv :: "Lit \<Rightarrow> Lit list \<Rightarrow> Lit list \<Rightarrow> bool" where
  "cl_inv p acc xs \<longleftrightarrow>
     sorted_wrt (<) (map toInt acc) \<and> (\<forall>a\<in>set acc. toInt a \<le> toInt p) \<and>
     (acc \<noteq> [] \<longrightarrow> (\<forall>x\<in>set xs. toInt p \<le> toInt x) \<and> p \<in> set acc) \<and>
     (acc = [] \<longrightarrow> p \<notin> set xs)"

text \<open>
  Two solver states have the same store when they agree on the arena, the watch index,
  the two lists of long clauses and the six counters.
\<close>

definition sameStore :: "Solver \<Rightarrow> Solver \<Rightarrow> bool" where
  "sameStore s s' \<longleftrightarrow>
     clAllocator s' = clAllocator s \<and> watches s' = watches s \<and>
     longIrredCls s' = longIrredCls s \<and> longRedCls s' = longRedCls s \<and>
     irredLits s' = irredLits s \<and> redLits s' = redLits s \<and>
     irredBins s' = irredBins s \<and> redBins s' = redBins s \<and>
     irredTris s' = irredTris s \<and> redTris s' = redTris s"

text \<open>
  Two solver states have the same clauses when they agree on the arena, the two lists
  of long clauses and the six counters; the watch index may differ.
\<close>

definition sameCounts :: "Solver \<Rightarrow> Solver \<Rightarrow> bool" where
  "sameCounts s s' \<longleftrightarrow>
     clAllocator s' = clAllocator s \<and>
     longIrredCls s' = longIrredCls s \<and> longRedCls s' = longRedCls s \<and>
     irredLits s' = irredLits s \<and> redLits s' = redLits s \<and>
     irredBins s' = irredBins s \<and> redBins s' = redBins s \<and>
     irredTris s' = irredTris s \<and> redTris s' = redTris s"

text \<open>
  The two equalities that \<open>checkStats\<close> asserts last: the counters of literals match
  the implicit clauses counted by the counters of binaries and ternaries plus the sizes
  of the long clauses in the two lists.
\<close>

definition countersMatch :: "Solver \<Rightarrow> bool" where
  "countersMatch s \<longleftrightarrow> numLitsNonLearnt s = irredLits s \<and> numLitsLearnt s = redLits s"

text \<open>
  The two lists of long clauses are well formed: their offsets point into the arena,
  at an irredundant clause in \<open>longIrredCls\<close> and at a learnt one in
  \<open>longRedCls\<close>.
\<close>

definition listsOk :: "Solver \<Rightarrow> bool" where
  "listsOk s \<longleftrightarrow>
     (\<forall>off\<in>set (longIrredCls s). off < length (clAllocator s) \<and> \<not> learnt (clAllocator s ! off)) \<and>
     (\<forall>off\<in>set (longRedCls s). off < length (clAllocator s) \<and> learnt (clAllocator s ! off))"

definition pushLong :: "bool \<Rightarrow> nat option \<Rightarrow> Solver \<Rightarrow> Solver" where
  "pushLong red r s =
     (case r of None \<Rightarrow> s
      | Some off \<Rightarrow> if red then s\<lparr>longRedCls := longRedCls s @ [off]\<rparr>
                    else s\<lparr>longIrredCls := longIrredCls s @ [off]\<rparr>)"

text \<open>The sum of the sizes of the clauses of a list that are not freed.\<close>

definition longSum :: "Clause list \<Rightarrow> nat list \<Rightarrow> 64 word" where
  "longSum ar offs = sumSizes ar offs 0"


text \<open>
  Two states of the searcher have the same marks when they agree on the multiplier of
  the propagation budget, on the two bit arrays \<open>propagated\<close> and \<open>propValue\<close> and on
  the list \<open>bothSame\<close>.
\<close>

definition sameMarks :: "FailedVarSearcher \<Rightarrow> FailedVarSearcher \<Rightarrow> bool" where
  "sameMarks f f' \<longleftrightarrow>
     numPropsMultiplier f' = numPropsMultiplier f \<and> propagated f' = propagated f \<and>
     propValue f' = propValue f \<and> bothSame f' = bothSame f"

section \<open>Properties of cmsat/Solver.cpp\<close>

subsection \<open>The cleaning loop of addClauseInt\<close>

lemma toInt_inj: "toInt a = toInt b \<Longrightarrow> a = b"
  by (cases a; cases b) (auto simp: toInt_def split: if_splits; presburger)

lemma toInt_Lit [simp]: "toInt (Lit v b) = 2 * v + (if b then 1 else 0)"
  by (simp add: toInt_def)

lemma toInt_between:
  "2 * v \<le> toInt y \<Longrightarrow> toInt y \<le> 2 * v + 1 \<Longrightarrow> y = Lit v False \<or> y = Lit v True"
  by (cases y) (auto simp: toInt_def split: if_splits)

lemma cleanLits_true:
  "\<forall>l\<in>set xs. elimedOk s l \<Longrightarrow> \<exists>l\<in>set xs. value s l = l_True \<Longrightarrow> cleanLits s p acc xs = Inr None"
  by (induction xs arbitrary: p acc) (auto simp: getBool_def)

lemma value_undef: "assigns s ! v = l_Undef \<Longrightarrow> value s (Lit v b) = l_Undef"
  by (simp add: value_def litValue_def)

lemma cleanLits_taut:
  "sorted (map toInt xs) \<Longrightarrow> \<forall>l\<in>set xs. elimedOk s l \<Longrightarrow> assigns s ! v = l_Undef \<Longrightarrow>
   Lit v True \<in> set xs \<Longrightarrow>
   (p = Lit v False \<and> (\<forall>y\<in>set xs. 2 * v \<le> toInt y)) \<or> Lit v False \<in> set xs \<Longrightarrow>
   cleanLits s p acc xs = Inr None"
proof (induction xs arbitrary: p acc)
  case Nil
  then show ?case by simp
next
  case (Cons y ys)
  have srt: "sorted (map toInt ys)" and le: "\<forall>z\<in>set ys. toInt y \<le> toInt z"
    using Cons.prems(1) by auto
  have el: "\<forall>l\<in>set ys. elimedOk s l" and ely: "elimedOk s y"
    using Cons.prems(2) by auto
  note un = Cons.prems(3)
  show ?case
  proof (cases "getBool (value s y) \<or> y = neg p")
    case True
    then show ?thesis by auto
  next
    case False
    have ynT: "y \<noteq> Lit v True"
    proof
      assume yT: "y = Lit v True"
      from Cons.prems(5) show False
      proof
        assume "p = Lit v False \<and> (\<forall>y\<in>set (y # ys). 2 * v \<le> toInt y)"
        then show False using False yT by (simp add: neg_def)
      next
        assume "Lit v False \<in> set (y # ys)"
        then have "Lit v False \<in> set ys" using yT by simp
        then have "toInt y \<le> toInt (Lit v False)" using le by blast
        then show False using yT by simp
      qed
    qed
    then have inT: "Lit v True \<in> set ys" using Cons.prems(4) by simp
    then have yle: "toInt y \<le> 2 * v + 1" using le by force
    show ?thesis
    proof (cases "value s y \<noteq> l_False \<and> y \<noteq> p")
      case keep: True
      have d: "(y = Lit v False \<and> (\<forall>z\<in>set ys. 2 * v \<le> toInt z)) \<or> Lit v False \<in> set ys"
        using Cons.prems(5)
      proof
        assume a: "p = Lit v False \<and> (\<forall>y\<in>set (y # ys). 2 * v \<le> toInt y)"
        then have "y = Lit v False \<or> y = Lit v True" using toInt_between yle by simp
        then show ?thesis using a keep ynT by simp
      next
        assume "Lit v False \<in> set (y # ys)"
        then show ?thesis using le by force
      qed
      have "cleanLits s y (acc @ [y]) ys = Inr None"
        by (rule Cons.IH [OF srt el un inT d])
      then show ?thesis using False keep ely by simp
    next
      case skip: False
      have d: "(p = Lit v False \<and> (\<forall>z\<in>set ys. 2 * v \<le> toInt z)) \<or> Lit v False \<in> set ys"
        using Cons.prems(5)
      proof
        assume a: "p = Lit v False \<and> (\<forall>y\<in>set (y # ys). 2 * v \<le> toInt y)"
        then show ?thesis by simp
      next
        assume a: "Lit v False \<in> set (y # ys)"
        show ?thesis
        proof (cases "y = Lit v False")
          case True
          then have "value s y = l_Undef" using un value_undef by simp
          then have "y = p" using skip by simp
          then show ?thesis using True le by force
        next
          case False
          then show ?thesis using a by simp
        qed
      qed
      have "cleanLits s p acc ys = Inr None"
        by (rule Cons.IH [OF srt el un inT d])
      then show ?thesis using False skip by auto
    qed
  qed
qed

lemma cl_inv_skip:
  "cl_inv p acc (y # ys) \<Longrightarrow> value s y = l_False \<or> y = p \<Longrightarrow> cl_inv p acc ys"
  by (auto simp: cl_inv_def)

lemma cl_inv_keep:
  assumes "cl_inv p acc (y # ys)" "y \<noteq> p" "sorted (map toInt (y # ys))"
  shows "cl_inv y (acc @ [y]) ys"
proof -
  have lt: "\<forall>a\<in>set acc. toInt a < toInt y"
  proof
    fix a assume a: "a \<in> set acc"
    then have "acc \<noteq> []" by auto
    then have "toInt p \<le> toInt y" using assms(1) by (simp add: cl_inv_def)
    moreover have "toInt p \<noteq> toInt y" using assms(2) toInt_inj by blast
    moreover have "toInt a \<le> toInt p" using assms(1) a by (simp add: cl_inv_def)
    ultimately show "toInt a < toInt y" by linarith
  qed
  have "sorted_wrt (<) (map toInt (acc @ [y]))"
    using assms(1) lt by (simp add: cl_inv_def sorted_wrt_append)
  moreover have "\<forall>a\<in>set (acc @ [y]). toInt a \<le> toInt y" using lt by (auto intro: less_imp_le)
  moreover have "\<forall>x\<in>set ys. toInt y \<le> toInt x" using assms(3) by simp
  ultimately show ?thesis by (simp add: cl_inv_def)
qed

lemma cleanLits_Some:
  "cleanLits s p acc xs = Inr (Some ps) \<Longrightarrow> sorted (map toInt xs) \<Longrightarrow> cl_inv p acc xs \<Longrightarrow>
   set ps = set acc \<union> {l \<in> set xs. value s l \<noteq> l_False} \<and> sorted_wrt (<) (map toInt ps)"
proof (induction xs arbitrary: p acc)
  case Nil
  then show ?case by (simp add: cl_inv_def)
next
  case (Cons y ys)
  have srt: "sorted (map toInt ys)" using Cons.prems(2) by simp
  show ?case
  proof (cases "value s y \<noteq> l_False \<and> y \<noteq> p")
    case True
    then have r: "cleanLits s y (acc @ [y]) ys = Inr (Some ps)"
      using Cons.prems(1) by (simp split: if_splits)
    have "cl_inv y (acc @ [y]) ys" using cl_inv_keep Cons.prems True by blast
    from Cons.IH [OF r srt this] show ?thesis using True by auto
  next
    case False
    then have r: "cleanLits s p acc ys = Inr (Some ps)"
      using Cons.prems(1) by (auto split: if_splits)
    have i: "cl_inv p acc ys" using cl_inv_skip Cons.prems(3) False by blast
    have "y = p \<Longrightarrow> y \<in> set acc" using Cons.prems(3) by (auto simp: cl_inv_def)
    with Cons.IH [OF r srt i] show ?thesis using False by auto
  qed
qed

lemma cleanLits_no_true:
  "cleanLits s p acc xs = Inr (Some ps) \<Longrightarrow> \<forall>l\<in>set xs. value s l \<noteq> l_True"
  by (induction xs arbitrary: p acc) (auto simp: getBool_def split: if_splits)

lemma cleanLits_ex:
  "\<forall>l\<in>set xs. elimedOk s l \<Longrightarrow> \<forall>l\<in>set xs. value s l \<noteq> l_True \<Longrightarrow>
   \<forall>l\<in>set xs. neg l \<notin> set xs \<Longrightarrow> neg p \<notin> set xs \<Longrightarrow>
   \<exists>ps. cleanLits s p acc xs = Inr (Some ps)"
proof (induction xs arbitrary: p acc)
  case Nil
  then show ?case by simp
next
  case (Cons y ys)
  have a: "\<forall>l\<in>set ys. elimedOk s l" "\<forall>l\<in>set ys. value s l \<noteq> l_True" "\<forall>l\<in>set ys. neg l \<notin> set ys"
    using Cons.prems by auto
  have b: "neg p \<notin> set ys" "neg y \<notin> set ys" "y \<noteq> neg p" using Cons.prems by auto
  show ?case using Cons.IH [OF a b(1)] Cons.IH [OF a b(2)] b(3) Cons.prems(1,2)
    by (auto simp: getBool_def)
qed

lemma value_cases:
  "assigns s ! v \<noteq> l_Undef \<Longrightarrow> value s (Lit v True) = l_True \<or> value s (Lit v False) = l_True"
  by (cases "assigns s ! v") (auto simp: value_def litValue_def)

lemma neg_pair: "l \<in> set ls \<Longrightarrow> neg l \<in> set ls \<Longrightarrow> Lit (var l) True \<in> set ls \<and> Lit (var l) False \<in> set ls"
  by (cases l; cases "sign l") (auto simp: neg_def)

lemma sorted_wrt_less_distinct: "sorted_wrt (<) (map toInt ps) \<Longrightarrow> distinct ps"
  by (induction ps) auto


text \<open>
  C10: \<open>addClauseInt\<close> silently drops a clause that is already satisfied or
  tautological. Called as its assertions demand (the solver is ok, at decision level 0,
  the variables declared and not eliminated), on a clause that contains a literal true
  at level 0, or a literal together with its negation, it returns NULL and leaves the
  whole solver state unchanged: nothing is attached, and the clause database, the watch
  lists and the counters are as before. On every other clause the literals it goes on
  to store are the input's literals that are not false at level 0, each once, in
  increasing order.
\<close>

theorem addClauseInt_drop:
  assumes pre: "ok s" "decisionLevel s = 0" "attach \<longrightarrow> qhead s = length (trail s)"
    and wf: "nVars s \<le> var_Undef" "\<forall>l\<in>set ls. var l < nVars s \<and> elimedOk s l"
  shows "((\<exists>l\<in>set ls. value s l = l_True) \<or> (\<exists>l\<in>set ls. neg l \<in> set ls)
            \<longrightarrow> addClauseInt ls red st attach s = Inr (None, None, s)) \<and>
         (\<not> ((\<exists>l\<in>set ls. value s l = l_True) \<or> (\<exists>l\<in>set ls. neg l \<in> set ls))
            \<longrightarrow> (\<exists>ps. addClauseInt ls red st attach s =
                        Inr (fst (storeClause ps red st attach s), Some ps,
                             snd (storeClause ps red st attach s)) \<and>
                      set ps = {l \<in> set ls. value s l \<noteq> l_False} \<and> distinct ps \<and>
                      sorted (map toInt ps)))"
proof (intro conjI impI)
  let ?xs = "sort_key toInt ls"
  have srt: "sorted (map toInt ?xs)" by simp
  have el: "\<forall>l\<in>set ?xs. elimedOk s l" using wf by simp
  have nopre: "\<not> (\<not> ok s \<or> decisionLevel s \<noteq> 0 \<or> (attach \<and> qhead s \<noteq> length (trail s)))"
    using pre by simp
  {
    assume "(\<exists>l\<in>set ls. value s l = l_True) \<or> (\<exists>l\<in>set ls. neg l \<in> set ls)"
    then have "cleanLits s lit_Undef [] ?xs = Inr None"
    proof
      assume "\<exists>l\<in>set ls. value s l = l_True"
      then show ?thesis using cleanLits_true [OF el] by simp
    next
      assume "\<exists>l\<in>set ls. neg l \<in> set ls"
      then obtain l where l: "l \<in> set ls" "neg l \<in> set ls" by blast
      then have both: "Lit (var l) True \<in> set ?xs" "Lit (var l) False \<in> set ?xs"
        using neg_pair by auto
      show ?thesis
      proof (cases "assigns s ! var l = l_Undef")
        case True
        show ?thesis using both(2) by (intro cleanLits_taut [OF srt el True both(1)]) blast
      next
        case False
        then have "\<exists>l\<in>set ?xs. value s l = l_True" using value_cases both by blast
        then show ?thesis using cleanLits_true [OF el] by simp
      qed
    qed
    then show "addClauseInt ls red st attach s = Inr (None, None, s)"
      using nopre by (simp add: addClauseInt_def)
  }
  {
    assume n: "\<not> ((\<exists>l\<in>set ls. value s l = l_True) \<or> (\<exists>l\<in>set ls. neg l \<in> set ls))"
    have u: "\<forall>l\<in>set ls. l \<noteq> lit_Undef \<and> l \<noteq> neg lit_Undef"
      using wf by (auto simp: lit_Undef_def neg_def)
    have "neg lit_Undef \<notin> set ?xs" using u by auto
    then obtain ps where ps: "cleanLits s lit_Undef [] ?xs = Inr (Some ps)"
      using cleanLits_ex [OF el, of lit_Undef "[]"] n by auto
    have "cl_inv lit_Undef [] ?xs" using u by (auto simp: cl_inv_def)
    from cleanLits_Some [OF ps srt this]
    have c: "set ps = {l \<in> set ls. value s l \<noteq> l_False}" "sorted_wrt (<) (map toInt ps)"
      by auto
    have "sorted (map toInt ps)" using c(2) by (simp add: strict_sorted_imp_sorted)
    moreover have "distinct ps" using c(2) by (rule sorted_wrt_less_distinct)
    moreover have "addClauseInt ls red st attach s =
                        Inr (fst (storeClause ps red st attach s), Some ps,
                             snd (storeClause ps red st attach s))"
      using nopre ps by (simp add: addClauseInt_def split_beta)
    ultimately show "\<exists>ps. addClauseInt ls red st attach s =
                        Inr (fst (storeClause ps red st attach s), Some ps,
                             snd (storeClause ps red st attach s)) \<and>
                      set ps = {l \<in> set ls. value s l \<noteq> l_False} \<and> distinct ps \<and>
                      sorted (map toInt ps)"
      using c(1) by blast
  }
qed

theorem addClauseInt_drop_witness:
  "ok exSolver \<and> decisionLevel exSolver = 0 \<and> qhead exSolver = length (trail exSolver) \<and>
   nVars exSolver \<le> var_Undef \<and>
   list_all (\<lambda>l. var l < nVars exSolver \<and> elimedOk exSolver l) [Lit 1 False, Lit 0 False] \<and>
   (\<exists>l\<in>set [Lit 1 False, Lit 0 False]. value exSolver l = l_True) \<and>
   addClauseInt [Lit 1 False, Lit 0 False] False exStats True exSolver = Inr (None, None, exSolver) \<and>
   list_all (\<lambda>l. var l < nVars exSolver \<and> elimedOk exSolver l)
     [Lit 2 False, Lit 1 True, Lit 0 True, Lit 2 False] \<and>
   \<not> ((\<exists>l\<in>set [Lit 2 False, Lit 1 True, Lit 0 True, Lit 2 False]. value exSolver l = l_True) \<or>
      (\<exists>l\<in>set [Lit 2 False, Lit 1 True, Lit 0 True, Lit 2 False].
          neg l \<in> set [Lit 2 False, Lit 1 True, Lit 0 True, Lit 2 False])) \<and>
   (\<exists>ps. addClauseInt [Lit 2 False, Lit 1 True, Lit 0 True, Lit 2 False] False exStats True exSolver =
           Inr (fst (storeClause ps False exStats True exSolver), Some ps,
                snd (storeClause ps False exStats True exSolver)) \<and>
         set ps = {l \<in> set [Lit 2 False, Lit 1 True, Lit 0 True, Lit 2 False].
                     value exSolver l \<noteq> l_False} \<and>
         distinct ps \<and> sorted (map toInt ps))"
proof -
  have h1: "ok exSolver" and h2: "decisionLevel exSolver = 0"
    and h3: "True \<longrightarrow> qhead exSolver = length (trail exSolver)"
    and h4: "nVars exSolver \<le> var_Undef"
    by (simp_all add: exSolver_def decisionLevel_def nVars_def var_Undef_def)
  have a1: "\<forall>l\<in>set [Lit 1 False, Lit 0 False]. var l < nVars exSolver \<and> elimedOk exSolver l"
    by (simp add: exSolver_def nVars_def elimedOk_def)
  have a2: "\<exists>l\<in>set [Lit 1 False, Lit 0 False]. value exSolver l = l_True"
    by (simp add: exSolver_def value_def litValue_def)
  have b1: "\<forall>l\<in>set [Lit 2 False, Lit 1 True, Lit 0 True, Lit 2 False].
              var l < nVars exSolver \<and> elimedOk exSolver l"
    by (simp add: exSolver_def nVars_def elimedOk_def)
  have b2: "\<not> ((\<exists>l\<in>set [Lit 2 False, Lit 1 True, Lit 0 True, Lit 2 False]. value exSolver l = l_True) \<or>
      (\<exists>l\<in>set [Lit 2 False, Lit 1 True, Lit 0 True, Lit 2 False].
          neg l \<in> set [Lit 2 False, Lit 1 True, Lit 0 True, Lit 2 False]))"
    by (simp add: exSolver_def value_def litValue_def neg_def)
  from addClauseInt_drop [OF h1 h2 h3 h4 a1, of False exStats]
       addClauseInt_drop [OF h1 h2 h3 h4 b1, of False exStats]
  show ?thesis using h1 h2 h3 h4 a1 a2 b1 b2 unfolding list_all_iff by blast
qed

subsection \<open>The flag ok\<close>

text \<open>
  C5: when the flag \<open>ok\<close> is false, \<open>addClause\<close> (through \<open>addClauseHelper\<close>)
  returns false at once and leaves the solver as it was, \<open>addLearntClause\<close> does the
  same, and \<open>solve\<close> returns \<open>l_False\<close> whatever the simplification passes
  and the search are: it enters neither, and changes nothing but the cleaning limits
  and the stored assumptions.
\<close>

theorem not_ok_short_circuits:
  assumes "\<not> ok s"
  shows "addClause st0 ls s = Inr (False, s) \<and>
         addLearntClause ls st s = Inr (False, s) \<and>
         solve ps assumps s =
           Some (Inr (l_False,
             s\<lparr>nextCleanLimitInc := startClean (conf s),
               nextCleanLimit := nextCleanLimit s + startClean (conf s),
               assumptions := (case assumps of None \<Rightarrow> assumptions s | Some a \<Rightarrow> a)\<rparr>))"
proof (intro conjI)
  show "addClause st0 ls s = Inr (False, s)"
    using assms by (simp add: addClause_def addClauseHelper_def)
  show "addLearntClause ls st s = Inr (False, s)"
    using assms by (simp add: addLearntClause_def addClauseHelper_def)
  have loop: "\<And>t. solveLoop ps l_False t = Some (Inr (l_False, t))"
    by (subst solveLoop.simps) simp
  show "solve ps assumps s =
           Some (Inr (l_False,
             s\<lparr>nextCleanLimitInc := startClean (conf s),
               nextCleanLimit := nextCleanLimit s + startClean (conf s),
               assumptions := (case assumps of None \<Rightarrow> assumptions s | Some a \<Rightarrow> a)\<rparr>))"
    using assms by (cases assumps) (simp_all add: solve_def loop)
qed

theorem not_ok_short_circuits_witness:
  "\<not> ok exUnsat \<and>
   addClause exStats [Lit 1 False, Lit 2 False] exUnsat = Inr (False, exUnsat) \<and>
   addLearntClause [Lit 1 False, Lit 2 False] exStats exUnsat = Inr (False, exUnsat) \<and>
   solve exPasses None exUnsat =
     Some (Inr (l_False, exUnsat\<lparr>nextCleanLimitInc := 10000, nextCleanLimit := 10000,
                                  assumptions := []\<rparr>))"
proof -
  have h: "\<not> ok exUnsat" by (simp add: exUnsat_def exSolver_def)
  have c: "startClean (conf exUnsat) = 10000" "nextCleanLimit exUnsat = 0" "assumptions exUnsat = []"
    by (simp_all add: exUnsat_def exSolver_def exConf_def)
  from not_ok_short_circuits [OF h, of exStats "[Lit 1 False, Lit 2 False]" exStats exPasses None]
  show ?thesis using h c by simp
qed


subsection \<open>The propagation engine keeps the store\<close>

lemma litValue_undef_iff: "litValue as l = l_Undef \<longleftrightarrow> as ! var l = l_Undef"
  by (cases "as ! var l") (auto simp: litValue_def)

lemma clauseStatus_Unit: "clauseStatus as c = Unit l \<Longrightarrow> litValue as l = l_Undef"
proof -
  assume a: "clauseStatus as c = Unit l"
  then have "filter (\<lambda>l. litValue as l = l_Undef) c = [l]"
    by (auto simp: clauseStatus_def split: if_splits list.splits)
  then have "l \<in> set (filter (\<lambda>l. litValue as l = l_Undef) c)" by simp
  then show ?thesis by simp
qed

lemma firstForced_Unit: "firstForced as cs = Unit l \<Longrightarrow> litValue as l = l_Undef"
  by (induction cs) (auto split: forced.splits dest: clauseStatus_Unit)

lemma sameStore_refl: "sameStore s s"
  by (simp add: sameStore_def)

lemma sameStore_enqueue: "sameStore s (enqueue l s)"
  by (simp add: sameStore_def enqueue_def)

lemma sameStore_trans: "sameStore a b \<Longrightarrow> sameStore b c \<Longrightarrow> sameStore a c"
  by (simp add: sameStore_def)

lemma sameCounts_refl: "sameCounts s s"
  by (simp add: sameCounts_def)

lemma sameCounts_enqueue: "sameCounts s (enqueue l s)"
  by (simp add: sameCounts_def enqueue_def)

lemma sameCounts_trans: "sameCounts a b \<Longrightarrow> sameCounts b c \<Longrightarrow> sameCounts a c"
  by (simp add: sameCounts_def)

lemma sameStore_sameCounts: "sameStore s s' \<Longrightarrow> sameCounts s s'"
  by (simp add: sameStore_def sameCounts_def)

lemma propagateSteps_counts:
  "propagateSteps n cs s = (confl, s') \<Longrightarrow> sameCounts s s'"
proof (induction n arbitrary: s)
  case 0
  then show ?case by (auto simp: sameCounts_refl split: forced.splits)
next
  case (Suc n)
  show ?case
  proof (cases "firstForced (assigns s) cs")
    case (Unit l)
    then have "propagateSteps n cs (enqueue l s) = (confl, s')" using Suc.prems by simp
    then have "sameCounts (enqueue l s) s'" by (rule Suc.IH)
    then show ?thesis using sameCounts_enqueue sameCounts_trans by blast
  qed (use Suc.prems in \<open>auto simp: sameCounts_refl\<close>)
qed

lemma enqueue_keeps:
  "litValue (assigns s) l = l_Undef \<Longrightarrow> litValue (assigns s) m \<noteq> l_Undef \<Longrightarrow>
   litValue (assigns (enqueue l s)) m = litValue (assigns s) m"
proof -
  assume "litValue (assigns s) l = l_Undef" "litValue (assigns s) m \<noteq> l_Undef"
  then have "assigns s ! var l = l_Undef" "assigns s ! var m \<noteq> l_Undef"
    by (simp_all add: litValue_undef_iff)
  then have "var l \<noteq> var m" by auto
  then show ?thesis by (simp add: litValue_def enqueue_def)
qed

lemma propagateSteps_keeps:
  "propagateSteps n cs s = (confl, s') \<Longrightarrow> litValue (assigns s) m \<noteq> l_Undef \<Longrightarrow>
   litValue (assigns s') m = litValue (assigns s) m \<and> set (trail s) \<subseteq> set (trail s')"
proof (induction n arbitrary: s)
  case 0
  then show ?case by (auto split: forced.splits)
next
  case (Suc n)
  show ?case
  proof (cases "firstForced (assigns s) cs")
    case (Unit l)
    then have r: "propagateSteps n cs (enqueue l s) = (confl, s')" using Suc.prems by simp
    have u: "litValue (assigns s) l = l_Undef" using Unit by (rule firstForced_Unit)
    have k: "litValue (assigns (enqueue l s)) m = litValue (assigns s) m"
      using enqueue_keeps u Suc.prems(2) by blast
    then have "litValue (assigns (enqueue l s)) m \<noteq> l_Undef" using Suc.prems(2) by simp
    from Suc.IH [OF r this] show ?thesis using k by (auto simp: enqueue_def)
  qed (use Suc.prems in auto)
qed

lemma propagate_counts: "propagate s = (confl, s') \<Longrightarrow> sameCounts s s'"
  by (auto simp: propagate_def split: prod.splits dest!: propagateSteps_counts simp: sameCounts_def)

lemma propagate_keeps:
  "propagate s = (confl, s') \<Longrightarrow> litValue (assigns s) m \<noteq> l_Undef \<Longrightarrow>
   litValue (assigns s') m = litValue (assigns s) m \<and> set (trail s) \<subseteq> set (trail s')"
  by (auto simp: propagate_def split: prod.splits dest!: propagateSteps_keeps)

lemma cleanLits_subset:
  "cleanLits s p acc xs = Inr (Some ps) \<Longrightarrow> set ps \<subseteq> set acc \<union> set xs"
proof (induction xs arbitrary: p acc)
  case Nil
  then show ?case by simp
next
  case (Cons y ys)
  show ?case
  proof (cases "value s y \<noteq> l_False \<and> y \<noteq> p")
    case True
    then have "cleanLits s y (acc @ [y]) ys = Inr (Some ps)"
      using Cons.prems by (simp split: if_splits)
    from Cons.IH [OF this] show ?thesis by auto
  next
    case False
    then have "cleanLits s p acc ys = Inr (Some ps)"
      using Cons.prems by (auto split: if_splits)
    from Cons.IH [OF this] show ?thesis by auto
  qed
qed

subsection \<open>The dispatch of addClauseInt\<close>

lemma toInt_bound: "var l < n \<Longrightarrow> toInt l < 2 * n"
  by (simp add: toInt_def)

lemma pushWatch_length [simp]: "length (pushWatch l w ws) = length ws"
  by (simp add: pushWatch_def)

lemma pushWatch_mem: "toInt l < length ws \<Longrightarrow> w \<in> set (pushWatch l w ws ! toInt l)"
  by (simp add: pushWatch_def)

lemma pushWatch_mono: "w \<in> set (ws ! i) \<Longrightarrow> w \<in> set (pushWatch l v ws ! i)"
  by (cases "i = toInt l"; cases "toInt l < length ws") (auto simp: pushWatch_def list_update_beyond)

lemma store0:
  "storeClause [] red st attach s = (r, s') \<Longrightarrow> r = None \<and> \<not> ok s' \<and> sameStore s s'"
  by (auto simp: storeClause_def sameStore_def)

lemma store1:
  assumes "storeClause [a] red st attach s = (r, s')" "var a < nVars s"
  shows "r = None \<and> sameStore s (enqueue a s) \<and>
         s' = (if attach
               then (snd (propagate ((enqueue a s)\<lparr>propsUnit := propsUnit s + 1\<rparr>)))
                      \<lparr>ok := \<not> fst (propagate ((enqueue a s)\<lparr>propsUnit := propsUnit s + 1\<rparr>))\<rparr>
               else (enqueue a s)\<lparr>propsUnit := propsUnit s + 1\<rparr>) \<and>
         length (clAllocator s') = length (clAllocator s) \<and>
         value s' a = l_True \<and> a \<in> set (trail s')"
proof -
  define s2 where "s2 = (enqueue a s)\<lparr>propsUnit := propsUnit s + 1\<rparr>"
  have s2': "s2 = (enqueue a s)\<lparr>propsUnit := propsUnit (enqueue a s) + 1\<rparr>"
    by (simp add: s2_def enqueue_def)
  have v: "litValue (assigns s2) a = l_True"
    using assms(2) by (cases a) (auto simp: s2_def enqueue_def litValue_def nVars_def boolToLBool_def)
  have t: "a \<in> set (trail s2)" by (simp add: s2_def enqueue_def)
  have st: "sameStore s (enqueue a s)" by (simp add: enqueue_def sameStore_def)
  have ar: "clAllocator s2 = clAllocator s" by (simp add: s2_def enqueue_def)
  show ?thesis
  proof (cases attach)
    case False
    then have e: "r = None" "s' = s2" using assms(1) by (auto simp: storeClause_def Let_def s2')
    have eq: "s' = (if attach then (snd (propagate s2))\<lparr>ok := \<not> fst (propagate s2)\<rparr> else s2)"
      using e False by simp
    have len: "length (clAllocator s') = length (clAllocator s)" using e ar by simp
    have v': "value s' a = l_True" using e v by (simp add: value_def)
    have t': "a \<in> set (trail s')" using e t by simp
    from e(1) st eq len v' t' show ?thesis unfolding s2_def by blast
  next
    case True
    obtain confl s3 where p: "propagate s2 = (confl, s3)" by (cases "propagate s2")
    then have e: "r = None" "s' = s3\<lparr>ok := \<not> confl\<rparr>"
      using assms(1) True by (auto simp: storeClause_def Let_def s2')
    have "sameCounts s2 s3" using p by (rule propagate_counts)
    then have len: "length (clAllocator s') = length (clAllocator s)"
      using ar e by (simp add: sameCounts_def)
    have k: "litValue (assigns s3) a = l_True \<and> set (trail s2) \<subseteq> set (trail s3)"
      using propagate_keeps [OF p, of a] v by simp
    have eq: "s' = (if attach then (snd (propagate s2))\<lparr>ok := \<not> fst (propagate s2)\<rparr> else s2)"
      using e p True by simp
    have v': "value s' a = l_True" using e k by (simp add: value_def)
    have t': "a \<in> set (trail s')" using e k t by auto
    from e(1) st eq len v' t' show ?thesis unfolding s2_def by blast
  qed
qed

lemma store2:
  assumes "storeClause [a, b] red st attach s = (r, s')"
    "toInt a < length (watches s)" "toInt b < length (watches s)"
  shows "r = None \<and> clAllocator s' = clAllocator s \<and> longIrredCls s' = longIrredCls s \<and>
         longRedCls s' = longRedCls s \<and>
         watches s' = pushWatch b (WBin a red) (pushWatch a (WBin b red) (watches s)) \<and>
         WBin b red \<in> set (watches s' ! toInt a) \<and> WBin a red \<in> set (watches s' ! toInt b)"
proof -
  have e: "r = None" "s' = attachBinClause a b red s"
    using assms(1) by (auto simp: storeClause_def)
  have w: "watches s' = pushWatch b (WBin a red) (pushWatch a (WBin b red) (watches s))"
    by (simp add: e attachBinClause_def PropEngine_attachBinClause_def Let_def)
  have "WBin b red \<in> set (watches s' ! toInt a)"
    unfolding w using assms(2) by (intro pushWatch_mono pushWatch_mem)
  moreover have "WBin a red \<in> set (watches s' ! toInt b)"
    unfolding w using assms(3) by (intro pushWatch_mem) simp
  ultimately show ?thesis using w e
    by (simp add: attachBinClause_def PropEngine_attachBinClause_def Let_def)
qed

lemma sort3: "toInt a < toInt b \<Longrightarrow> toInt b < toInt c \<Longrightarrow> sort_key toInt [a, b, c] = [a, b, c]"
  by simp

lemma store3:
  assumes "storeClause [a, b, c] red st attach s = (r, s')"
    "toInt a < length (watches s)" "toInt b < length (watches s)" "toInt c < length (watches s)"
    "toInt a < toInt b" "toInt b < toInt c"
  shows "r = None \<and> clAllocator s' = clAllocator s \<and> longIrredCls s' = longIrredCls s \<and>
         longRedCls s' = longRedCls s \<and>
         watches s' = pushWatch c (WTri a b red) (pushWatch b (WTri a c red)
                        (pushWatch a (WTri b c red) (watches s))) \<and>
         WTri b c red \<in> set (watches s' ! toInt a) \<and> WTri a c red \<in> set (watches s' ! toInt b) \<and>
         WTri a b red \<in> set (watches s' ! toInt c)"
proof -
  have e: "r = None" "s' = attachTriClause a b c red s"
    using assms(1) by (auto simp: storeClause_def)
  have srt: "sort_key toInt [a, b, c] = [a, b, c]" using assms(5,6) by (rule sort3)
  have w: "watches s' = pushWatch c (WTri a b red) (pushWatch b (WTri a c red)
                        (pushWatch a (WTri b c red) (watches s)))"
    unfolding e attachTriClause_def PropEngine_attachTriClause_def srt by (simp add: Let_def)
  have "WTri b c red \<in> set (watches s' ! toInt a)"
    unfolding w using assms(2) by (intro pushWatch_mono pushWatch_mem)
  moreover have "WTri a c red \<in> set (watches s' ! toInt b)"
    unfolding w using assms(3) by (intro pushWatch_mono pushWatch_mem) simp
  moreover have "WTri a b red \<in> set (watches s' ! toInt c)"
    unfolding w using assms(4) by (intro pushWatch_mem) simp
  moreover have "clAllocator s' = clAllocator s \<and> longIrredCls s' = longIrredCls s \<and>
         longRedCls s' = longRedCls s"
    unfolding e attachTriClause_def PropEngine_attachTriClause_def srt by (simp add: Let_def)
  ultimately show ?thesis using w e by simp
qed

lemma store4:
  assumes "storeClause (a # b # c # d # ds) red st attach s = (r, s')"
    "toInt a < length (watches s)" "toInt b < length (watches s)"
  shows "r = Some (length (clAllocator s)) \<and>
         (\<exists>cl. clAllocator s' = clAllocator s @ [cl] \<and> lits cl = a # b # c # d # ds \<and>
               learnt cl = red \<and> \<not> freed cl) \<and>
         longIrredCls s' = longIrredCls s \<and> longRedCls s' = longRedCls s \<and>
         (attach \<longrightarrow> WClause (length (clAllocator s)) c \<in> set (watches s' ! toInt a) \<and>
                     WClause (length (clAllocator s)) c \<in> set (watches s' ! toInt b)) \<and>
         (\<not> attach \<longrightarrow> watches s' = watches s)"
proof (cases attach)
  case False
  then show ?thesis using assms(1)
    by (auto simp: storeClause_def Let_def Clause_new_def split: if_splits)
next
  case True
  let ?off = "length (clAllocator s)"
  let ?w = "pushWatch b (WClause ?off c) (pushWatch a (WClause ?off c) (watches s))"
  have 1: "WClause ?off c \<in> set (?w ! toInt a)"
    using assms(2) by (intro pushWatch_mono pushWatch_mem)
  have 2: "WClause ?off c \<in> set (?w ! toInt b)"
    using assms(3) by (intro pushWatch_mem) simp
  show ?thesis using assms(1) True 1 2
    by (auto simp: storeClause_def Let_def Clause_new_def attachClause_def
        PropEngine_attachClause_def split: if_splits)
qed

lemmas ev = addClauseInt_def exSolver_def decisionLevel_def toInt_def value_def litValue_def getBool_def neg_def lit_Undef_def var_Undef_def elimedOk_def storeClause_def attachBinClause_def PropEngine_attachBinClause_def pushWatch_def attachTriClause_def PropEngine_attachTriClause_def attachClause_def PropEngine_attachClause_def Clause_new_def enqueue_def propagate_def attachedClauses_def nVars_def boolToLBool_def Let_def exStats_def


lemma len2: "length ps = 2 \<Longrightarrow> \<exists>a b. ps = [a, b]"
  by (cases ps; cases "tl ps") auto

lemma len3: "length ps = 3 \<Longrightarrow> \<exists>a b c. ps = [a, b, c]"
  by (cases ps; cases "tl ps"; cases "tl (tl ps)") auto

lemma len4: "4 \<le> length ps \<Longrightarrow> \<exists>a b c d ds. ps = a # b # c # d # ds"
  by (cases ps; cases "tl ps"; cases "tl (tl ps)"; cases "tl (tl (tl ps))") auto

text \<open>
  C6: the dispatch of \<open>addClauseInt\<close> on the number of literals \<open>ps\<close> left after
  cleaning. With no literal left, \<open>ok\<close> becomes false. A single literal is enqueued and
  counted in \<open>propsUnit\<close>, on the store as it was at entry; when attaching is requested
  the result is what the propagation makes of that state, with \<open>ok\<close> set from its answer,
  and otherwise it is that state itself. Either way the literal is true afterwards and on
  the trail, no clause is added to the arena and the result is NULL. What the propagation
  does to the watch index is the engine's affair and is not stated. Two literals are
  stored as a pair of binary watchers and three as a triple of ternary watchers, in the
  watch index only. Four or more are allocated in the arena at a new offset, which is
  returned, and the clause is watched by that offset at its first two literals when
  attaching is requested. For two and three literals the arena is unchanged and the
  result is NULL.
\<close>

theorem addClauseInt_dispatch:
  assumes run: "addClauseInt ls red st attach s = Inr (r, Some ps, s')"
    and wf: "length (watches s) = 2 * nVars s" "nVars s \<le> var_Undef"
            "\<forall>l\<in>set ls. var l < nVars s"
  shows "(length ps = 0 \<longrightarrow> r = None \<and> \<not> ok s' \<and> sameStore s s') \<and>
         (length ps = 1 \<longrightarrow>
            r = None \<and> sameStore s (enqueue (ps ! 0) s) \<and>
            s' = (if attach
                  then (snd (propagate ((enqueue (ps ! 0) s)\<lparr>propsUnit := propsUnit s + 1\<rparr>)))
                         \<lparr>ok := \<not> fst (propagate ((enqueue (ps ! 0) s)
                                                    \<lparr>propsUnit := propsUnit s + 1\<rparr>))\<rparr>
                  else (enqueue (ps ! 0) s)\<lparr>propsUnit := propsUnit s + 1\<rparr>) \<and>
            length (clAllocator s') = length (clAllocator s) \<and>
            value s' (ps ! 0) = l_True \<and> ps ! 0 \<in> set (trail s')) \<and>
         (length ps = 2 \<longrightarrow>
            r = None \<and> clAllocator s' = clAllocator s \<and> longIrredCls s' = longIrredCls s \<and>
            longRedCls s' = longRedCls s \<and>
            watches s' = pushWatch (ps ! 1) (WBin (ps ! 0) red)
                           (pushWatch (ps ! 0) (WBin (ps ! 1) red) (watches s)) \<and>
            WBin (ps ! 1) red \<in> set (watches s' ! toInt (ps ! 0)) \<and>
            WBin (ps ! 0) red \<in> set (watches s' ! toInt (ps ! 1))) \<and>
         (length ps = 3 \<longrightarrow>
            r = None \<and> clAllocator s' = clAllocator s \<and> longIrredCls s' = longIrredCls s \<and>
            longRedCls s' = longRedCls s \<and>
            watches s' = pushWatch (ps ! 2) (WTri (ps ! 0) (ps ! 1) red)
                           (pushWatch (ps ! 1) (WTri (ps ! 0) (ps ! 2) red)
                             (pushWatch (ps ! 0) (WTri (ps ! 1) (ps ! 2) red) (watches s))) \<and>
            WTri (ps ! 1) (ps ! 2) red \<in> set (watches s' ! toInt (ps ! 0)) \<and>
            WTri (ps ! 0) (ps ! 2) red \<in> set (watches s' ! toInt (ps ! 1)) \<and>
            WTri (ps ! 0) (ps ! 1) red \<in> set (watches s' ! toInt (ps ! 2))) \<and>
         (4 \<le> length ps \<longrightarrow>
            r = Some (length (clAllocator s)) \<and>
            (\<exists>cl. clAllocator s' = clAllocator s @ [cl] \<and> lits cl = ps \<and> learnt cl = red \<and>
                  \<not> freed cl) \<and>
            longIrredCls s' = longIrredCls s \<and> longRedCls s' = longRedCls s \<and>
            (attach \<longrightarrow>
               WClause (length (clAllocator s)) (ps ! 2) \<in> set (watches s' ! toInt (ps ! 0)) \<and>
               WClause (length (clAllocator s)) (ps ! 2) \<in> set (watches s' ! toInt (ps ! 1))) \<and>
            (\<not> attach \<longrightarrow> watches s' = watches s))"
proof -
  let ?xs = "sort_key toInt ls"
  from run have cl: "cleanLits s lit_Undef [] ?xs = Inr (Some ps)"
    and st: "storeClause ps red st attach s = (r, s')"
    by (auto simp: addClauseInt_def split: if_splits sum.splits option.splits prod.splits)
  have sub: "set ps \<subseteq> set ls" using cleanLits_subset [OF cl] by simp
  have u: "\<forall>l\<in>set ls. l \<noteq> lit_Undef" using wf(2,3) by (auto simp: lit_Undef_def)
  have "cl_inv lit_Undef [] ?xs" using u by (auto simp: cl_inv_def)
  from cleanLits_Some [OF cl _ this] have srt: "sorted_wrt (<) (map toInt ps)" by simp
  have rng: "\<forall>l\<in>set ps. var l < nVars s \<and> toInt l < length (watches s)"
    using sub wf(1,3) toInt_bound by fastforce
  have c0: "length ps = 0 \<longrightarrow> r = None \<and> \<not> ok s' \<and> sameStore s s'"
    using st store0 by auto
  have c1: "length ps = 1 \<longrightarrow>
            r = None \<and> sameStore s (enqueue (ps ! 0) s) \<and>
            s' = (if attach
                  then (snd (propagate ((enqueue (ps ! 0) s)\<lparr>propsUnit := propsUnit s + 1\<rparr>)))
                         \<lparr>ok := \<not> fst (propagate ((enqueue (ps ! 0) s)
                                                    \<lparr>propsUnit := propsUnit s + 1\<rparr>))\<rparr>
                  else (enqueue (ps ! 0) s)\<lparr>propsUnit := propsUnit s + 1\<rparr>) \<and>
            length (clAllocator s') = length (clAllocator s) \<and>
            value s' (ps ! 0) = l_True \<and> ps ! 0 \<in> set (trail s')"
  proof
    assume "length ps = 1"
    then obtain a where a: "ps = [a]" by (cases ps) auto
    then have "var a < nVars s" using rng by simp
    from store1 [OF st [unfolded a] this] show
      "r = None \<and> sameStore s (enqueue (ps ! 0) s) \<and>
            s' = (if attach
                  then (snd (propagate ((enqueue (ps ! 0) s)\<lparr>propsUnit := propsUnit s + 1\<rparr>)))
                         \<lparr>ok := \<not> fst (propagate ((enqueue (ps ! 0) s)
                                                    \<lparr>propsUnit := propsUnit s + 1\<rparr>))\<rparr>
                  else (enqueue (ps ! 0) s)\<lparr>propsUnit := propsUnit s + 1\<rparr>) \<and>
            length (clAllocator s') = length (clAllocator s) \<and>
            value s' (ps ! 0) = l_True \<and> ps ! 0 \<in> set (trail s')"
      unfolding a nth_Cons_0 by blast
  qed
  have c2: "length ps = 2 \<longrightarrow>
            r = None \<and> clAllocator s' = clAllocator s \<and> longIrredCls s' = longIrredCls s \<and>
            longRedCls s' = longRedCls s \<and>
            watches s' = pushWatch (ps ! 1) (WBin (ps ! 0) red)
                           (pushWatch (ps ! 0) (WBin (ps ! 1) red) (watches s)) \<and>
            WBin (ps ! 1) red \<in> set (watches s' ! toInt (ps ! 0)) \<and>
            WBin (ps ! 0) red \<in> set (watches s' ! toInt (ps ! 1))"
  proof
    assume "length ps = 2"
    then obtain a b where a: "ps = [a, b]" using len2 by blast
    then have "toInt a < length (watches s)" "toInt b < length (watches s)" using rng by simp_all
    from store2 [OF st [unfolded a] this] show
      "r = None \<and> clAllocator s' = clAllocator s \<and> longIrredCls s' = longIrredCls s \<and>
            longRedCls s' = longRedCls s \<and>
            watches s' = pushWatch (ps ! 1) (WBin (ps ! 0) red)
                           (pushWatch (ps ! 0) (WBin (ps ! 1) red) (watches s)) \<and>
            WBin (ps ! 1) red \<in> set (watches s' ! toInt (ps ! 0)) \<and>
            WBin (ps ! 0) red \<in> set (watches s' ! toInt (ps ! 1))"
      by (auto simp: a)
  qed
  have c3: "length ps = 3 \<longrightarrow>
            r = None \<and> clAllocator s' = clAllocator s \<and> longIrredCls s' = longIrredCls s \<and>
            longRedCls s' = longRedCls s \<and>
            watches s' = pushWatch (ps ! 2) (WTri (ps ! 0) (ps ! 1) red)
                           (pushWatch (ps ! 1) (WTri (ps ! 0) (ps ! 2) red)
                             (pushWatch (ps ! 0) (WTri (ps ! 1) (ps ! 2) red) (watches s))) \<and>
            WTri (ps ! 1) (ps ! 2) red \<in> set (watches s' ! toInt (ps ! 0)) \<and>
            WTri (ps ! 0) (ps ! 2) red \<in> set (watches s' ! toInt (ps ! 1)) \<and>
            WTri (ps ! 0) (ps ! 1) red \<in> set (watches s' ! toInt (ps ! 2))"
  proof
    assume "length ps = 3"
    then obtain a b c where a: "ps = [a, b, c]" using len3 by blast
    then have r: "toInt a < length (watches s)" "toInt b < length (watches s)"
      "toInt c < length (watches s)" using rng by simp_all
    have o: "toInt a < toInt b" "toInt b < toInt c" using srt a by simp_all
    from store3 [OF st [unfolded a] r o] show
      "r = None \<and> clAllocator s' = clAllocator s \<and> longIrredCls s' = longIrredCls s \<and>
            longRedCls s' = longRedCls s \<and>
            watches s' = pushWatch (ps ! 2) (WTri (ps ! 0) (ps ! 1) red)
                           (pushWatch (ps ! 1) (WTri (ps ! 0) (ps ! 2) red)
                             (pushWatch (ps ! 0) (WTri (ps ! 1) (ps ! 2) red) (watches s))) \<and>
            WTri (ps ! 1) (ps ! 2) red \<in> set (watches s' ! toInt (ps ! 0)) \<and>
            WTri (ps ! 0) (ps ! 2) red \<in> set (watches s' ! toInt (ps ! 1)) \<and>
            WTri (ps ! 0) (ps ! 1) red \<in> set (watches s' ! toInt (ps ! 2))"
      by (auto simp: a)
  qed
  have c4: "4 \<le> length ps \<longrightarrow>
            r = Some (length (clAllocator s)) \<and>
            (\<exists>cl. clAllocator s' = clAllocator s @ [cl] \<and> lits cl = ps \<and> learnt cl = red \<and>
                  \<not> freed cl) \<and>
            longIrredCls s' = longIrredCls s \<and> longRedCls s' = longRedCls s \<and>
            (attach \<longrightarrow>
               WClause (length (clAllocator s)) (ps ! 2) \<in> set (watches s' ! toInt (ps ! 0)) \<and>
               WClause (length (clAllocator s)) (ps ! 2) \<in> set (watches s' ! toInt (ps ! 1))) \<and>
            (\<not> attach \<longrightarrow> watches s' = watches s)"
  proof
    assume "4 \<le> length ps"
    then obtain a b c d ds where a: "ps = a # b # c # d # ds" using len4 by blast
    then have r: "toInt a < length (watches s)" "toInt b < length (watches s)"
      using rng by simp_all
    from store4 [OF st [unfolded a] r] show
      "r = Some (length (clAllocator s)) \<and>
            (\<exists>cl. clAllocator s' = clAllocator s @ [cl] \<and> lits cl = ps \<and> learnt cl = red \<and>
                  \<not> freed cl) \<and>
            longIrredCls s' = longIrredCls s \<and> longRedCls s' = longRedCls s \<and>
            (attach \<longrightarrow>
               WClause (length (clAllocator s)) (ps ! 2) \<in> set (watches s' ! toInt (ps ! 0)) \<and>
               WClause (length (clAllocator s)) (ps ! 2) \<in> set (watches s' ! toInt (ps ! 1))) \<and>
            (\<not> attach \<longrightarrow> watches s' = watches s)"
      by (auto simp: a)
  qed
  show ?thesis using c0 c1 c2 c3 c4 by blast
qed

theorem addClauseInt_dispatch_witness:
  "length (watches exSolver) = 2 * nVars exSolver \<and> nVars exSolver \<le> var_Undef \<and>
   (\<exists>r ps s'. addClauseInt [Lit 0 True] False exStats True exSolver = Inr (r, Some ps, s') \<and>
       length ps = 0 \<and> r = None \<and> \<not> ok s' \<and> sameStore exSolver s') \<and>
   (\<exists>r ps s'. addClauseInt [Lit 1 False] False exStats True exSolver = Inr (r, Some ps, s') \<and>
       length ps = 1 \<and> r = None \<and> sameStore exSolver (enqueue (ps ! 0) exSolver) \<and>
       length (clAllocator s') = length (clAllocator exSolver) \<and> value s' (ps ! 0) = l_True \<and>
       ps ! 0 \<in> set (trail s')) \<and>
   (\<exists>r ps s'. addClauseInt [Lit 2 False, Lit 1 True] False exStats True exSolver =
                 Inr (r, Some ps, s') \<and>
       length ps = 2 \<and> r = None \<and> clAllocator s' = clAllocator exSolver \<and>
       WBin (ps ! 1) False \<in> set (watches s' ! toInt (ps ! 0)) \<and>
       WBin (ps ! 0) False \<in> set (watches s' ! toInt (ps ! 1))) \<and>
   (\<exists>r ps s'. addClauseInt [Lit 3 False, Lit 2 False, Lit 1 True] False exStats True exSolver =
                 Inr (r, Some ps, s') \<and>
       length ps = 3 \<and> r = None \<and> clAllocator s' = clAllocator exSolver \<and>
       WTri (ps ! 1) (ps ! 2) False \<in> set (watches s' ! toInt (ps ! 0)) \<and>
       WTri (ps ! 0) (ps ! 2) False \<in> set (watches s' ! toInt (ps ! 1)) \<and>
       WTri (ps ! 0) (ps ! 1) False \<in> set (watches s' ! toInt (ps ! 2))) \<and>
   (\<exists>r ps s'. addClauseInt [Lit 4 True, Lit 3 False, Lit 2 False, Lit 1 True] False exStats True
                 exSolver = Inr (r, Some ps, s') \<and>
       4 \<le> length ps \<and> r = Some (length (clAllocator exSolver)) \<and>
       (\<exists>cl. clAllocator s' = clAllocator exSolver @ [cl] \<and> lits cl = ps \<and> learnt cl = False) \<and>
       WClause (length (clAllocator exSolver)) (ps ! 2) \<in> set (watches s' ! toInt (ps ! 0)) \<and>
       WClause (length (clAllocator exSolver)) (ps ! 2) \<in> set (watches s' ! toInt (ps ! 1)))"
proof -
  have w1: "length (watches exSolver) = 2 * nVars exSolver"
    and w2: "nVars exSolver \<le> var_Undef"
    by (simp_all add: exSolver_def nVars_def var_Undef_def)
  have v0: "\<forall>l\<in>set [Lit 0 True]. var l < nVars exSolver"
    and v1: "\<forall>l\<in>set [Lit 1 False]. var l < nVars exSolver"
    and v2: "\<forall>l\<in>set [Lit 2 False, Lit 1 True]. var l < nVars exSolver"
    and v3: "\<forall>l\<in>set [Lit 3 False, Lit 2 False, Lit 1 True]. var l < nVars exSolver"
    and v4: "\<forall>l\<in>set [Lit 4 True, Lit 3 False, Lit 2 False, Lit 1 True]. var l < nVars exSolver"
    by (simp_all add: exSolver_def nVars_def)
  have "\<exists>r ps s'. addClauseInt [Lit 0 True] False exStats True exSolver = Inr (r, Some ps, s') \<and>
          length ps = 0"
    by (simp add: ev)
  then obtain r0 ps0 s0 where
    e0: "addClauseInt [Lit 0 True] False exStats True exSolver = Inr (r0, Some ps0, s0)"
    and n0: "length ps0 = 0" by blast
  have "\<exists>r ps s'. addClauseInt [Lit 1 False] False exStats True exSolver = Inr (r, Some ps, s') \<and>
          length ps = 1"
    by (simp add: ev split_beta)
  then obtain r1 ps1 s1 where
    e1: "addClauseInt [Lit 1 False] False exStats True exSolver = Inr (r1, Some ps1, s1)"
    and n1: "length ps1 = 1" by blast
  have "\<exists>r ps s'. addClauseInt [Lit 2 False, Lit 1 True] False exStats True exSolver =
          Inr (r, Some ps, s') \<and> length ps = 2"
    by (simp add: ev)
  then obtain r2 ps2 s2 where
    e2: "addClauseInt [Lit 2 False, Lit 1 True] False exStats True exSolver = Inr (r2, Some ps2, s2)"
    and n2: "length ps2 = 2" by blast
  have "\<exists>r ps s'. addClauseInt [Lit 3 False, Lit 2 False, Lit 1 True] False exStats True exSolver =
          Inr (r, Some ps, s') \<and> length ps = 3"
    by (simp add: ev)
  then obtain r3 ps3 s3 where
    e3: "addClauseInt [Lit 3 False, Lit 2 False, Lit 1 True] False exStats True exSolver =
           Inr (r3, Some ps3, s3)"
    and n3: "length ps3 = 3" by blast
  have "\<exists>r ps s'. addClauseInt [Lit 4 True, Lit 3 False, Lit 2 False, Lit 1 True] False exStats True
          exSolver = Inr (r, Some ps, s') \<and> 4 \<le> length ps"
    by (simp add: ev)
  then obtain r4 ps4 s4 where
    e4: "addClauseInt [Lit 4 True, Lit 3 False, Lit 2 False, Lit 1 True] False exStats True
           exSolver = Inr (r4, Some ps4, s4)"
    and n4: "4 \<le> length ps4" by blast
  note t0 = addClauseInt_dispatch [OF e0 w1 w2 v0]
  note t1 = addClauseInt_dispatch [OF e1 w1 w2 v1]
  note t2 = addClauseInt_dispatch [OF e2 w1 w2 v2]
  note t3 = addClauseInt_dispatch [OF e3 w1 w2 v3]
  note t4 = addClauseInt_dispatch [OF e4 w1 w2 v4]
  have b0: "\<exists>r ps s'. addClauseInt [Lit 0 True] False exStats True exSolver = Inr (r, Some ps, s') \<and>
       length ps = 0 \<and> r = None \<and> \<not> ok s' \<and> sameStore exSolver s'"
    using e0 n0 t0 by blast
  have b1: "\<exists>r ps s'. addClauseInt [Lit 1 False] False exStats True exSolver = Inr (r, Some ps, s') \<and>
       length ps = 1 \<and> r = None \<and> sameStore exSolver (enqueue (ps ! 0) exSolver) \<and>
       length (clAllocator s') = length (clAllocator exSolver) \<and> value s' (ps ! 0) = l_True \<and>
       ps ! 0 \<in> set (trail s')"
    using e1 n1 t1 by blast
  have b2: "\<exists>r ps s'. addClauseInt [Lit 2 False, Lit 1 True] False exStats True exSolver =
                 Inr (r, Some ps, s') \<and>
       length ps = 2 \<and> r = None \<and> clAllocator s' = clAllocator exSolver \<and>
       WBin (ps ! 1) False \<in> set (watches s' ! toInt (ps ! 0)) \<and>
       WBin (ps ! 0) False \<in> set (watches s' ! toInt (ps ! 1))"
    using e2 n2 t2 by blast
  have b3: "\<exists>r ps s'. addClauseInt [Lit 3 False, Lit 2 False, Lit 1 True] False exStats True exSolver =
                 Inr (r, Some ps, s') \<and>
       length ps = 3 \<and> r = None \<and> clAllocator s' = clAllocator exSolver \<and>
       WTri (ps ! 1) (ps ! 2) False \<in> set (watches s' ! toInt (ps ! 0)) \<and>
       WTri (ps ! 0) (ps ! 2) False \<in> set (watches s' ! toInt (ps ! 1)) \<and>
       WTri (ps ! 0) (ps ! 1) False \<in> set (watches s' ! toInt (ps ! 2))"
    using e3 n3 t3 by blast
  have b4: "\<exists>r ps s'. addClauseInt [Lit 4 True, Lit 3 False, Lit 2 False, Lit 1 True] False exStats True
                 exSolver = Inr (r, Some ps, s') \<and>
       4 \<le> length ps \<and> r = Some (length (clAllocator exSolver)) \<and>
       (\<exists>cl. clAllocator s' = clAllocator exSolver @ [cl] \<and> lits cl = ps \<and> learnt cl = False) \<and>
       WClause (length (clAllocator exSolver)) (ps ! 2) \<in> set (watches s' ! toInt (ps ! 0)) \<and>
       WClause (length (clAllocator exSolver)) (ps ! 2) \<in> set (watches s' ! toInt (ps ! 1))"
    using e4 n4 t4 by blast
  show ?thesis using w1 w2 b0 b1 b2 b3 b4 by blast
qed

subsection \<open>The counters of literals\<close>

text \<open>What the callers of \<open>addClauseInt\<close> do with the clause it returns.\<close>

lemma sumSizes_longSum: "sumSizes ar offs n = n + longSum ar offs"
proof (induction offs arbitrary: n)
  case Nil
  then show ?case by (simp add: longSum_def)
next
  case (Cons x xs)
  let ?k = "of_nat (length (lits (ar ! x))) :: 64 word"
  show ?case
  proof (cases "freed (ar ! x)")
    case True
    then show ?thesis using Cons [of n] by (simp add: longSum_def)
  next
    case False
    have "sumSizes ar (x # xs) n = sumSizes ar xs (n + ?k)" using False by simp
    also have "\<dots> = (n + ?k) + longSum ar xs" by (rule Cons)
    also have "\<dots> = n + (?k + longSum ar xs)" by (simp add: add.assoc)
    also have "?k + longSum ar xs = sumSizes ar xs ?k" by (rule Cons [symmetric])
    also have "sumSizes ar xs ?k = longSum ar (x # xs)" using False by (simp add: longSum_def)
    finally show ?thesis .
  qed
qed

lemma longSum_Nil [simp]: "longSum ar [] = 0"
  by (simp add: longSum_def)

lemma longSum_Cons:
  "longSum ar (x # xs) =
     (if freed (ar ! x) then longSum ar xs else of_nat (length (lits (ar ! x))) + longSum ar xs)"
  using sumSizes_longSum [of ar xs "of_nat (length (lits (ar ! x)))"]
  by (simp add: longSum_def)



lemma longSum_remove1:
  "off \<in> set offs \<Longrightarrow> \<not> freed (ar ! off) \<Longrightarrow>
   longSum ar (remove1 off offs) = longSum ar offs - of_nat (length (lits (ar ! off)))"
  by (induction offs) (auto simp: longSum_Cons)

lemma countersMatch_alt:
  "countersMatch s \<longleftrightarrow>
     irredLits s = irredBins s * 2 + irredTris s * 3 + longSum (clAllocator s) (longIrredCls s) \<and>
     redLits s = redBins s * 2 + redTris s * 3 + longSum (clAllocator s) (longRedCls s)"
  by (auto simp: countersMatch_def numLitsNonLearnt_def numLitsLearnt_def sumSizes_longSum)











lemma detachBin_lists: "listsOk s \<Longrightarrow> listsOk (detachBinClause a b red s)"
  by (simp add: listsOk_def detachBinClause_def PropEngine_detachBinClause_def Let_def)

lemma detachTri_lists: "listsOk s \<Longrightarrow> listsOk (detachTriClause a b c red s)"
  by (simp add: listsOk_def detachTriClause_def PropEngine_detachTriClause_def Let_def)

lemma pushLong_None [simp]: "pushLong red None s = s"
  by (simp add: pushLong_def)






lemma checkStats_counters: "checkStats allowFreed s = Inr () \<Longrightarrow> countersMatch s"
  by (auto simp: checkStats_def countersMatch_def split: if_splits)

lemma countersMatch_initial:
  "irredLits s = 0 \<Longrightarrow> redLits s = 0 \<Longrightarrow> irredBins s = 0 \<Longrightarrow> redBins s = 0 \<Longrightarrow>
   irredTris s = 0 \<Longrightarrow> redTris s = 0 \<Longrightarrow> longIrredCls s = [] \<Longrightarrow> longRedCls s = [] \<Longrightarrow>
   countersMatch s \<and> listsOk s"
  by (simp add: countersMatch_alt listsOk_def)




lemma detachClause_counters:
  assumes "detachClause off s = Inr s'" "countersMatch s" "listsOk s"
    "\<not> freed (clAllocator s ! off)"
  shows "(off \<in> set (longIrredCls s) \<longrightarrow>
            countersMatch (s'\<lparr>longIrredCls := remove1 off (longIrredCls s')\<rparr>)) \<and>
         (off \<in> set (longRedCls s) \<longrightarrow>
            countersMatch (s'\<lparr>longRedCls := remove1 off (longRedCls s')\<rparr>))"
proof -
  let ?c = "lits (clAllocator s ! off)"
  have e: "s' = detachModifiedClause (?c ! 0) (?c ! 1) (length ?c) off s"
    using assms(1) by (auto simp: detachClause_def Let_def split: if_splits)
  show ?thesis
  proof (intro conjI impI)
    assume m: "off \<in> set (longIrredCls s)"
    then have "\<not> learnt (clAllocator s ! off)" using assms(3) by (auto simp: listsOk_def)
    then show "countersMatch (s'\<lparr>longIrredCls := remove1 off (longIrredCls s')\<rparr>)"
      using assms(2,4) m
      by (simp add: e countersMatch_alt detachModifiedClause_def
          PropEngine_detachModifiedClause_def Let_def longSum_remove1)
  next
    assume m: "off \<in> set (longRedCls s)"
    then have "learnt (clAllocator s ! off)" using assms(3) by (auto simp: listsOk_def)
    then show "countersMatch (s'\<lparr>longRedCls := remove1 off (longRedCls s')\<rparr>)"
      using assms(2,4) m
      by (simp add: e countersMatch_alt detachModifiedClause_def
          PropEngine_detachModifiedClause_def Let_def longSum_remove1)
  qed
qed






subsection \<open>The dump of the irredundant clauses\<close>

lemma xorLinesLearnts_terminated: "\<forall>l\<in>set (xorLinesLearnts s v). terminated l"
  by (simp add: xorLinesLearnts_def terminated_def Let_def)

text \<open>
  C9: every clause line of \<open>dumpIrredClauses\<close> should end with the end-of-clause
  marker. On a solver whose replacement table knows variable 2 to be equivalent to
  variable 1, the dump is the list below: the two lines written for the equivalence,
  \<open>-2 3\<close> and \<open>2 -3\<close>, are clause lines and do not end with the marker, while the
  unit line \<open>1 0\<close> does. The sibling \<open>dumpLearnts\<close> writes the same two clauses as
  \<open>-2 3 0\<close> and \<open>2 -3 0\<close>.
\<close>

theorem dumpIrredClauses_equivalence_lines:
  "dumpIrredClauses exEquiv =
     Inr [''p cnf 5 3'', ''c '', ''c ---------'', ''c unitaries'', ''c ---------'', ''1 0'',
          ''c '', ''c ---------------------------------------'',
          ''c clauses representing 2-long XOR clauses'',
          ''c ---------------------------------------'', ''-2 3'', ''2 -3'',
          ''c '', ''c ---------------'', ''c binary clauses'', ''c ---------------'',
          ''c '', ''c ---------------'', ''c normal clauses'', ''c ---------------'',
          ''c '', ''c -------------------------------'', ''c previously eliminated variables'',
          ''c -------------------------------''] \<and>
   isClauseLine ''-2 3'' \<and> \<not> terminated ''-2 3'' \<and>
   isClauseLine ''2 -3'' \<and> \<not> terminated ''2 -3'' \<and>
   xorLinesLearnts exEquiv 2 = [''-2 3 0'', ''2 -3 0'']"
  by (simp add: dumpIrredClauses_def exEquiv_def exSolver_def unitaries_def replaced_def
      countNumBinClauses_def countWatched_def nVars_def banner_def xorLines_def neg_def
      showLit_def dumpBinClauses_def upt_rec isClauseLine_def terminated_def
      xorLinesLearnts_def)

section \<open>The failed-variable searcher on the examples\<close>

lemma orderLitsLoop_numeral:
  "orderLitsLoop env p (numeral k) f = orderLitsLoop env p (Suc (pred_numeral k)) f"
  by (simp only: numeral_eq_Suc)

lemmas prim_ev = uncheckedEnqueue_def newDecisionLevel_def cancelUntil_def solver_decisionLevel_def
  solver_nVars_def solver_value_def litValue_def toInt_def toLit_def neg_def boolToLBool_def
  unassign_def Let_def upt_rec filterHeap_def solver_nClauses_def getNewToReplaceVars_def
  getBool_def stdPropagateBinOneLevel_def stdPropagateBin_def stdPropagate_def
  attachedClauses2_def clauseStatus_def stdReplace_def stdRemoveClause_def impliedEntries_def
  levelEntries_def resizeTo_def setZero_def randInt_def exEnv_def newSearcher_def

lemmas useless_ev = removeUselessBinaries_def fillBinImpliesMinusLast_def markWrong_def
  removeBin_def findWatchedClause_def clearOneHop_def oneHop_def binImplied_def

lemmas search_ev = search_def saveState_def updateMultiplier_def goingGood_def scaledProps_def
  searchInit_def orderLits_def orderLitsLoop_numeral searchEnd_def restoreState_def
  tryBoth_def tryBothHead_def probeLit_def failedLit_def afterFirst_def secondHalf_def
  recordFirst_def recordSecond_def xorsAfterFirst_def xorsAfterSecond_def hyperBin_def
  tryBothTail_def bothSameLits_def enqueueAll_def

text \<open>
  C3. \<open>removeUselessBinaries\<close> is to remove the binary clause \<open>\<not>L \<or> N\<close> only when \<open>N\<close>
  is one hop from \<open>L\<close> and is also implied through binary clauses by another literal one
  hop from \<open>L\<close>. On the clauses \<open>\<not>L \<or> B\<close>, \<open>\<not>L \<or> A\<close>, \<open>\<not>A \<or> B\<close> the literals one hop
  from \<open>L\<close> are \<open>B\<close> and \<open>A\<close>; \<open>B\<close> is implied by \<open>A\<close>, and \<open>A\<close> is implied by neither.
  The function finds one removable watcher and then removes the clause of the first
  literal of \<open>oneHopAway\<close>, which is \<open>\<not>L \<or> A\<close>: the clauses left are \<open>\<not>L \<or> B\<close> and
  \<open>\<not>A \<or> B\<close>, and the only watcher left at \<open>L\<close> is the one of \<open>\<not>L \<or> B\<close>.
\<close>

theorem removeUselessBinaries_removes_needed_clause:
  "(\<exists>f'. removeUselessBinaries exEnv (Lit 0 False) exBins = Inr (True, f') \<and>
         removedUselessBin f' = 1 \<and>
         solver_binaryClauses (solver f') = [0, 2] \<and>
         solver_binwatches (solver f') ! 0 = [\<lparr>impliedLit = Lit 1 False, wclause = 0\<rparr>]) \<and>
   map (\<lambda>c. cl_lits (solver_mem exBinsSolver ! c)) [0, 1, 2] =
     [[Lit 0 True, Lit 1 False], [Lit 0 True, Lit 2 False], [Lit 2 True, Lit 1 False]] \<and>
   oneHop exEnv exBinsSolver (Lit 0 False) = {Lit 2 False, Lit 1 False} \<and>
   binImplied exEnv exBinsSolver (Lit 0 False) = {Lit 2 False, Lit 1 False} \<and>
   binImplied exEnv exBinsSolver (Lit 2 False) = {Lit 1 False} \<and>
   binImplied exEnv exBinsSolver (Lit 1 False) = {}"
  by (simp add: exBins_def exBinsSolver_def prim_ev useless_ev cong: let_weak_cong)

text \<open>
  C7. \<open>search\<close> is to restore the saved polarities, activities and decision heap on
  every exit path. On the unsatisfiable example with hyper-binary resolution switched
  on, \<open>orderLits\<close> probes \<open>x0\<close>, which fails, and the propagation of \<open>\<not>x0\<close> at level 0
  finds a conflict; \<open>search\<close> then returns false directly, and the polarities are
  those that the probing left behind and the heap still holds the assigned variables.
  With hyper-binary resolution switched off, the same conflict is found by \<open>tryBoth\<close>,
  the exit goes through the label \<open>end\<close>, and the polarities are those of the entry.
\<close>

theorem search_return_after_orderLits_skips_restore:
  "(\<exists>f'. search exEnv 2000000 100000 exUnsat2 = Inr (False, f') \<and>
         solver_polarity (solver exUnsat2) = [False, True, True] \<and>
         solver_polarity (solver f') = [True, False, False] \<and>
         solver_assigns (solver f') = [l_False, l_Undef, l_True] \<and>
         solver_order_heap (solver f') = [0, 1, 2]) \<and>
   (\<exists>f'. search exEnv 2000000 100000 exUnsat2Plain = Inr (False, f') \<and>
         solver_polarity (solver exUnsat2Plain) = [False, True, True] \<and>
         solver_polarity (solver f') = [False, True, True] \<and>
         solver_assigns (solver f') = [l_False, l_Undef, l_True] \<and>
         solver_order_heap (solver f') = [1])"
  by (simp add: exUnsat2_def exUnsat2Plain_def exUnsatSolver_def prim_ev search_ev
           del: Suc_numeral cong: let_weak_cong)

section \<open>Failed literals\<close>

lemma cancelUntil_level0: "solver_decisionLevel (cancelUntil 0 s) = 0"
  by (simp add: cancelUntil_def solver_decisionLevel_def Let_def)

lemma unassign_length [simp]: "length (unassign ls as) = length as"
  unfolding unassign_def by (induction ls arbitrary: as) simp_all

lemma cancelUntil_nVars [simp]: "solver_nVars (cancelUntil n s) = solver_nVars s"
  by (simp add: cancelUntil_def solver_nVars_def Let_def)

lemma enqueue_true:
  "var l < solver_nVars s \<Longrightarrow> solver_value (uncheckedEnqueue l s) l = l_True"
  by (cases l) (auto simp: solver_value_def uncheckedEnqueue_def litValue_def solver_nVars_def
      boolToLBool_def)

text \<open>
  C2. A probe is a new decision level, the literal enqueued, and propagation. When the
  propagation of the first or of the second literal finds a conflict, \<open>tryBoth\<close> ends
  with the branch for a failed literal: the solver backtracks to level 0, the failure is
  counted, the negation of the literal is enqueued at level 0, where it is true, and
  propagation runs; \<open>ok\<close> and the result are false exactly when this propagation finds a
  conflict.
\<close>

theorem tryBoth_failed_literal:
  "(failed (probeLit env l1 (tryBothHead f)) \<longrightarrow>
      tryBoth env l1 l2 f = Inr (failedLit env l1 (probeLit env l1 (tryBothHead f)))) \<and>
   (\<not> failed (probeLit env l1 (tryBothHead f)) \<and>
    solver_decisionLevel (solver (probeLit env l1 (tryBothHead f))) \<noteq> 0 \<and>
    afterFirst env l1 (probeLit env l1 (tryBothHead f)) = Inr f2 \<and>
    failed (probeLit env l2 f2) \<longrightarrow>
      tryBoth env l1 l2 f = Inr (failedLit env l2 (probeLit env l2 f2))) \<and>
   failed (probeLit env l g) =
     fst (propagate2 env False (uncheckedEnqueue l (newDecisionLevel (solver g)))) \<and>
   solver (probeLit env l g) =
     snd (propagate2 env False (uncheckedEnqueue l (newDecisionLevel (solver g)))) \<and>
   solver_decisionLevel (uncheckedEnqueue l (newDecisionLevel (solver g))) =
     Suc (solver_decisionLevel (solver g)) \<and>
   solver_decisionLevel (uncheckedEnqueue (neg l) (cancelUntil 0 (solver g))) = 0 \<and>
   (var l < solver_nVars (solver g) \<longrightarrow>
      solver_value (uncheckedEnqueue (neg l) (cancelUntil 0 (solver g))) (neg l) = l_True) \<and>
   failedLit env l g =
     (\<not> fst (propagate2 env False (uncheckedEnqueue (neg l) (cancelUntil 0 (solver g)))),
      g\<lparr>numFailed := numFailed g + 1,
        solver := (snd (propagate2 env False (uncheckedEnqueue (neg l) (cancelUntil 0 (solver g)))))
                    \<lparr>solver_ok :=
                       \<not> fst (propagate2 env False
                                (uncheckedEnqueue (neg l) (cancelUntil 0 (solver g))))\<rparr>\<rparr>)"
proof -
  have a: "failed (probeLit env l1 (tryBothHead f)) \<longrightarrow>
      tryBoth env l1 l2 f = Inr (failedLit env l1 (probeLit env l1 (tryBothHead f)))"
    by (simp add: tryBoth_def Let_def)
  have b: "\<not> failed (probeLit env l1 (tryBothHead f)) \<and>
    solver_decisionLevel (solver (probeLit env l1 (tryBothHead f))) \<noteq> 0 \<and>
    afterFirst env l1 (probeLit env l1 (tryBothHead f)) = Inr f2 \<and>
    failed (probeLit env l2 f2) \<longrightarrow>
      tryBoth env l1 l2 f = Inr (failedLit env l2 (probeLit env l2 f2))"
    by (simp add: tryBoth_def secondHalf_def Let_def)
  have c: "failed (probeLit env l g) =
     fst (propagate2 env False (uncheckedEnqueue l (newDecisionLevel (solver g))))"
    and d: "solver (probeLit env l g) =
     snd (propagate2 env False (uncheckedEnqueue l (newDecisionLevel (solver g))))"
    by (simp_all add: probeLit_def split_beta)
  have e: "solver_decisionLevel (uncheckedEnqueue l (newDecisionLevel (solver g))) =
     Suc (solver_decisionLevel (solver g))"
    by (simp add: solver_decisionLevel_def uncheckedEnqueue_def newDecisionLevel_def)
  have h: "solver_decisionLevel (uncheckedEnqueue (neg l) (cancelUntil 0 (solver g))) = 0"
    using cancelUntil_level0 [of "solver g"]
    by (simp add: solver_decisionLevel_def uncheckedEnqueue_def)
  have i: "var l < solver_nVars (solver g) \<longrightarrow>
      solver_value (uncheckedEnqueue (neg l) (cancelUntil 0 (solver g))) (neg l) = l_True"
    using enqueue_true [of "neg l" "cancelUntil 0 (solver g)"] by (simp add: neg_def)
  have j: "failedLit env l g =
     (\<not> fst (propagate2 env False (uncheckedEnqueue (neg l) (cancelUntil 0 (solver g)))),
      g\<lparr>numFailed := numFailed g + 1,
        solver := (snd (propagate2 env False (uncheckedEnqueue (neg l) (cancelUntil 0 (solver g)))))
                    \<lparr>solver_ok :=
                       \<not> fst (propagate2 env False
                                (uncheckedEnqueue (neg l) (cancelUntil 0 (solver g))))\<rparr>\<rparr>)"
    by (simp add: failedLit_def split_beta Let_def)
  show ?thesis
    apply (rule conjI, rule a)
    apply (rule conjI, rule b)
    apply (rule conjI, rule c)
    apply (rule conjI, rule d)
    apply (rule conjI, rule e)
    apply (rule conjI, rule h)
    apply (rule conjI, rule i)
    apply (rule j)
    done
qed

theorem tryBoth_failed_literal_witness:
  "failed (probeLit exEnv (Lit 0 False) (tryBothHead exFail)) \<and>
   (\<exists>f'. tryBoth exEnv (Lit 0 False) (Lit 0 True) exFail = Inr (True, f') \<and>
         numFailed f' = numFailed exFail + 1 \<and> solver_ok (solver f') \<and>
         solver_trail_lim (solver f') = [] \<and> solver_trail (solver f') = [Lit 0 True]) \<and>
   \<not> failed (probeLit exEnv (Lit 0 True) (tryBothHead exFail)) \<and>
   (\<exists>f2. afterFirst exEnv (Lit 0 True) (probeLit exEnv (Lit 0 True) (tryBothHead exFail)) = Inr f2 \<and>
         failed (probeLit exEnv (Lit 0 False) f2) \<and>
         (\<exists>f'. tryBoth exEnv (Lit 0 True) (Lit 0 False) exFail = Inr (True, f') \<and>
               numFailed f' = numFailed exFail + 1 \<and> solver_ok (solver f') \<and>
               solver_trail_lim (solver f') = [] \<and> solver_trail (solver f') = [Lit 0 True])) \<and>
   failed (probeLit exEnv (Lit 0 False) (tryBothHead exUnsat2Plain)) \<and>
   (\<exists>f'. tryBoth exEnv (Lit 0 False) (Lit 0 True) exUnsat2Plain = Inr (False, f') \<and>
         numFailed f' = numFailed exUnsat2Plain + 1 \<and> \<not> solver_ok (solver f') \<and>
         solver_trail_lim (solver f') = [])"
proof -
  note ex = exFail_def exFailSolver_def exUnsat2Plain_def exUnsatSolver_def
  note tb = tryBothHead_def probeLit_def failedLit_def afterFirst_def recordFirst_def
    xorsAfterFirst_def hyperBin_def
  let ?p1 = "probeLit exEnv (Lit 0 False) (tryBothHead exFail)"
  let ?q1 = "probeLit exEnv (Lit 0 True) (tryBothHead exFail)"
  let ?u1 = "probeLit exEnv (Lit 0 False) (tryBothHead exUnsat2Plain)"
  have a1: "failed ?p1" by (simp add: ex prim_ev tb cong: let_weak_cong)
  have a2: "\<exists>f'. failedLit exEnv (Lit 0 False) ?p1 = (True, f') \<and>
         numFailed f' = numFailed exFail + 1 \<and> solver_ok (solver f') \<and>
         solver_trail_lim (solver f') = [] \<and> solver_trail (solver f') = [Lit 0 True]"
    by (simp add: ex prim_ev tb cong: let_weak_cong)
  have a3: "tryBoth exEnv (Lit 0 False) (Lit 0 True) exFail = Inr (failedLit exEnv (Lit 0 False) ?p1)"
    using tryBoth_failed_literal [of exEnv "Lit 0 False" exFail "Lit 0 True"] a1 by blast
  have b1: "\<not> failed ?q1" and b2: "solver_decisionLevel (solver ?q1) \<noteq> 0"
    by (simp_all add: ex prim_ev tb cong: let_weak_cong)
  let ?f2 = "projr (afterFirst exEnv (Lit 0 True) ?q1)"
  let ?r2 = "failedLit exEnv (Lit 0 False) (probeLit exEnv (Lit 0 False) ?f2)"
  have b4: "afterFirst exEnv (Lit 0 True) ?q1 = Inr ?f2"
    by (simp add: ex prim_ev tb cong: let_weak_cong)
  have b5: "failed (probeLit exEnv (Lit 0 False) ?f2)"
    by (simp add: ex prim_ev tb cong: let_weak_cong)
  have b6: "fst ?r2" "numFailed (snd ?r2) = numFailed exFail + 1" "solver_ok (solver (snd ?r2))"
    "solver_trail_lim (solver (snd ?r2)) = []" "solver_trail (solver (snd ?r2)) = [Lit 0 True]"
    by (simp_all add: ex prim_ev tb cong: let_weak_cong)
  have b8: "tryBoth exEnv (Lit 0 True) (Lit 0 False) exFail = Inr ?r2"
    using tryBoth_failed_literal [of exEnv "Lit 0 True" exFail "Lit 0 False" ?f2] b1 b2 b4 b5
    by blast
  have b9: "tryBoth exEnv (Lit 0 True) (Lit 0 False) exFail = Inr (True, snd ?r2)"
    using b8 b6(1) by (simp add: prod_eq_iff)
  have c1: "failed ?u1" by (simp add: ex prim_ev tb cong: let_weak_cong)
  have c2: "\<exists>f'. failedLit exEnv (Lit 0 False) ?u1 = (False, f') \<and>
         numFailed f' = numFailed exUnsat2Plain + 1 \<and> \<not> solver_ok (solver f') \<and>
         solver_trail_lim (solver f') = []"
    by (simp add: ex prim_ev tb cong: let_weak_cong)
  have c3: "tryBoth exEnv (Lit 0 False) (Lit 0 True) exUnsat2Plain =
            Inr (failedLit exEnv (Lit 0 False) ?u1)"
    using tryBoth_failed_literal [of exEnv "Lit 0 False" exUnsat2Plain "Lit 0 True"] c1 by blast
  have g1: "\<exists>f'. tryBoth exEnv (Lit 0 False) (Lit 0 True) exFail = Inr (True, f') \<and>
         numFailed f' = numFailed exFail + 1 \<and> solver_ok (solver f') \<and>
         solver_trail_lim (solver f') = [] \<and> solver_trail (solver f') = [Lit 0 True]"
    using a2 a3 by auto
  have g2: "\<exists>f2. afterFirst exEnv (Lit 0 True) ?q1 = Inr f2 \<and>
         failed (probeLit exEnv (Lit 0 False) f2) \<and>
         (\<exists>f'. tryBoth exEnv (Lit 0 True) (Lit 0 False) exFail = Inr (True, f') \<and>
               numFailed f' = numFailed exFail + 1 \<and> solver_ok (solver f') \<and>
               solver_trail_lim (solver f') = [] \<and> solver_trail (solver f') = [Lit 0 True])"
    using b4 b5 b6 b9 by blast
  have g3: "\<exists>f'. tryBoth exEnv (Lit 0 False) (Lit 0 True) exUnsat2Plain = Inr (False, f') \<and>
         numFailed f' = numFailed exUnsat2Plain + 1 \<and> \<not> solver_ok (solver f') \<and>
         solver_trail_lim (solver f') = []"
    using c2 c3 by auto
  show ?thesis using a1 g1 b1 g2 c1 g3 by blast
qed

section \<open>What the parts of the searcher leave alone\<close>

lemma sameMarks_refl [simp]: "sameMarks f f"
  by (simp add: sameMarks_def)


















section \<open>The multiplier of the propagation budget\<close>

























end
